theory Spec2Isabelle
  imports Main "HOL-Library.Word" "HOL-Library.Multiset"
begin

unbundle bit_operations_syntax

section \<open>The mount subsystem of wimlib (src/src/mount\_image.c)\<close>

text \<open>
  The development embeds the functions of \<^verbatim>\<open>mount_image.c\<close> that the properties below
  are about. Pointers are addresses (natural numbers) into explicit stores, C integers
  are words of their width, and every call that leaves the process (the C library, the
  kernel, the archive reader) takes its outcome from an environment argument, so that
  each failure branch of the source is a branch of the model. A model function returns
  \<open>None\<close> exactly where the C code would read through a null or dangling pointer or
  past the end of an array.
\<close>

subsection \<open>Integer types and error numbers\<close>

type_synonym u8 = "8 word"
type_synonym u16 = "16 word"
type_synonym u32 = "32 word"
type_synonym u64 = "64 word"

text \<open>\<^verbatim>\<open>int\<close>, \<^verbatim>\<open>int32_t\<close>, \<^verbatim>\<open>pid_t\<close> and \<^verbatim>\<open>off_t\<close> are words read with \<open>sint\<close>.\<close>

type_synonym int32 = "32 word"
type_synonym off_t = "64 word"

text \<open>The values of \<^verbatim>\<open><errno.h>\<close> on Linux, for the error numbers the file uses or
  that the calls it makes can leave in \<^verbatim>\<open>errno\<close>.\<close>

datatype errno = EPERM | ENOENT | EIO | EBADF | ENOMEM | EACCES | EEXIST | ENOTDIR
  | EISDIR | EINVAL | ENFILE | EMFILE | EFBIG | ENOSPC | EROFS | ENOTEMPTY | ENOATTR
  | EOVERFLOW | ENOTSUP | ESRCH | ETIMEDOUT

fun errno_val :: "errno \<Rightarrow> int" where
  "errno_val EPERM = 1"
| "errno_val ENOENT = 2"
| "errno_val ESRCH = 3"
| "errno_val EIO = 5"
| "errno_val EBADF = 9"
| "errno_val ENOMEM = 12"
| "errno_val EACCES = 13"
| "errno_val EEXIST = 17"
| "errno_val ENOTDIR = 20"
| "errno_val EISDIR = 21"
| "errno_val EINVAL = 22"
| "errno_val ENFILE = 23"
| "errno_val EMFILE = 24"
| "errno_val EFBIG = 27"
| "errno_val ENOSPC = 28"
| "errno_val EROFS = 30"
| "errno_val ENOTEMPTY = 39"
| "errno_val ENOATTR = 61"
| "errno_val EOVERFLOW = 75"
| "errno_val ENOTSUP = 95"
| "errno_val ETIMEDOUT = 110"

subsection \<open>Data model\<close>

text \<open>\<^verbatim>\<open>struct wimlib_fd\<close>: a file descriptor open on the WIM filesystem. \<open>f_inode\<close> and
  \<open>f_lte\<close> are addresses; \<open>staging_fd\<close> is the native descriptor, \<open>-1\<close> when there is none.\<close>

record wimlib_fd =
  f_inode :: nat
  f_lte :: "nat option"
  staging_fd :: int
  idx :: u16
  fd_stream_id :: u32

text \<open>The fields of \<^verbatim>\<open>struct ads_entry\<close> and \<^verbatim>\<open>struct inode\<close> that the mount code reads
  or writes. \<open>num_ads\<close> is the length of \<open>ads_entries\<close>; \<open>fds\<close> is the array of
  \<open>num_allocated_fds\<close> slots, an empty slot being \<open>None\<close>.\<close>

record ads_entry =
  ads_stream_id :: u32
  stream_name_utf8 :: string
  ads_lte :: "nat option"

record inode =
  ino :: u64
  attributes :: u32
  link_count :: u32
  i_lte :: "nat option"
  ads_entries :: "ads_entry list"
  next_stream_id :: u32
  fds :: "wimlib_fd option list"
  num_opened_fds :: u16
  num_allocated_fds :: u16

datatype resource_location =
    RESOURCE_NONEXISTENT
  | RESOURCE_IN_WIM
  | RESOURCE_IN_FILE_ON_DISK
  | RESOURCE_IN_STAGING_FILE
  | RESOURCE_IN_ATTACHED_BUFFER

text \<open>The fields of \<^verbatim>\<open>struct lookup_table_entry\<close> (a blob descriptor) that the mount code
  uses. \<open>staging_file_name\<close> and \<open>file_on_disk\<close> are one member of a union in the source,
  hence one field here. \<open>res_data\<close> stands for the uncompressed bytes that the resource
  entry (or the attached buffer) designates; \<open>original_size\<close> is
  \<^verbatim>\<open>resource_entry.original_size\<close>, which \<^verbatim>\<open>wim_resource_size\<close> returns.\<close>

record lookup_table_entry =
  hash :: "u8 list"
  refcnt :: u32
  lte_num_opened_fds :: u16
  resource_location :: resource_location
  staging_file_name :: "string option"
  lte_inode :: "nat option"
  original_size :: u64
  res_size :: u64
  res_data :: "u8 list"

text \<open>The mounted image as the daemon holds it: the flags given to \<^verbatim>\<open>wimlib_mount_image\<close>,
  the inodes and the blob descriptors (two
  stores, by address), the descriptors linked into the lookup table and into the staging
  list (most recently added first), the list of the inodes of the image, the image tree as
  the table that path lookup consults, the files of the staging directory, and the native descriptors the process
  has open.\<close>

record mount_state =
  mount_flags :: u32
  inodes :: "nat \<rightharpoonup> inode"
  ltes :: "nat \<rightharpoonup> lookup_table_entry"
  lookup_table :: "nat list"
  staging_list :: "nat list"
  image_inode_list :: "nat list"
  dentry_table :: "string \<rightharpoonup> nat \<times> nat"
  staging_files :: "string \<rightharpoonup> u8 list"
  open_fds :: "int multiset"

subsection \<open>Allocating a handle: \<^verbatim>\<open>alloc_wimlib_fd\<close>\<close>

definition fds_per_alloc :: u16 where
  "fds_per_alloc = 8"

definition max_fds :: u16 where
  "max_fds = 0xffff"

text \<open>The outcome of the two allocations the function makes.\<close>

record alloc_env =
  realloc_ok :: bool
  calloc_ok :: bool

text \<open>The scan \<^verbatim>\<open>for (u16 i = 0; ; i++) if (!inode->fds[i])\<close>: the index of the first empty
  slot, \<open>None\<close> when the scan leaves the array.\<close>

fun first_empty_slot :: "wimlib_fd option list \<Rightarrow> nat option" where
  "first_empty_slot [] = None"
| "first_empty_slot (None # xs) = Some 0"
| "first_empty_slot (Some fd # xs) = map_option Suc (first_empty_slot xs)"

text \<open>The block that enlarges the slot array when every allocated slot is occupied.\<close>

definition grow_fds :: "inode \<Rightarrow> inode" where
  "grow_fds i =
     (let num_new_fds = min fds_per_alloc (max_fds - num_allocated_fds i)
      in i\<lparr>fds := fds i @ replicate (unat num_new_fds) None,
            num_allocated_fds := num_allocated_fds i + num_new_fds\<rparr>)"

definition lte_inc_num_opened_fds :: "mount_state \<Rightarrow> nat \<Rightarrow> mount_state option" where
  "lte_inc_num_opened_fds s p =
     (case ltes s p of
        None \<Rightarrow> None
      | Some l \<Rightarrow> Some (s\<lparr>ltes := (ltes s)(p \<mapsto> l\<lparr>lte_num_opened_fds := lte_num_opened_fds l + 1\<rparr>)\<rparr>))"

definition alloc_wimlib_fd ::
  "mount_state \<Rightarrow> nat \<Rightarrow> u32 \<Rightarrow> nat option \<Rightarrow> bool \<Rightarrow> alloc_env
     \<Rightarrow> (int \<times> wimlib_fd option \<times> mount_state) option" where
  "alloc_wimlib_fd s ip stream_id lte readonly env =
     (case inodes s ip of
        None \<Rightarrow> None
      | Some i \<Rightarrow>
          if num_opened_fds i = num_allocated_fds i \<and> num_allocated_fds i = max_fds
          then Some (- errno_val EMFILE, None, s)
          else if num_opened_fds i = num_allocated_fds i \<and> \<not> realloc_ok env
          then Some (- errno_val ENOMEM, None, s)
          else
            let i1 = (if num_opened_fds i = num_allocated_fds i then grow_fds i else i);
                s1 = s\<lparr>inodes := (inodes s)(ip \<mapsto> i1)\<rparr>
            in case first_empty_slot (fds i1) of
                 None \<Rightarrow> None
               | Some k \<Rightarrow>
                   if \<not> calloc_ok env then Some (- errno_val ENOMEM, None, s1)
                   else
                     let fd = \<lparr>f_inode = ip, f_lte = lte, staging_fd = - 1,
                               idx = of_nat k, fd_stream_id = stream_id\<rparr>;
                         i2 = i1\<lparr>fds := (fds i1)[k := Some fd],
                                 num_opened_fds := num_opened_fds i1 + 1\<rparr>;
                         s2 = s\<lparr>inodes := (inodes s)(ip \<mapsto> i2)\<rparr>
                     in case lte of
                          None \<Rightarrow> Some (0, Some fd, s2)
                        | Some p \<Rightarrow>
                            if readonly then Some (0, Some fd, s2)
                            else map_option (\<lambda>s3. (0, Some fd, s3))
                                   (lte_inc_num_opened_fds s2 p))"

text \<open>The consistency of an inode's handle array that the source relies on (and asserts
  in \<^verbatim>\<open>inode_put_fd\<close>): \<open>num_allocated_fds\<close> is the length of the array and
  \<open>num_opened_fds\<close> counts its occupied slots.\<close>

definition occupied :: "wimlib_fd option list \<Rightarrow> nat" where
  "occupied xs = length (filter (\<lambda>x. x \<noteq> None) xs)"

definition inode_fds_ok :: "inode \<Rightarrow> bool" where
  "inode_fds_ok i \<longleftrightarrow>
     length (fds i) = unat (num_allocated_fds i) \<and>
     occupied (fds i) = unat (num_opened_fds i)"


subsection \<open>Constants declared outside the file\<close>

text \<open>The error codes of \<^verbatim>\<open>enum wimlib_error_code\<close>, the flag masks and the version code
  come from \<^verbatim>\<open>wimlib.h\<close> and \<^verbatim>\<open>config.h\<close>, which are not part of the sources at hand. The
  functions below take them as a parameter.\<close>

record wimlib_consts =
  WIMLIB_VERSION_CODE :: u32
  WIMLIB_ERR_INVALID_UNMOUNT_MESSAGE :: int
  WIMLIB_ERR_MQUEUE :: int
  WIMLIB_ERR_NOMEM :: int
  WIMLIB_ERR_TIMEOUT :: int
  WIMLIB_ERR_FILESYSTEM_DAEMON_CRASHED :: int
  WIMLIB_ERR_STAT :: int
  WIMLIB_ERR_OPEN :: int
  WIMLIB_MOUNT_FLAG_READWRITE :: u32
  WIMLIB_MOUNT_FLAG_STREAM_INTERFACE_XATTR :: u32
  WIMLIB_UNMOUNT_FLAG_COMMIT :: u32
  WIMLIB_UNMOUNT_FLAG_CHECK_INTEGRITY :: u32
  WIMLIB_UNMOUNT_FLAG_REBUILD :: u32
  WIMLIB_UNMOUNT_FLAG_RECOMPRESS :: u32
  WIMLIB_WRITE_FLAG_CHECK_INTEGRITY :: u32
  WIMLIB_WRITE_FLAG_REBUILD :: u32
  WIMLIB_WRITE_FLAG_RECOMPRESS :: u32

subsection \<open>The unmount protocol\<close>

definition MSG_VERSION_TOO_HIGH :: int where
  "MSG_VERSION_TOO_HIGH = - 1"

definition MSG_BREAK_LOOP :: int where
  "MSG_BREAK_LOOP = - 2"

definition MSG_TYPE_UNMOUNT_REQUEST :: u32 where
  "MSG_TYPE_UNMOUNT_REQUEST = 0"

definition MSG_TYPE_DAEMON_INFO :: u32 where
  "MSG_TYPE_DAEMON_INFO = 1"

definition MSG_TYPE_UNMOUNT_FINISHED :: u32 where
  "MSG_TYPE_UNMOUNT_FINISHED = 2"

definition MSG_TYPE_MAX :: u32 where
  "MSG_TYPE_MAX = 3"

text \<open>\<^verbatim>\<open>struct unmount_msg_hdr\<close>, and the mailbox a message is received into: the header and
  the two 32-bit cells after it, which the packed message structures overlay
  (\<^verbatim>\<open>unmount_flags\<close>, \<^verbatim>\<open>daemon_pid\<close> and \<^verbatim>\<open>status\<close> are cell 4, \<^verbatim>\<open>mount_flags\<close> of
  \<^verbatim>\<open>struct msg_daemon_info\<close> is cell 5).\<close>

record unmount_msg_hdr =
  min_version :: u32
  cur_version :: u32
  msg_type :: u32
  msg_size :: u32

record mailbox =
  hdr :: unmount_msg_hdr
  cell4 :: u32
  cell5 :: u32

definition sizeof_unmount_msg_hdr :: nat where
  "sizeof_unmount_msg_hdr = 16"

definition sizeof_msg_unmount_request :: nat where
  "sizeof_msg_unmount_request = 20"

definition sizeof_msg_daemon_info :: nat where
  "sizeof_msg_daemon_info = 24"

definition sizeof_msg_unmount_finished :: nat where
  "sizeof_msg_unmount_finished = 20"

text \<open>\<^verbatim>\<open>struct msg_handler_context\<close>, with the members of both arms of its union; the
  daemon's arm points to the filesystem context, of which the handler reads
  \<^verbatim>\<open>mount_flags\<close>.\<close>

record msg_handler_context =
  is_daemon :: bool
  timeout_seconds :: int
  unmount_daemon_pid :: int32
  unmount_mount_flags :: u32
  unmount_status :: int32
  wimfs_mount_flags :: u32

text \<open>The calls a message loop makes to the outside, in the order it makes them.\<close>

datatype proto_call =
    Call_mq_timedreceive int
  | Call_kill int32
  | Call_send_daemon_info_msg int32 u32
  | Call_rebuild_wim u32
  | Call_delete_staging_dir
  | Call_send_unmount_finished_msg int

text \<open>What one \<^verbatim>\<open>mq_timedreceive\<close> yields: failure with an \<^verbatim>\<open>errno\<close> (\<open>ETIMEDOUT\<close> when
  the timeout expires), or a number of bytes and the mailbox they were received into.\<close>

datatype mq_result =
    MQ_FAILED errno
  | MQ_RECEIVED nat mailbox

text \<open>One turn of a message loop as the outside determines it: what the receive yields,
  and the value \<^verbatim>\<open>errno\<close> would have after \<^verbatim>\<open>kill(pid, 0)\<close> at that moment (\<open>None\<close> for 0,
  the process exists and may be signalled).\<close>

record tick =
  received :: mq_result
  kill_errno :: "errno option"

text \<open>The outcomes of the calls the daemon's handler makes: its own process id, whether
  \<^verbatim>\<open>mq_send\<close> of the daemon-info message succeeds, and the values \<^verbatim>\<open>rebuild_wim\<close> and
  \<^verbatim>\<open>delete_staging_dir\<close> return.\<close>

record daemon_env =
  getpid :: int32
  send_daemon_info_ok :: bool
  rebuild_wim_ret :: int
  delete_staging_dir_ret :: int

definition send_daemon_info_msg :: "wimlib_consts \<Rightarrow> daemon_env \<Rightarrow> int" where
  "send_daemon_info_msg K env =
     (if send_daemon_info_ok env then 0 else WIMLIB_ERR_MQUEUE K)"

text \<open>The translation of the unmount flags into write flags, inside the handler.\<close>

definition commit_write_flags :: "wimlib_consts \<Rightarrow> u32 \<Rightarrow> u32" where
  "commit_write_flags K unmount_flags =
     (let w0 = 0;
          w1 = (if unmount_flags AND WIMLIB_UNMOUNT_FLAG_CHECK_INTEGRITY K \<noteq> 0
                then w0 OR WIMLIB_WRITE_FLAG_CHECK_INTEGRITY K else w0);
          w2 = (if unmount_flags AND WIMLIB_UNMOUNT_FLAG_REBUILD K \<noteq> 0
                then w1 OR WIMLIB_WRITE_FLAG_REBUILD K else w1)
      in if unmount_flags AND WIMLIB_UNMOUNT_FLAG_RECOMPRESS K \<noteq> 0
         then w2 OR WIMLIB_WRITE_FLAG_RECOMPRESS K else w2)"

text \<open>The code from the label \<^verbatim>\<open>out:\<close> of \<^verbatim>\<open>msg_unmount_request_handler\<close> on.\<close>

definition unmount_request_out ::
  "wimlib_consts \<Rightarrow> daemon_env \<Rightarrow> msg_handler_context \<Rightarrow> int \<Rightarrow> proto_call list
     \<Rightarrow> int \<times> proto_call list" where
  "unmount_request_out K env ctx status calls =
     (if wimfs_mount_flags ctx AND WIMLIB_MOUNT_FLAG_READWRITE K \<noteq> 0 then
        (let ret = delete_staging_dir_ret env;
             status' = (if ret \<noteq> 0 \<and> status = 0 then ret else status)
         in (MSG_BREAK_LOOP,
             calls @ [Call_delete_staging_dir, Call_send_unmount_finished_msg status']))
      else (MSG_BREAK_LOOP, calls @ [Call_send_unmount_finished_msg status]))"

text \<open>\<^verbatim>\<open>msg_unmount_request_handler\<close>. \<^verbatim>\<open>rebuild_wim\<close> is the commit pipeline; here it is a
  call with its return value.\<close>

definition msg_unmount_request_handler ::
  "wimlib_consts \<Rightarrow> daemon_env \<Rightarrow> mailbox \<Rightarrow> msg_handler_context
     \<Rightarrow> int \<times> proto_call list" where
  "msg_unmount_request_handler K env msg ctx =
     (if unat (msg_size (hdr msg)) < sizeof_msg_unmount_request
      then unmount_request_out K env ctx (WIMLIB_ERR_INVALID_UNMOUNT_MESSAGE K) []
      else
        let unmount_flags = cell4 msg;
            ret = send_daemon_info_msg K env;
            calls1 = [Call_send_daemon_info_msg (getpid env) (wimfs_mount_flags ctx)]
        in if ret \<noteq> 0 then unmount_request_out K env ctx ret calls1
           else if wimfs_mount_flags ctx AND WIMLIB_MOUNT_FLAG_READWRITE K \<noteq> 0 then
             (if unmount_flags AND WIMLIB_UNMOUNT_FLAG_COMMIT K \<noteq> 0
              then unmount_request_out K env ctx (rebuild_wim_ret env)
                     (calls1 @ [Call_rebuild_wim (commit_write_flags K unmount_flags)])
              else unmount_request_out K env ctx 0 calls1)
           else unmount_request_out K env ctx 0 calls1)"

definition msg_daemon_info_handler ::
  "wimlib_consts \<Rightarrow> mailbox \<Rightarrow> msg_handler_context \<Rightarrow> int \<times> msg_handler_context" where
  "msg_daemon_info_handler K msg ctx =
     (if unat (msg_size (hdr msg)) < sizeof_msg_daemon_info
      then (WIMLIB_ERR_INVALID_UNMOUNT_MESSAGE K, ctx)
      else (0, ctx\<lparr>unmount_daemon_pid := cell4 msg,
                   unmount_mount_flags := cell5 msg,
                   timeout_seconds := 1\<rparr>))"

definition msg_unmount_finished_handler ::
  "wimlib_consts \<Rightarrow> mailbox \<Rightarrow> msg_handler_context \<Rightarrow> int \<times> msg_handler_context" where
  "msg_unmount_finished_handler K msg ctx =
     (if unat (msg_size (hdr msg)) < sizeof_msg_unmount_finished
      then (WIMLIB_ERR_INVALID_UNMOUNT_MESSAGE K, ctx)
      else (MSG_BREAK_LOOP, ctx\<lparr>unmount_status := cell4 msg\<rparr>))"

text \<open>\<^verbatim>\<open>unmount_timed_out_cb\<close>; the second argument is what \<^verbatim>\<open>kill\<close> leaves in \<^verbatim>\<open>errno\<close>.\<close>

definition unmount_timed_out_cb ::
  "wimlib_consts \<Rightarrow> errno option \<Rightarrow> msg_handler_context \<Rightarrow> int \<times> proto_call list" where
  "unmount_timed_out_cb K kerr ctx =
     (if unmount_daemon_pid ctx = 0 then (WIMLIB_ERR_FILESYSTEM_DAEMON_CRASHED K, [])
      else
        (case kerr of
           Some ESRCH \<Rightarrow>
             (WIMLIB_ERR_FILESYSTEM_DAEMON_CRASHED K, [Call_kill (unmount_daemon_pid ctx)])
         | Some e \<Rightarrow> (WIMLIB_ERR_MQUEUE K, [Call_kill (unmount_daemon_pid ctx)])
         | None \<Rightarrow> (0, [Call_kill (unmount_daemon_pid ctx)])))"

text \<open>\<^verbatim>\<open>receive_message\<close> with the handler table of the unmount command
  (\<^verbatim>\<open>unmount_msg_handler_callbacks\<close>: no handler for \<^verbatim>\<open>MSG_TYPE_UNMOUNT_REQUEST\<close>).\<close>

definition unmount_receive_message ::
  "wimlib_consts \<Rightarrow> mq_result \<Rightarrow> msg_handler_context \<Rightarrow> int \<times> msg_handler_context" where
  "unmount_receive_message K r ctx =
     (case r of
        MQ_FAILED e \<Rightarrow>
          (if e = ETIMEDOUT then (WIMLIB_ERR_TIMEOUT K, ctx) else (WIMLIB_ERR_MQUEUE K, ctx))
      | MQ_RECEIVED bytes_received mb \<Rightarrow>
          if bytes_received < sizeof_unmount_msg_hdr \<or>
             bytes_received \<noteq> unat (msg_size (hdr mb))
          then (WIMLIB_ERR_INVALID_UNMOUNT_MESSAGE K, ctx)
          else if WIMLIB_VERSION_CODE K < min_version (hdr mb) then (MSG_VERSION_TOO_HIGH, ctx)
          else if msg_type (hdr mb) \<ge> MSG_TYPE_MAX
          then (WIMLIB_ERR_INVALID_UNMOUNT_MESSAGE K, ctx)
          else if msg_type (hdr mb) = MSG_TYPE_DAEMON_INFO then msg_daemon_info_handler K mb ctx
          else if msg_type (hdr mb) = MSG_TYPE_UNMOUNT_FINISHED
          then msg_unmount_finished_handler K mb ctx
          else (WIMLIB_ERR_INVALID_UNMOUNT_MESSAGE K, ctx))"

text \<open>The \<^verbatim>\<open>while (1)\<close> of \<^verbatim>\<open>message_loop\<close> with the callbacks of the unmount command, run
  over the turns the outside provides. The loop has no bound of its own: when the turns
  are used up and it has not left, the result is \<open>None\<close>. The calls made are collected in
  order.\<close>

fun unmount_message_loop ::
  "wimlib_consts \<Rightarrow> tick list \<Rightarrow> msg_handler_context \<Rightarrow> proto_call list
     \<Rightarrow> (int \<times> msg_handler_context \<times> proto_call list) option" where
  "unmount_message_loop K [] ctx calls = None"
| "unmount_message_loop K (t # ts) ctx calls =
     (let calls1 = calls @ [Call_mq_timedreceive (timeout_seconds ctx)];
          (ret, ctx1) = unmount_receive_message K (received t) ctx
      in if ret = 0 \<or> ret = MSG_VERSION_TOO_HIGH then unmount_message_loop K ts ctx1 calls1
         else if ret = MSG_BREAK_LOOP then Some (0, ctx1, calls1)
         else if ret = WIMLIB_ERR_TIMEOUT K then
           (let (ret2, calls2) = unmount_timed_out_cb K (kill_errno t) ctx1
            in if ret2 = 0 then unmount_message_loop K ts ctx1 (calls1 @ calls2)
               else Some (ret2, ctx1, calls1 @ calls2))
         else Some (ret, ctx1, calls1))"

text \<open>The outcome of \<^verbatim>\<open>get_mailbox\<close>, which \<^verbatim>\<open>message_loop\<close> calls before it loops.\<close>

datatype mailbox_result = Mailbox_ok | Mailbox_too_small | Mailbox_nomem

definition get_mailbox :: "wimlib_consts \<Rightarrow> mailbox_result \<Rightarrow> int" where
  "get_mailbox K r =
     (case r of
        Mailbox_ok \<Rightarrow> 0
      | Mailbox_too_small \<Rightarrow> WIMLIB_ERR_MQUEUE K
      | Mailbox_nomem \<Rightarrow> WIMLIB_ERR_NOMEM K)"

definition message_loop_unmount ::
  "wimlib_consts \<Rightarrow> mailbox_result \<Rightarrow> tick list \<Rightarrow> msg_handler_context
     \<Rightarrow> (int \<times> msg_handler_context \<times> proto_call list) option" where
  "message_loop_unmount K mbr ts ctx =
     (let ret = get_mailbox K mbr
      in if ret \<noteq> 0 then Some (ret, ctx, []) else unmount_message_loop K ts ctx [])"

text \<open>The handler context \<^verbatim>\<open>wimlib_unmount_image\<close> starts its loop with, and the end of
  that function: the loop's return value, replaced by the received status when it is 0.
  The result is a C \<^verbatim>\<open>int\<close>; the status is read as a signed 32-bit value.\<close>

definition unmount_handler_ctx :: msg_handler_context where
  "unmount_handler_ctx =
     \<lparr>is_daemon = False, timeout_seconds = 5, unmount_daemon_pid = 0,
      unmount_mount_flags = 0, unmount_status = 0, wimfs_mount_flags = 0\<rparr>"

definition wimlib_unmount_image_wait ::
  "wimlib_consts \<Rightarrow> mailbox_result \<Rightarrow> tick list \<Rightarrow> (int \<times> proto_call list) option" where
  "wimlib_unmount_image_wait K mbr ts =
     (case message_loop_unmount K mbr ts unmount_handler_ctx of
        None \<Rightarrow> None
      | Some (ret, ctx, calls) \<Rightarrow>
          Some (if ret = 0 then sint (unmount_status ctx) else ret, calls))"

text \<open>The same loop in the daemon (\<^verbatim>\<open>wimfs_destroy\<close>), with \<^verbatim>\<open>daemon_msg_handler_callbacks\<close>:
  the only handler is the one for \<^verbatim>\<open>MSG_TYPE_UNMOUNT_REQUEST\<close>, and \<^verbatim>\<open>daemon_timed_out_cb\<close>
  returns \<^verbatim>\<open>WIMLIB_ERR_TIMEOUT\<close>.\<close>

definition daemon_receive_message ::
  "wimlib_consts \<Rightarrow> daemon_env \<Rightarrow> mq_result \<Rightarrow> msg_handler_context
     \<Rightarrow> int \<times> proto_call list" where
  "daemon_receive_message K env r ctx =
     (case r of
        MQ_FAILED e \<Rightarrow>
          (if e = ETIMEDOUT then (WIMLIB_ERR_TIMEOUT K, []) else (WIMLIB_ERR_MQUEUE K, []))
      | MQ_RECEIVED bytes_received mb \<Rightarrow>
          if bytes_received < sizeof_unmount_msg_hdr \<or>
             bytes_received \<noteq> unat (msg_size (hdr mb))
          then (WIMLIB_ERR_INVALID_UNMOUNT_MESSAGE K, [])
          else if WIMLIB_VERSION_CODE K < min_version (hdr mb) then (MSG_VERSION_TOO_HIGH, [])
          else if msg_type (hdr mb) \<ge> MSG_TYPE_MAX
          then (WIMLIB_ERR_INVALID_UNMOUNT_MESSAGE K, [])
          else if msg_type (hdr mb) = MSG_TYPE_UNMOUNT_REQUEST
          then msg_unmount_request_handler K env mb ctx
          else (WIMLIB_ERR_INVALID_UNMOUNT_MESSAGE K, []))"

definition daemon_timed_out_cb :: "wimlib_consts \<Rightarrow> msg_handler_context \<Rightarrow> int" where
  "daemon_timed_out_cb K ctx = WIMLIB_ERR_TIMEOUT K"

fun daemon_message_loop ::
  "wimlib_consts \<Rightarrow> daemon_env \<Rightarrow> mq_result list \<Rightarrow> msg_handler_context \<Rightarrow> proto_call list
     \<Rightarrow> (int \<times> proto_call list) option" where
  "daemon_message_loop K env [] ctx calls = None"
| "daemon_message_loop K env (r # rs) ctx calls =
     (let calls1 = calls @ [Call_mq_timedreceive (timeout_seconds ctx)];
          (ret, calls2) = daemon_receive_message K env r ctx
      in if ret = 0 \<or> ret = MSG_VERSION_TOO_HIGH
         then daemon_message_loop K env rs ctx (calls1 @ calls2)
         else if ret = MSG_BREAK_LOOP then Some (0, calls1 @ calls2)
         else if ret = WIMLIB_ERR_TIMEOUT K then
           (let ret2 = daemon_timed_out_cb K ctx
            in if ret2 = 0 then daemon_message_loop K env rs ctx (calls1 @ calls2)
               else Some (ret2, calls1 @ calls2))
         else Some (ret, calls1 @ calls2))"

text \<open>The context \<^verbatim>\<open>wimfs_destroy\<close> starts the daemon's loop with, for a mount with the given
  flags.\<close>

definition daemon_handler_ctx :: "u32 \<Rightarrow> msg_handler_context" where
  "daemon_handler_ctx mflags =
     \<lparr>is_daemon = True, timeout_seconds = 5, unmount_daemon_pid = 0,
      unmount_mount_flags = 0, unmount_status = 0, wimfs_mount_flags = mflags\<rparr>"

text \<open>Whether a received message reaches \<^verbatim>\<open>msg_daemon_info_handler\<close>, respectively
  \<^verbatim>\<open>msg_unmount_finished_handler\<close>, and passes its size check.\<close>

definition accepted :: "wimlib_consts \<Rightarrow> u32 \<Rightarrow> nat \<Rightarrow> mq_result \<Rightarrow> bool" where
  "accepted K ty sz r =
     (case r of
        MQ_FAILED e \<Rightarrow> False
      | MQ_RECEIVED n mb \<Rightarrow>
          sizeof_unmount_msg_hdr \<le> n \<and> n = unat (msg_size (hdr mb)) \<and>
          min_version (hdr mb) \<le> WIMLIB_VERSION_CODE K \<and>
          msg_type (hdr mb) = ty \<and> sz \<le> n)"

definition daemon_info_accepted :: "wimlib_consts \<Rightarrow> mq_result \<Rightarrow> bool" where
  "daemon_info_accepted K r = accepted K MSG_TYPE_DAEMON_INFO sizeof_msg_daemon_info r"

definition unmount_finished_accepted :: "wimlib_consts \<Rightarrow> mq_result \<Rightarrow> bool" where
  "unmount_finished_accepted K r =
     accepted K MSG_TYPE_UNMOUNT_FINISHED sizeof_msg_unmount_finished r"

text \<open>The receive timeouts a run of the loop is to use, turn by turn, when it starts with
  timeout \<open>t\<close>: the timeout in force, which an accepted daemon-info message sets to 1 for
  the turns after it.\<close>

fun timeouts_in_force :: "wimlib_consts \<Rightarrow> tick list \<Rightarrow> int \<Rightarrow> int list" where
  "timeouts_in_force K [] t = []"
| "timeouts_in_force K (x # xs) t =
     t # timeouts_in_force K xs (if daemon_info_accepted K (received x) then 1 else t)"

definition receive_timeouts :: "proto_call list \<Rightarrow> int list" where
  "receive_timeouts calls =
     concat (map (\<lambda>c. case c of Call_mq_timedreceive t \<Rightarrow> [t] | _ \<Rightarrow> []) calls)"

text \<open>The error codes are enumeration constants after \<^verbatim>\<open>WIMLIB_ERR_SUCCESS = 0\<close>, hence
  positive.\<close>

definition consts_ok :: "wimlib_consts \<Rightarrow> bool" where
  "consts_ok K \<longleftrightarrow>
     0 < WIMLIB_ERR_INVALID_UNMOUNT_MESSAGE K \<and> 0 < WIMLIB_ERR_MQUEUE K \<and>
     0 < WIMLIB_ERR_NOMEM K \<and> 0 < WIMLIB_ERR_TIMEOUT K \<and>
     0 < WIMLIB_ERR_FILESYSTEM_DAEMON_CRASHED K \<and> 0 < WIMLIB_ERR_STAT K"

subsection \<open>The staging layer: \<^verbatim>\<open>create_staging_file\<close> and \<^verbatim>\<open>extract_resource_to_staging_dir\<close>\<close>

text \<open>The outcomes of the calls that \<^verbatim>\<open>extract_resource_to_staging_dir\<close> makes, directly
  or through \<^verbatim>\<open>create_staging_file\<close>:
  \<^item> whether the name buffer can be allocated, and the names the random generator
    produces, in order;
  \<^item> the \<^verbatim>\<open>errno\<close> of the \<^verbatim>\<open>stat\<close> that fails on the chosen name (\<open>ENOENT\<close> when the name
    is merely absent);
  \<^item> the result of \<^verbatim>\<open>open(name, O_WRONLY | O_CREAT | O_TRUNC)\<close>: an \<^verbatim>\<open>errno\<close> or a
    descriptor;
  \<^item> the return value of \<^verbatim>\<open>extract_wim_resource_to_fd\<close> and the \<^verbatim>\<open>errno\<close> it leaves
    (\<open>None\<close> for 0) when it fails;
  \<^item> the \<^verbatim>\<open>errno\<close> of \<^verbatim>\<open>ftruncate\<close> and of \<^verbatim>\<open>close\<close>, \<open>None\<close> when they succeed;
  \<^item> the address \<^verbatim>\<open>new_lookup_table_entry\<close> returns, \<open>None\<close> for \<^verbatim>\<open>NULL\<close>;
  \<^item> for each slot of the handle array, the result of \<^verbatim>\<open>open(name, O_RDONLY)\<close> for the
    handle in that slot;
  \<^item> the bytes \<^verbatim>\<open>random_hash\<close> produces.\<close>

record staging_env =
  name_malloc_ok :: bool
  random_names :: "string list"
  stat_errno :: errno
  creat_result :: "errno + nat"
  extract_ret :: int
  extract_errno :: "errno option"
  ftruncate_errno :: "errno option"
  close_errno :: "errno option"
  new_lte_addr :: "nat option"
  open_rdonly_result :: "nat \<Rightarrow> errno + nat"
  random_hash :: "u8 list"

text \<open>The \<^verbatim>\<open>do ... while (stat(name, &stbuf) == 0)\<close> of \<^verbatim>\<open>create_staging_file\<close>: the first
  generated name that no staging file bears. The loop has no bound; \<open>None\<close> when the
  generated names are used up.\<close>

fun pick_staging_name :: "(string \<rightharpoonup> u8 list) \<Rightarrow> string list \<Rightarrow> string option" where
  "pick_staging_name files [] = None"
| "pick_staging_name files (n # ns) =
     (if files n \<noteq> None then pick_staging_name files ns else Some n)"

text \<open>\<^verbatim>\<open>create_staging_file\<close>: \<open>Inl\<close> the \<^verbatim>\<open>errno\<close> with which it returns \<open>-1\<close>, or \<open>Inr\<close> the
  name, the descriptor and the state with the new, empty file.\<close>

definition create_staging_file ::
  "mount_state \<Rightarrow> staging_env \<Rightarrow> (errno + string \<times> int \<times> mount_state) option" where
  "create_staging_file s env =
     (if \<not> name_malloc_ok env then Some (Inl ENOMEM)
      else
        case pick_staging_name (staging_files s) (random_names env) of
          None \<Rightarrow> None
        | Some name \<Rightarrow>
            if stat_errno env \<noteq> ENOENT then Some (Inl (stat_errno env))
            else
              (case creat_result env of
                 Inl e \<Rightarrow> Some (Inl e)
               | Inr fd \<Rightarrow>
                   Some (Inr (name, int fd,
                     s\<lparr>staging_files := (staging_files s)(name \<mapsto> []),
                       open_fds := add_mset (int fd) (open_fds s)\<rparr>))))"

text \<open>\<^verbatim>\<open>new_lookup_table_entry\<close> is defined in \<^verbatim>\<open>lookup_table.c\<close>, which is not among the
  sources at hand: it returns zero-filled memory with \<open>refcnt\<close> set to 1.\<close>

definition new_lookup_table_entry :: lookup_table_entry where
  "new_lookup_table_entry =
     \<lparr>hash = replicate 20 0, refcnt = 1, lte_num_opened_fds = 0,
      resource_location = RESOURCE_NONEXISTENT, staging_file_name = None,
      lte_inode = None, original_size = 0, res_size = 0, res_data = []\<rparr>"

text \<open>The first loop over the handle array: every open handle on the stream is pointed to
  the new descriptor and given a read-only descriptor on the staging file. The second
  argument is the number of open handles still to be met (\<^verbatim>\<open>num_opened_fds - j\<close>), the third
  the index \<open>i\<close>. The result is the array, the number of handles rebound (the new
  descriptor's \<^verbatim>\<open>num_opened_fds\<close>), the native descriptors opened, and the \<^verbatim>\<open>errno\<close> of the
  \<^verbatim>\<open>open\<close> that failed, if one did.\<close>

fun rebind_fds ::
  "wimlib_fd option list \<Rightarrow> nat \<Rightarrow> nat \<Rightarrow> u32 \<Rightarrow> nat \<Rightarrow> (nat \<Rightarrow> errno + nat)
     \<Rightarrow> (wimlib_fd option list \<times> nat \<times> int list \<times> errno option) option" where
  "rebind_fds xs 0 i sid new opn = Some (xs, 0, [], None)"
| "rebind_fds [] (Suc n) i sid new opn = None"
| "rebind_fds (None # xs) (Suc n) i sid new opn =
     map_option (\<lambda>(ys, c, os, e). (None # ys, c, os, e))
       (rebind_fds xs (Suc n) (Suc i) sid new opn)"
| "rebind_fds (Some fd # xs) (Suc n) i sid new opn =
     (if fd_stream_id fd = sid then
        (case opn i of
           Inl e \<Rightarrow> Some (Some (fd\<lparr>f_lte := Some new, staging_fd := - 1\<rparr>) # xs, 1, [], Some e)
         | Inr k \<Rightarrow>
             map_option
               (\<lambda>(ys, c, os, e).
                  (Some (fd\<lparr>f_lte := Some new, staging_fd := int k\<rparr>) # ys, Suc c, int k # os, e))
               (rebind_fds xs n (Suc i) sid new opn))
      else
        map_option (\<lambda>(ys, c, os, e). (Some fd # ys, c, os, e))
          (rebind_fds xs n (Suc i) sid new opn))"

text \<open>The loop after \<^verbatim>\<open>out_revert_fd_changes\<close>: the second argument is the number of
  rebound handles still to be met. The result is the array and the native descriptors
  closed.\<close>

fun revert_fds ::
  "wimlib_fd option list \<Rightarrow> nat \<Rightarrow> u32 \<Rightarrow> nat \<Rightarrow> nat option
     \<Rightarrow> (wimlib_fd option list \<times> int list) option" where
  "revert_fds xs 0 sid new old = Some (xs, [])"
| "revert_fds [] (Suc n) sid new old = None"
| "revert_fds (None # xs) (Suc n) sid new old =
     map_option (\<lambda>(ys, cs). (None # ys, cs)) (revert_fds xs (Suc n) sid new old)"
| "revert_fds (Some fd # xs) (Suc n) sid new old =
     (if fd_stream_id fd = sid \<and> f_lte fd = Some new then
        map_option
          (\<lambda>(ys, cs).
             (Some (fd\<lparr>f_lte := old, staging_fd := - 1\<rparr>) # ys,
              if staging_fd fd \<noteq> - 1 then staging_fd fd # cs else cs))
          (revert_fds xs n sid new old)
      else map_option (\<lambda>(ys, cs). (Some fd # ys, cs)) (revert_fds xs (Suc n) sid new old))"

text \<open>The assignment of the new descriptor to the stream: the unnamed stream for stream id
  0, else every alternate data stream with that id.\<close>

definition set_stream_lte :: "inode \<Rightarrow> u32 \<Rightarrow> nat \<Rightarrow> inode" where
  "set_stream_lte i stream_id new =
     (if stream_id = 0 then i\<lparr>i_lte := Some new\<rparr>
      else i\<lparr>ads_entries :=
               map (\<lambda>a. if ads_stream_id a = stream_id then a\<lparr>ads_lte := Some new\<rparr> else a)
                 (ads_entries i)\<rparr>)"

text \<open>The code from \<^verbatim>\<open>out_delete_staging_file\<close> on: the staging file is unlinked and the
  error returned.\<close>

definition out_delete_staging_file ::
  "mount_state \<Rightarrow> string \<Rightarrow> int \<Rightarrow> nat option \<Rightarrow> (int \<times> nat option \<times> mount_state)" where
  "out_delete_staging_file s name ret lte =
     (ret, lte, s\<lparr>staging_files := (staging_files s)(name := None)\<rparr>)"

text \<open>The last part of the function, common to both branches: the new descriptor is
  filled in, assigned to the stream, inserted into the lookup table and added to the
  staging list.\<close>

definition finish_staging ::
  "mount_state \<Rightarrow> nat \<Rightarrow> inode \<Rightarrow> u32 \<Rightarrow> nat \<Rightarrow> lookup_table_entry \<Rightarrow> string \<Rightarrow> u8 list
     \<Rightarrow> (int \<times> nat option \<times> mount_state)" where
  "finish_staging s ip i stream_id new l name h =
     (0, Some new,
      s\<lparr>ltes := (ltes s)(new \<mapsto>
             l\<lparr>refcnt := link_count i,
               resource_location := RESOURCE_IN_STAGING_FILE,
               staging_file_name := Some name,
               lte_inode := Some ip,
               hash := h\<rparr>),
        inodes := (inodes s)(ip \<mapsto> set_stream_lte i stream_id new),
        lookup_table := new # lookup_table s,
        staging_list := new # staging_list s\<rparr>)"

text \<open>The part of the function after the staging file has been written and closed:
  the existing descriptor is re-used when all its references belong to this inode,
  else a new one is made and the open handles on the stream are rebound. On the way
  through \<^verbatim>\<open>out_revert_fd_changes\<close> the new descriptor is freed.\<close>

definition stage_descriptor ::
  "mount_state \<Rightarrow> nat \<Rightarrow> u32 \<Rightarrow> nat option \<Rightarrow> lookup_table_entry option \<Rightarrow> string
     \<Rightarrow> staging_env \<Rightarrow> (int \<times> nat option \<times> mount_state) option" where
  "stage_descriptor s ip stream_id lte old_l name env =
     (case inodes s ip of
        None \<Rightarrow> None
      | Some i \<Rightarrow>
          if old_l \<noteq> None \<and> link_count i = refcnt (the old_l) then
            Some (finish_staging
                    (s\<lparr>lookup_table := remove1 (the lte) (lookup_table s)\<rparr>)
                    ip i stream_id (the lte) (the old_l) name (random_hash env))
          else
            (case new_lte_addr env of
               None \<Rightarrow> Some (out_delete_staging_file s name (- errno_val ENOMEM) lte)
             | Some new \<Rightarrow>
                 (case rebind_fds (fds i) (unat (num_opened_fds i)) 0 stream_id new
                         (open_rdonly_result env) of
                    None \<Rightarrow> None
                  | Some (fds1, c, opened, Some e) \<Rightarrow>
                      (case revert_fds fds1 (unat (of_nat c :: u16)) stream_id new lte of
                         None \<Rightarrow> None
                       | Some (fds2, closed) \<Rightarrow>
                           Some (out_delete_staging_file
                                   (s\<lparr>inodes := (inodes s)(ip \<mapsto> i\<lparr>fds := fds2\<rparr>),
                                      ltes := (ltes s)(new := None),
                                      open_fds := open_fds s + mset opened - mset closed\<rparr>)
                                   name (- errno_val e) lte))
                  | Some (fds1, c, opened, None) \<Rightarrow>
                      let new_l = new_lookup_table_entry\<lparr>lte_num_opened_fds := of_nat c\<rparr>;
                          ltes1 = (case lte of
                                     None \<Rightarrow> ltes s
                                   | Some p \<Rightarrow>
                                       (ltes s)(p \<mapsto> (the old_l)
                                         \<lparr>lte_num_opened_fds :=
                                            lte_num_opened_fds (the old_l) - of_nat c,
                                          refcnt := refcnt (the old_l) - link_count i\<rparr>));
                          i1 = i\<lparr>fds := fds1\<rparr>
                      in Some (finish_staging
                                 (s\<lparr>ltes := ltes1, open_fds := open_fds s + mset opened\<rparr>)
                                 ip i1 stream_id new new_l name (random_hash env)))))"

text \<open>The number of bytes extracted, \<^verbatim>\<open>min(wim_resource_size(old_lte), size)\<close> or 0 when
  the stream has no descriptor, and the content of the staging file once it has been
  written and, when \<^verbatim>\<open>size > extract_size\<close>, extended with zeroes by \<^verbatim>\<open>ftruncate\<close>. \<open>sz\<close>
  (\<^verbatim>\<open>size\<close> in the source) is an \<^verbatim>\<open>off_t\<close>: \<^verbatim>\<open>min\<close> compares it with the unsigned resource
  size as unsigned, \<^verbatim>\<open>size > extract_size\<close> compares as signed.\<close>

definition staging_extract_size :: "lookup_table_entry option \<Rightarrow> off_t \<Rightarrow> off_t" where
  "staging_extract_size old_l sz =
     (case old_l of None \<Rightarrow> 0 | Some l \<Rightarrow> min (original_size l) sz)"

definition staging_file_content :: "lookup_table_entry option \<Rightarrow> off_t \<Rightarrow> u8 list" where
  "staging_file_content old_l sz =
     (let extract_size = staging_extract_size old_l sz;
          extracted = (case old_l of None \<Rightarrow> []
                       | Some l \<Rightarrow> take (unat extract_size) (res_data l))
      in if extract_size <s sz
         then take (unat sz) extracted @ replicate (unat sz - length extracted) 0
         else extracted)"

text \<open>\<^verbatim>\<open>extract_resource_to_staging_dir\<close>. The result is the return value, the value left
  in \<^verbatim>\<open>*lte\<close>, and the state. The descriptor written to is closed on every path.\<close>

definition extract_resource_to_staging_dir ::
  "mount_state \<Rightarrow> nat \<Rightarrow> u32 \<Rightarrow> nat option \<Rightarrow> off_t \<Rightarrow> staging_env
     \<Rightarrow> (int \<times> nat option \<times> mount_state) option" where
  "extract_resource_to_staging_dir s ip stream_id lte sz env =
     (case create_staging_file s env of
        None \<Rightarrow> None
      | Some (Inl e) \<Rightarrow> Some (- errno_val e, lte, s)
      | Some (Inr (name, fd, s1)) \<Rightarrow>
          (case (case lte of None \<Rightarrow> Some None | Some p \<Rightarrow> map_option Some (ltes s p)) of
             None \<Rightarrow> None
           | Some old_l \<Rightarrow>
               let extract_size = staging_extract_size old_l sz;
                   ret = (case old_l of None \<Rightarrow> 0 | Some l \<Rightarrow> extract_ret env);
                   s2 = s1\<lparr>open_fds := open_fds s1 - {#fd#}\<rparr>
               in if ret \<noteq> 0 then
                    Some (out_delete_staging_file s2 name
                            (case extract_errno env of
                               Some e \<Rightarrow> - errno_val e | None \<Rightarrow> - errno_val EIO) lte)
                  else if extract_size <s sz \<and> ftruncate_errno env \<noteq> None then
                    Some (out_delete_staging_file s2 name
                            (- errno_val (the (ftruncate_errno env))) lte)
                  else if close_errno env \<noteq> None then
                    Some (out_delete_staging_file s2 name
                            (- errno_val (the (close_errno env))) lte)
                  else
                    stage_descriptor
                      (s2\<lparr>staging_files :=
                            (staging_files s2)(name \<mapsto> staging_file_content old_l sz)\<rparr>)
                      ip stream_id lte old_l name env))"




subsection \<open>Path lookup\<close>

text \<open>The streams of an inode in order: the unnamed stream, then the alternate data
  streams. \<^verbatim>\<open>inode_stream_lte_resolved\<close> (an inline function of \<^verbatim>\<open>dentry.h\<close>) returns the
  descriptor pointer of the stream with the given index; \<open>None\<close> here when the index is
  past the array.\<close>

definition stream_ltes :: "inode \<Rightarrow> nat option list" where
  "stream_ltes i = i_lte i # map ads_lte (ads_entries i)"

definition inode_stream_lte_resolved :: "inode \<Rightarrow> nat \<Rightarrow> nat option option" where
  "inode_stream_lte_resolved i stream_idx =
     (if stream_idx < length (stream_ltes i) then Some (stream_ltes i ! stream_idx) else None)"

text \<open>Modelled from the spec: \<^verbatim>\<open>lookup_resource\<close> is defined in \<^verbatim>\<open>dentry.c\<close>, which is not
  among the sources at hand. The spec gives it as
  \<open>lookup(path, flags) \<rightarrow> (dentry, blob?, stream_idx?)\<close>: a path resolves to a dentry and
  one of the streams of its inode, the unnamed one by default, and the blob is the
  descriptor of that stream. The image tree is kept here as the table \<open>dentry_table\<close>
  from paths to an inode and a stream index; a path outside the table gives \<open>-ENOENT\<close>.\<close>

definition lookup_resource ::
  "mount_state \<Rightarrow> string \<Rightarrow> (int + nat \<times> nat option \<times> nat) option" where
  "lookup_resource s path =
     (case dentry_table s path of
        None \<Rightarrow> Some (Inl (- errno_val ENOENT))
      | Some (ip, stream_idx) \<Rightarrow>
          (case inodes s ip of
             None \<Rightarrow> None
           | Some i \<Rightarrow>
               map_option (\<lambda>lte. Inr (ip, lte, stream_idx))
                 (inode_stream_lte_resolved i stream_idx)))"

text \<open>The stream id for a stream index, as \<^verbatim>\<open>wimfs_open\<close> and \<^verbatim>\<open>wimfs_truncate\<close> compute
  it: 0 for the unnamed stream, else \<^verbatim>\<open>inode->ads_entries[stream_idx - 1].stream_id\<close>.\<close>

definition stream_id_of :: "inode \<Rightarrow> nat \<Rightarrow> u32 option" where
  "stream_id_of i stream_idx =
     (if stream_idx = 0 then Some 0
      else if stream_idx - 1 < length (ads_entries i)
      then Some (ads_stream_id (ads_entries i ! (stream_idx - 1)))
      else None)"

subsection \<open>\<^verbatim>\<open>wimfs_read\<close>\<close>

text \<open>The outcomes of the calls \<^verbatim>\<open>wimfs_read\<close> makes: the return value of
  \<^verbatim>\<open>read_wim_resource\<close>, and the \<^verbatim>\<open>errno\<close> of \<^verbatim>\<open>lseek\<close> and of \<^verbatim>\<open>read\<close> on a valid staging
  descriptor (\<open>None\<close> when they succeed).\<close>

record read_env =
  read_wim_resource_ret :: int
  lseek_errno :: "errno option"
  read_errno :: "errno option"

text \<open>The conversion of a \<^verbatim>\<open>size_t\<close> or \<^verbatim>\<open>ssize_t\<close> to the \<^verbatim>\<open>int\<close> the function returns.\<close>

definition to_int :: "u64 \<Rightarrow> int" where
  "to_int n = sint (ucast n :: int32)"

text \<open>The size actually read from a resource in the WIM:
  \<^verbatim>\<open>min(size, res_size - offset)\<close>, on 64-bit unsigned values.\<close>

definition clipped_size :: "u64 \<Rightarrow> u64 \<Rightarrow> off_t \<Rightarrow> u64" where
  "clipped_size sz res_sz offset = min sz (res_sz - offset)"

text \<open>\<^verbatim>\<open>wimfs_read\<close>: the return value and the bytes placed in the buffer. The handle is
  \<^verbatim>\<open>fi->fh\<close>, \<open>None\<close> for a null handle. \<^verbatim>\<open>offset > res_size\<close> compares an \<^verbatim>\<open>off_t\<close> with a
  \<^verbatim>\<open>u64\<close>, hence as unsigned. On a staging file, \<^verbatim>\<open>lseek\<close> on a descriptor that is not open
  (\<open>-1\<close> included) fails with \<open>EBADF\<close>; the assertions are no-ops.\<close>

definition wimfs_read ::
  "mount_state \<Rightarrow> wimlib_fd option \<Rightarrow> u64 \<Rightarrow> off_t \<Rightarrow> read_env \<Rightarrow> (int \<times> u8 list) option" where
  "wimfs_read s fh sz offset env =
     (case fh of
        None \<Rightarrow> Some (- errno_val EBADF, [])
      | Some fd \<Rightarrow>
          (case f_lte fd of
             None \<Rightarrow> Some (0, [])
           | Some p \<Rightarrow>
               (case ltes s p of
                  None \<Rightarrow> None
                | Some l \<Rightarrow>
                    if resource_location l = RESOURCE_IN_STAGING_FILE then
                      (if \<not> staging_fd fd \<in># open_fds s then Some (- errno_val EBADF, [])
                       else
                         case lseek_errno env of
                           Some e \<Rightarrow> Some (- errno_val e, [])
                         | None \<Rightarrow>
                             (case read_errno env of
                                Some e \<Rightarrow> Some (- errno_val e, [])
                              | None \<Rightarrow>
                                  (case staging_file_name l of
                                     None \<Rightarrow> None
                                   | Some name \<Rightarrow>
                                       (case staging_files s name of
                                          None \<Rightarrow> None
                                        | Some c \<Rightarrow>
                                            let data = take (unat sz) (drop (unat offset) c)
                                            in Some (to_int (of_nat (length data)), data)))))
                    else
                      let res_sz = original_size l
                      in if res_sz < offset then Some (- errno_val EOVERFLOW, [])
                         else
                           let sz' = clipped_size sz res_sz offset
                           in if read_wim_resource_ret env \<noteq> 0 then Some (- errno_val EIO, [])
                              else Some (to_int sz',
                                         take (unat sz') (drop (unat offset) (res_data l))))))"

subsection \<open>\<^verbatim>\<open>wimfs_truncate\<close>\<close>

text \<open>\<^verbatim>\<open>truncate\<close> on a staging file: the bytes kept, extended with zeroes.\<close>

definition truncated :: "u8 list \<Rightarrow> off_t \<Rightarrow> u8 list" where
  "truncated c sz = take (unat sz) c @ replicate (unat sz - length c) 0"

text \<open>\<^verbatim>\<open>wimfs_truncate\<close>. The third argument from the end is the \<^verbatim>\<open>errno\<close> of \<^verbatim>\<open>truncate\<close> on the
  staging file, \<open>None\<close> when it succeeds. After the test \<^verbatim>\<open>lte == NULL && size == 0\<close> the
  function reads \<^verbatim>\<open>lte->resource_location\<close> without a further test: with a null \<^verbatim>\<open>lte\<close> that
  is a read through a null pointer, \<open>None\<close> here.\<close>

definition wimfs_truncate ::
  "mount_state \<Rightarrow> string \<Rightarrow> off_t \<Rightarrow> errno option \<Rightarrow> staging_env
     \<Rightarrow> (int \<times> mount_state) option" where
  "wimfs_truncate s path sz truncate_errno env =
     (case lookup_resource s path of
        None \<Rightarrow> None
      | Some (Inl ret) \<Rightarrow> Some (ret, s)
      | Some (Inr (ip, lte, stream_idx)) \<Rightarrow>
          if lte = None \<and> sz = 0 then Some (0, s)
          else
            (case inodes s ip of
               None \<Rightarrow> None
             | Some i \<Rightarrow>
                 (case stream_id_of i stream_idx of
                    None \<Rightarrow> None
                  | Some stream_id \<Rightarrow>
                      (case lte of
                         None \<Rightarrow> None
                       | Some p \<Rightarrow>
                           (case ltes s p of
                              None \<Rightarrow> None
                            | Some l \<Rightarrow>
                                if resource_location l = RESOURCE_IN_STAGING_FILE then
                                  (case staging_file_name l of
                                     None \<Rightarrow> None
                                   | Some name \<Rightarrow>
                                       (case truncate_errno of
                                          Some e \<Rightarrow> Some (- errno_val e, s)
                                        | None \<Rightarrow>
                                            (case staging_files s name of
                                               None \<Rightarrow> Some (- errno_val ENOENT, s)
                                             | Some c \<Rightarrow>
                                                 Some (0, s\<lparr>staging_files :=
                                                   (staging_files s)(name \<mapsto> truncated c sz)\<rparr>))))
                                else
                                  map_option (\<lambda>(ret, lte', s'). (ret, s'))
                                    (extract_resource_to_staging_dir s ip stream_id lte sz
                                       env))))))"

subsection \<open>The rehash step of the commit: \<^verbatim>\<open>update_lte_of_staging_file\<close>\<close>

text \<open>The outcomes of the calls the function makes: the return value of \<^verbatim>\<open>sha1sum\<close> on a
  file it can open, the SHA-1 function itself, and whether \<^verbatim>\<open>stat\<close> succeeds.\<close>

record rehash_env =
  sha1sum_ret :: int
  sha1 :: "u8 list \<Rightarrow> u8 list"
  stat_ok :: bool

text \<open>\<^verbatim>\<open>__lookup_resource\<close> is defined in \<^verbatim>\<open>lookup_table.c\<close>, which is not among the sources
  at hand: it walks the hash chain and returns the first descriptor with the given hash,
  or \<^verbatim>\<open>NULL\<close>. \<^verbatim>\<open>lookup_table_insert\<close> adds at the head of the chain and
  \<^verbatim>\<open>lookup_table_unlink\<close> takes the descriptor out of it.\<close>

definition lookup_resource_by_hash :: "mount_state \<Rightarrow> u8 list \<Rightarrow> nat option" where
  "lookup_resource_by_hash s h =
     find (\<lambda>p. case ltes s p of None \<Rightarrow> False | Some l \<Rightarrow> hash l = h) (lookup_table s)"

text \<open>The loop of \<^verbatim>\<open>inode_update_lte_ptr\<close> over the alternate data streams: the first
  entry that points to the old descriptor is redirected, and the loop ends.\<close>

fun ads_update_lte_ptr :: "ads_entry list \<Rightarrow> nat \<Rightarrow> nat option \<Rightarrow> ads_entry list" where
  "ads_update_lte_ptr [] old new = []"
| "ads_update_lte_ptr (a # as) old new =
     (if ads_lte a = Some old then a\<lparr>ads_lte := new\<rparr> # as
      else a # ads_update_lte_ptr as old new)"

definition inode_update_lte_ptr :: "inode \<Rightarrow> nat \<Rightarrow> nat option \<Rightarrow> inode" where
  "inode_update_lte_ptr i old new =
     (if i_lte i = Some old then i\<lparr>i_lte := new\<rparr>
      else i\<lparr>ads_entries := ads_update_lte_ptr (ads_entries i) old new\<rparr>)"

text \<open>The two calls \<^verbatim>\<open>inode_update_lte_ptr(lte->lte_inode, lte, new)\<close> and
  \<^verbatim>\<open>free_lookup_table_entry(lte)\<close>, which end the merge and the zero-length case.\<close>

definition redirect_and_free ::
  "mount_state \<Rightarrow> nat \<Rightarrow> lookup_table_entry \<Rightarrow> nat option \<Rightarrow> mount_state option" where
  "redirect_and_free s p l new =
     (case lte_inode l of
        None \<Rightarrow> None
      | Some ip \<Rightarrow>
          (case inodes s ip of
             None \<Rightarrow> None
           | Some i \<Rightarrow>
               Some (s\<lparr>inodes := (inodes s)(ip \<mapsto> inode_update_lte_ptr i p new),
                       ltes := (ltes s)(p := None)\<rparr>)))"

text \<open>\<^verbatim>\<open>update_lte_of_staging_file\<close>. \<^verbatim>\<open>sha1sum\<close> fails with \<^verbatim>\<open>WIMLIB_ERR_OPEN\<close> on a file it
  cannot open. \<^verbatim>\<open>st_size\<close> is the length of the file.\<close>

definition update_lte_of_staging_file ::
  "wimlib_consts \<Rightarrow> mount_state \<Rightarrow> nat \<Rightarrow> rehash_env \<Rightarrow> (int \<times> mount_state) option" where
  "update_lte_of_staging_file K s p env =
     (case ltes s p of
        None \<Rightarrow> None
      | Some l \<Rightarrow>
          (case staging_file_name l of
             None \<Rightarrow> None
           | Some name \<Rightarrow>
               (case staging_files s name of
                  None \<Rightarrow> Some (WIMLIB_ERR_OPEN K, s)
                | Some c \<Rightarrow>
                    if sha1sum_ret env \<noteq> 0 then Some (sha1sum_ret env, s)
                    else
                      let h = sha1 env c;
                          s1 = s\<lparr>lookup_table := remove1 p (lookup_table s)\<rparr>
                      in case lookup_resource_by_hash s1 h of
                           Some d \<Rightarrow>
                             (case ltes s1 d of
                                None \<Rightarrow> None
                              | Some dl \<Rightarrow>
                                  map_option (\<lambda>s3. (0, s3))
                                    (redirect_and_free
                                       (s1\<lparr>ltes := (ltes s1)
                                             (d \<mapsto> dl\<lparr>refcnt := refcnt dl + refcnt l\<rparr>)\<rparr>)
                                       p l (Some d)))
                         | None \<Rightarrow>
                             if \<not> stat_ok env then Some (WIMLIB_ERR_STAT K, s1)
                             else if length c = 0
                             then map_option (\<lambda>s3. (0, s3)) (redirect_and_free s1 p l None)
                             else
                               Some (0,
                                 s1\<lparr>ltes := (ltes s1)
                                       (p \<mapsto> l\<lparr>original_size := of_nat (length c),
                                              res_size := of_nat (length c),
                                              resource_location := RESOURCE_IN_FILE_ON_DISK,
                                              hash := h\<rparr>),
                                    lookup_table := p # lookup_table s1\<rparr>))))"

text \<open>The stream pointers of an inode after the first one that points to \<open>old\<close> has been
  redirected.\<close>

fun redirect_first :: "nat option list \<Rightarrow> nat \<Rightarrow> nat option \<Rightarrow> nat option list" where
  "redirect_first [] old new = []"
| "redirect_first (x # xs) old new =
     (if x = Some old then new # xs else x # redirect_first xs old new)"

subsection \<open>\<^verbatim>\<open>wimfs_setxattr\<close>\<close>

definition XATTR_CREATE :: u32 where
  "XATTR_CREATE = 1"

definition XATTR_REPLACE :: u32 where
  "XATTR_REPLACE = 2"

text \<open>The outcomes of the allocations \<^verbatim>\<open>wimfs_setxattr\<close> makes and the SHA-1 function.\<close>

record setxattr_env =
  add_ads_ok :: bool
  xattr_sha1 :: "u8 list \<Rightarrow> u8 list"
  xattr_new_lte_addr :: "nat option"
  value_malloc_ok :: bool

text \<open>Modelled from the spec: \<^verbatim>\<open>inode_get_ads_entry\<close>, \<^verbatim>\<open>inode_add_ads\<close>,
  \<^verbatim>\<open>inode_remove_ads\<close> and \<^verbatim>\<open>lte_decrement_refcnt\<close> are defined in \<^verbatim>\<open>dentry.c\<close> and
  \<^verbatim>\<open>lookup_table.c\<close>, which are not among the sources at hand. By the spec an alternate
  data stream has a name and a stable stream id and refers to at most one blob; removing
  one "removes the ADS and decrements its blob refs", and a blob whose reference count
  reaches zero with no open handles is deleted. A new stream is appended with the next
  stream id and no blob.\<close>

fun inode_get_ads_entry :: "ads_entry list \<Rightarrow> string \<Rightarrow> nat option" where
  "inode_get_ads_entry [] name = None"
| "inode_get_ads_entry (a # as) name =
     (if stream_name_utf8 a = name then Some 0
      else map_option Suc (inode_get_ads_entry as name))"

definition inode_add_ads :: "inode \<Rightarrow> string \<Rightarrow> inode" where
  "inode_add_ads i name =
     i\<lparr>ads_entries := ads_entries i @
          [\<lparr>ads_stream_id = next_stream_id i, stream_name_utf8 = name, ads_lte = None\<rparr>],
       next_stream_id := next_stream_id i + 1\<rparr>"

definition lte_decrement_refcnt :: "mount_state \<Rightarrow> nat \<Rightarrow> mount_state option" where
  "lte_decrement_refcnt s p =
     (case ltes s p of
        None \<Rightarrow> None
      | Some l \<Rightarrow>
          let l' = l\<lparr>refcnt := refcnt l - 1\<rparr>
          in if refcnt l' = 0 then
               (if lte_num_opened_fds l' = 0
                then Some (s\<lparr>ltes := (ltes s)(p := None),
                             lookup_table := remove1 p (lookup_table s)\<rparr>)
                else Some (s\<lparr>ltes := (ltes s)(p \<mapsto> l'),
                             lookup_table := remove1 p (lookup_table s)\<rparr>))
             else Some (s\<lparr>ltes := (ltes s)(p \<mapsto> l')\<rparr>))"

definition inode_remove_ads :: "mount_state \<Rightarrow> nat \<Rightarrow> nat \<Rightarrow> mount_state option" where
  "inode_remove_ads s ip k =
     (case inodes s ip of
        None \<Rightarrow> None
      | Some i \<Rightarrow>
          if k < length (ads_entries i) then
            (let s1 = s\<lparr>inodes := (inodes s)(ip \<mapsto>
                          i\<lparr>ads_entries := take k (ads_entries i) @
                                            drop (Suc k) (ads_entries i)\<rparr>)\<rparr>
             in case ads_lte (ads_entries i ! k) of
                  None \<Rightarrow> Some s1
                | Some p \<Rightarrow> lte_decrement_refcnt s1 p)
          else None)"

text \<open>The end of \<^verbatim>\<open>wimfs_setxattr\<close>, after the new stream entry has been added as the last
  entry of the inode: the value is hashed and looked up; an existing descriptor gets
  \<^verbatim>\<open>refcnt++\<close>, else a new descriptor holding a copy of the value is inserted; the new
  entry is pointed to the descriptor.\<close>

definition setxattr_attach ::
  "mount_state \<Rightarrow> nat \<Rightarrow> u8 list \<Rightarrow> setxattr_env \<Rightarrow> (int \<times> mount_state) option" where
  "setxattr_attach s ip val env =
     (case inodes s ip of
        None \<Rightarrow> None
      | Some i \<Rightarrow>
          let value_hash = xattr_sha1 env val;
              point = (\<lambda>s' p. s'\<lparr>inodes := (inodes s')(ip \<mapsto>
                         i\<lparr>ads_entries := butlast (ads_entries i) @
                              [(last (ads_entries i))\<lparr>ads_lte := Some p\<rparr>]\<rparr>)\<rparr>)
          in case lookup_resource_by_hash s value_hash of
               Some p \<Rightarrow>
                 (case ltes s p of
                    None \<Rightarrow> None
                  | Some l \<Rightarrow>
                      Some (0, point (s\<lparr>ltes := (ltes s)(p \<mapsto> l\<lparr>refcnt := refcnt l + 1\<rparr>)\<rparr>) p))
             | None \<Rightarrow>
                 (case xattr_new_lte_addr env of
                    None \<Rightarrow> Some (- errno_val ENOMEM, s)
                  | Some p \<Rightarrow>
                      if \<not> value_malloc_ok env then Some (- errno_val ENOMEM, s)
                      else
                        Some (0, point
                          (s\<lparr>ltes := (ltes s)(p \<mapsto> new_lookup_table_entry
                                 \<lparr>resource_location := RESOURCE_IN_ATTACHED_BUFFER,
                                  res_data := val,
                                  original_size := of_nat (length val),
                                  res_size := of_nat (length val),
                                  hash := value_hash\<rparr>),
                             lookup_table := p # lookup_table s\<rparr>) p)))"

text \<open>\<^verbatim>\<open>wimfs_setxattr\<close>. \<^verbatim>\<open>wim_pathname_to_inode\<close> is the inode of the path in the image
  tree.\<close>

definition wimfs_setxattr ::
  "wimlib_consts \<Rightarrow> mount_state \<Rightarrow> string \<Rightarrow> string \<Rightarrow> u8 list \<Rightarrow> u32 \<Rightarrow> setxattr_env
     \<Rightarrow> (int \<times> mount_state) option" where
  "wimfs_setxattr K s path name val flags env =
     (if mount_flags s AND WIMLIB_MOUNT_FLAG_STREAM_INTERFACE_XATTR K = 0
      then Some (- errno_val ENOTSUP, s)
      else if length name < 5 \<or> take 5 name \<noteq> ''user.'' then Some (- errno_val ENOATTR, s)
      else
        let name' = drop 5 name
        in case dentry_table s path of
             None \<Rightarrow> Some (- errno_val ENOENT, s)
           | Some (ip, stream_idx) \<Rightarrow>
               (case inodes s ip of
                  None \<Rightarrow> None
                | Some i \<Rightarrow>
                    (case inode_get_ads_entry (ads_entries i) name' of
                       Some ads_idx \<Rightarrow>
                         if flags AND XATTR_CREATE \<noteq> 0 then Some (- errno_val EEXIST, s)
                         else
                           (case inode_remove_ads s ip ads_idx of
                              None \<Rightarrow> None
                            | Some s1 \<Rightarrow>
                                if \<not> add_ads_ok env then Some (- errno_val ENOMEM, s1)
                                else
                                  (case inodes s1 ip of
                                     None \<Rightarrow> None
                                   | Some i1 \<Rightarrow>
                                       setxattr_attach
                                         (s1\<lparr>inodes := (inodes s1)
                                               (ip \<mapsto> inode_add_ads i1 name')\<rparr>)
                                         ip val env))
                     | None \<Rightarrow>
                         if flags AND XATTR_REPLACE \<noteq> 0 then Some (- errno_val ENOATTR, s)
                         else if \<not> add_ads_ok env then Some (- errno_val ENOMEM, s)
                         else
                           setxattr_attach
                             (s\<lparr>inodes := (inodes s)(ip \<mapsto> inode_add_ads i name')\<rparr>)
                             ip val env)))"

subsection \<open>The reference-count invariant\<close>

text \<open>The sum, over the inodes of the image that refer to descriptor \<open>p\<close> through some
  stream, of their link counts, and the invariant that every descriptor in the lookup
  table has this sum as its reference count.\<close>

definition link_count_sum :: "mount_state \<Rightarrow> nat \<Rightarrow> nat" where
  "link_count_sum s p =
     sum_list (map (\<lambda>ip. case inodes s ip of
                            None \<Rightarrow> 0
                          | Some i \<Rightarrow> if Some p \<in> set (stream_ltes i)
                                       then unat (link_count i) else 0)
                 (image_inode_list s))"

definition refcnt_invariant :: "mount_state \<Rightarrow> bool" where
  "refcnt_invariant s \<longleftrightarrow>
     list_all (\<lambda>p. case ltes s p of
                     None \<Rightarrow> False
                   | Some l \<Rightarrow> unat (refcnt l) = link_count_sum s p)
       (lookup_table s)"

subsection \<open>Concrete mount states\<close>

text \<open>An inode whose 65535 handle slots are all occupied.\<close>

definition full_inode :: inode where
  "full_inode = \<lparr>ino = 1, attributes = 0, link_count = 1, i_lte = None, ads_entries = [],
     next_stream_id = 1,
     fds = replicate 65535 (Some \<lparr>f_inode = 0, f_lte = None, staging_fd = - 1, idx = 0, fd_stream_id = 0\<rparr>),
     num_opened_fds = 0xffff, num_allocated_fds = 0xffff\<rparr>"

definition full_state :: mount_state where
  "full_state = \<lparr>mount_flags = 0, inodes = [0 \<mapsto> full_inode], ltes = Map.empty, lookup_table = [], staging_list = [],
     image_inode_list = [0], dentry_table = Map.empty, staging_files = Map.empty, open_fds = {#}\<rparr>"

text \<open>An instance of the constants: distinct positive error codes, one bit per flag.\<close>

definition K0 :: wimlib_consts where
  "K0 = \<lparr>WIMLIB_VERSION_CODE = 0x100800,
          WIMLIB_ERR_INVALID_UNMOUNT_MESSAGE = 21,
          WIMLIB_ERR_MQUEUE = 29,
          WIMLIB_ERR_NOMEM = 30,
          WIMLIB_ERR_TIMEOUT = 43,
          WIMLIB_ERR_FILESYSTEM_DAEMON_CRASHED = 5,
          WIMLIB_ERR_STAT = 41,
          WIMLIB_ERR_OPEN = 33,
          WIMLIB_MOUNT_FLAG_READWRITE = 1,
          WIMLIB_MOUNT_FLAG_STREAM_INTERFACE_XATTR = 32,
          WIMLIB_UNMOUNT_FLAG_COMMIT = 2,
          WIMLIB_UNMOUNT_FLAG_CHECK_INTEGRITY = 1,
          WIMLIB_UNMOUNT_FLAG_REBUILD = 4,
          WIMLIB_UNMOUNT_FLAG_RECOMPRESS = 8,
          WIMLIB_WRITE_FLAG_CHECK_INTEGRITY = 1,
          WIMLIB_WRITE_FLAG_REBUILD = 64,
          WIMLIB_WRITE_FLAG_RECOMPRESS = 128\<rparr>"

text \<open>A well-formed unmount request asking to commit, a daemon whose calls all succeed, and
  the daemon-info and unmount-finished messages such a daemon sends.\<close>

definition request_commit :: mailbox where
  "request_commit =
     \<lparr>hdr = \<lparr>min_version = 0x100800, cur_version = 0x100800,
             msg_type = 0, msg_size = 20\<rparr>, cell4 = 2, cell5 = 0\<rparr>"

definition daemon_fine :: daemon_env where
  "daemon_fine = \<lparr>getpid = 4242, send_daemon_info_ok = True, rebuild_wim_ret = 0,
                   delete_staging_dir_ret = 0\<rparr>"

text \<open>The same request cut down to its header, and a daemon that cannot send the
  daemon-info message.\<close>

definition short_request :: mailbox where
  "short_request = request_commit\<lparr>hdr := (hdr request_commit)\<lparr>msg_size := 16\<rparr>\<rparr>"

definition daemon_send_fails :: daemon_env where
  "daemon_send_fails = daemon_fine\<lparr>send_daemon_info_ok := False\<rparr>"

definition info_msg :: mailbox where
  "info_msg =
     \<lparr>hdr = \<lparr>min_version = 0x100800, cur_version = 0x100800,
             msg_type = 1, msg_size = 24\<rparr>, cell4 = 4242, cell5 = 1\<rparr>"

definition finished_msg :: mailbox where
  "finished_msg =
     \<lparr>hdr = \<lparr>min_version = 0x100800, cur_version = 0x100800,
             msg_type = 2, msg_size = 20\<rparr>, cell4 = 7, cell5 = 0\<rparr>"

text \<open>A read-write mount with the XATTR stream interface, holding two files \<open>/x\<close> and \<open>/y\<close>
  with the same content \<open>Hello\<close>: two inodes with one link each that share one blob in the
  archive, whose reference count is therefore 2. \<open>/x\<close> is open once, read-only.\<close>

definition hello :: "u8 list" where
  "hello = [72, 101, 108, 108, 111]"

definition blob_hello :: lookup_table_entry where
  "blob_hello =
     \<lparr>hash = replicate 20 0xAA, refcnt = 2, lte_num_opened_fds = 1,
      resource_location = RESOURCE_IN_WIM, staging_file_name = None, lte_inode = None,
      original_size = 5, res_size = 5, res_data = hello\<rparr>"

definition handle0 :: wimlib_fd where
  "handle0 = \<lparr>f_inode = 1, f_lte = Some 100, staging_fd = - 1, idx = 0, fd_stream_id = 0\<rparr>"

definition inode_x :: inode where
  "inode_x =
     \<lparr>ino = 1, attributes = 0x80, link_count = 1, i_lte = Some 100, ads_entries = [],
      next_stream_id = 1, fds = Some handle0 # replicate 7 None,
      num_opened_fds = 1, num_allocated_fds = 8\<rparr>"

definition inode_y :: inode where
  "inode_y =
     \<lparr>ino = 2, attributes = 0x80, link_count = 1, i_lte = Some 100, ads_entries = [],
      next_stream_id = 1, fds = [], num_opened_fds = 0, num_allocated_fds = 0\<rparr>"

definition shared_state :: mount_state where
  "shared_state =
     \<lparr>mount_flags = 33,
      inodes = [1 \<mapsto> inode_x, 2 \<mapsto> inode_y],
      ltes = [100 \<mapsto> blob_hello],
      lookup_table = [100], staging_list = [], image_inode_list = [2, 1],
      dentry_table = [''/x'' \<mapsto> (1, 0), ''/y'' \<mapsto> (2, 0)],
      staging_files = Map.empty, open_fds = {#}\<rparr>"

text \<open>The same mount with the file \<open>/x\<close> alone: its blob has reference count 1.\<close>

definition own_state :: mount_state where
  "own_state =
     \<lparr>mount_flags = 33,
      inodes = [1 \<mapsto> inode_x],
      ltes = [100 \<mapsto> blob_hello\<lparr>refcnt := 1\<rparr>],
      lookup_table = [100], staging_list = [], image_inode_list = [1],
      dentry_table = [''/x'' \<mapsto> (1, 0)],
      staging_files = Map.empty, open_fds = {#}\<rparr>"

text \<open>The state before \<open>/x\<close> was opened, and the environment of that open.\<close>

definition closed_inode_x :: inode where
  "closed_inode_x = inode_x\<lparr>fds := [], num_opened_fds := 0, num_allocated_fds := 0\<rparr>"

definition own_state_closed :: mount_state where
  "own_state_closed =
     own_state\<lparr>inodes := [1 \<mapsto> closed_inode_x],
               ltes := [100 \<mapsto> blob_hello\<lparr>refcnt := 1, lte_num_opened_fds := 0\<rparr>]\<rparr>"

definition alloc_fine :: alloc_env where
  "alloc_fine = \<lparr>realloc_ok = True, calloc_ok = True\<rparr>"

text \<open>An environment in which every call of the staging layer succeeds, and one in which
  the staging file cannot be opened for the handles that are rebound.\<close>

definition staging_name :: string where
  "staging_name = ''/tmp/a.wim.staging0123456789/aaaaaaaaaaaaaaaaaaaa''"

definition staging_fine :: staging_env where
  "staging_fine =
     \<lparr>name_malloc_ok = True, random_names = [staging_name], stat_errno = ENOENT,
      creat_result = Inr 3, extract_ret = 0, extract_errno = None,
      ftruncate_errno = None, close_errno = None, new_lte_addr = Some 101,
      open_rdonly_result = (\<lambda>k. Inr (4 + k)), random_hash = replicate 20 0x55\<rparr>"



definition read_fine :: read_env where
  "read_fine = \<lparr>read_wim_resource_ret = 0, lseek_errno = None, read_errno = None\<rparr>"

text \<open>A mount with one empty file \<open>/a\<close>, as \<^verbatim>\<open>mknod\<close> leaves it: its stream has no blob.\<close>

definition inode_a :: inode where
  "inode_a =
     \<lparr>ino = 3, attributes = 0x80, link_count = 1, i_lte = None, ads_entries = [],
      next_stream_id = 1, fds = [], num_opened_fds = 0, num_allocated_fds = 0\<rparr>"

definition empty_file_state :: mount_state where
  "empty_file_state =
     \<lparr>mount_flags = 33,
      inodes = [3 \<mapsto> inode_a],
      ltes = Map.empty,
      lookup_table = [], staging_list = [], image_inode_list = [3],
      dentry_table = [''/a'' \<mapsto> (3, 0)],
      staging_files = Map.empty, open_fds = {#}\<rparr>"

text \<open>A mount with a file \<open>/v\<close> whose content is the one byte \<open>v\<close>, and an empty file with
  two hard links \<open>/x\<close> and \<open>/y\<close>; the SHA-1 function on that byte.\<close>

definition sha1_v :: "u8 list" where
  "sha1_v = [0x7a, 0x38, 0xd8, 0xcb, 0xd2, 0x0d, 0x99, 0x32, 0xba, 0x94,
             0x8e, 0xfa, 0xa3, 0x64, 0xbb, 0x62, 0x65, 0x1d, 0x5a, 0xd4]"

definition blob_v :: lookup_table_entry where
  "blob_v =
     \<lparr>hash = sha1_v, refcnt = 1, lte_num_opened_fds = 0,
      resource_location = RESOURCE_IN_WIM, staging_file_name = None, lte_inode = None,
      original_size = 1, res_size = 1, res_data = [118]\<rparr>"

definition inode_v :: inode where
  "inode_v =
     \<lparr>ino = 1, attributes = 0x80, link_count = 1, i_lte = Some 100, ads_entries = [],
      next_stream_id = 1, fds = [], num_opened_fds = 0, num_allocated_fds = 0\<rparr>"

definition inode_xy :: inode where
  "inode_xy =
     \<lparr>ino = 2, attributes = 0x80, link_count = 2, i_lte = None, ads_entries = [],
      next_stream_id = 1, fds = [], num_opened_fds = 0, num_allocated_fds = 0\<rparr>"

definition xattr_state :: mount_state where
  "xattr_state =
     \<lparr>mount_flags = 33,
      inodes = [1 \<mapsto> inode_v, 2 \<mapsto> inode_xy],
      ltes = [100 \<mapsto> blob_v],
      lookup_table = [100], staging_list = [], image_inode_list = [2, 1],
      dentry_table = [''/v'' \<mapsto> (1, 0), ''/x'' \<mapsto> (2, 0), ''/y'' \<mapsto> (2, 0)],
      staging_files = Map.empty, open_fds = {#}\<rparr>"

definition xattr_fine :: setxattr_env where
  "xattr_fine =
     \<lparr>add_ads_ok = True,
      xattr_sha1 = (\<lambda>v. if v = [118] then sha1_v else replicate 20 0),
      xattr_new_lte_addr = Some 101, value_malloc_ok = True\<rparr>"

text \<open>A mount at commit time: the file \<open>/x\<close> has been staged and rewritten with the content
  of \<open>/v\<close>, the file \<open>/e\<close> has been staged and emptied, the file \<open>/n\<close> has been staged and
  holds new content.\<close>

definition staged_blob :: "string \<Rightarrow> nat \<Rightarrow> lookup_table_entry" where
  "staged_blob name ip =
     \<lparr>hash = replicate 20 0x55, refcnt = 1, lte_num_opened_fds = 0,
      resource_location = RESOURCE_IN_STAGING_FILE, staging_file_name = Some name,
      lte_inode = Some ip, original_size = 0, res_size = 0, res_data = []\<rparr>"

definition staged_inode :: "u64 \<Rightarrow> nat \<Rightarrow> inode" where
  "staged_inode n p =
     \<lparr>ino = n, attributes = 0x80, link_count = 1, i_lte = Some p, ads_entries = [],
      next_stream_id = 1, fds = [], num_opened_fds = 0, num_allocated_fds = 0\<rparr>"

definition commit_state :: mount_state where
  "commit_state =
     \<lparr>mount_flags = 33,
      inodes = [1 \<mapsto> inode_v, 2 \<mapsto> staged_inode 2 201, 3 \<mapsto> staged_inode 3 202,
                4 \<mapsto> staged_inode 4 203],
      ltes = [100 \<mapsto> blob_v, 201 \<mapsto> staged_blob ''s/x'' 2, 202 \<mapsto> staged_blob ''s/e'' 3,
              203 \<mapsto> staged_blob ''s/n'' 4],
      lookup_table = [203, 202, 201, 100], staging_list = [203, 202, 201],
      image_inode_list = [4, 3, 2, 1],
      dentry_table = [''/v'' \<mapsto> (1, 0), ''/x'' \<mapsto> (2, 0), ''/e'' \<mapsto> (3, 0),
                      ''/n'' \<mapsto> (4, 0)],
      staging_files = [''s/x'' \<mapsto> [118], ''s/e'' \<mapsto> [], ''s/n'' \<mapsto> [110, 101, 119]],
      open_fds = {#}\<rparr>"

definition rehash_fine :: rehash_env where
  "rehash_fine =
     \<lparr>sha1sum_ret = 0,
      sha1 = (\<lambda>v. if v = [118] then sha1_v else replicate 20 (of_nat (length v))),
      stat_ok = True\<rparr>"

text \<open>Turns of the unmount command's loop: a receive that times out while the daemon is
  alive, and a run in which the daemon-info message arrives, then a timeout with the
  daemon alive, then the unmount-finished message with status 7.\<close>

definition alive_timeout :: tick where
  "alive_timeout = \<lparr>received = MQ_FAILED ETIMEDOUT, kill_errno = None\<rparr>"

definition unmount_run :: "tick list" where
  "unmount_run =
     [\<lparr>received = MQ_RECEIVED 24 info_msg, kill_errno = None\<rparr>,
      alive_timeout,
      \<lparr>received = MQ_RECEIVED 20 finished_msg, kill_errno = None\<rparr>]"

definition unmount_run_ctx :: msg_handler_context where
  "unmount_run_ctx =
     unmount_handler_ctx\<lparr>unmount_daemon_pid := 4242, unmount_mount_flags := 1,
                         timeout_seconds := 1, unmount_status := 7\<rparr>"

definition unmount_run_calls :: "proto_call list" where
  "unmount_run_calls =
     [Call_mq_timedreceive 5, Call_mq_timedreceive 1, Call_kill 4242, Call_mq_timedreceive 1]"

text \<open>The mount \<open>shared_state\<close> after the stream of \<open>/x\<close> has been staged with its five bytes:
  the blob is split, the handle open on \<open>/x\<close> is rebound to the new descriptor 101 and has
  the native descriptor 4 on the staging file.\<close>

definition handle0_rebound :: wimlib_fd where
  "handle0_rebound = handle0\<lparr>f_lte := Some 101, staging_fd := 4\<rparr>"

definition shared_state_staged :: mount_state where
  "shared_state_staged =
     shared_state
       \<lparr>inodes := (inodes shared_state)
                   (1 \<mapsto> inode_x\<lparr>i_lte := Some 101,
                                   fds := Some handle0_rebound # replicate 7 None\<rparr>),
        ltes := (ltes shared_state)
                  (100 \<mapsto> blob_hello\<lparr>refcnt := 1, lte_num_opened_fds := 0\<rparr>,
                   101 \<mapsto> (staged_blob staging_name 1)\<lparr>lte_num_opened_fds := 1\<rparr>),
        lookup_table := [101, 100], staging_list := [101],
        staging_files := [staging_name \<mapsto> hello], open_fds := {#4#}\<rparr>"

text \<open>The mount \<open>own_state\<close> after the stream of \<open>/x\<close> has been truncated to three bytes: the
  descriptor 100 is re-used for the staging file, and the inode with its handle is as it
  was.\<close>

definition own_state_staged :: mount_state where
  "own_state_staged =
     own_state
       \<lparr>ltes := [100 \<mapsto> blob_hello\<lparr>refcnt := 1,
                                      resource_location := RESOURCE_IN_STAGING_FILE,
                                      staging_file_name := Some staging_name,
                                      lte_inode := Some 1,
                                      hash := replicate 20 0x55\<rparr>],
        staging_list := [100],
        staging_files := [staging_name \<mapsto> [72, 101, 108]]\<rparr>"

text \<open>The mount \<open>xattr_state\<close> after the attribute \<open>user.meta\<close> with the value \<open>v\<close> has been set
  on \<open>/x\<close>: the inode with the two links has a named stream that refers to the blob of
  \<open>/v\<close>, whose reference count has gone from 1 to 2.\<close>

definition xattr_state_after :: mount_state where
  "xattr_state_after =
     xattr_state
       \<lparr>inodes := (inodes xattr_state)
                   (2 \<mapsto> inode_xy\<lparr>ads_entries :=
                                      [\<lparr>ads_stream_id = 1, stream_name_utf8 = ''meta'',
                                        ads_lte = Some 100\<rparr>],
                                    next_stream_id := 2\<rparr>),
        ltes := (ltes xattr_state)(100 \<mapsto> blob_v\<lparr>refcnt := 2\<rparr>)\<rparr>"

section \<open>Properties\<close>

subsection \<open>The per-inode handle table\<close>

lemma first_empty_slot_ex:
  "occupied xs < length xs \<Longrightarrow> \<exists>k. first_empty_slot xs = Some k \<and> k < length xs \<and> xs ! k = None"
proof (induction xs)
  case Nil then show ?case by simp
next
  case (Cons x xs)
  then show ?case
    by (cases x) (auto simp: occupied_def)
qed

lemma occupied_le: "occupied xs \<le> length xs"
  by (simp add: occupied_def)

lemma occupied_append_None: "occupied (xs @ replicate n None) = occupied xs"
  by (simp add: occupied_def)

lemma occupied_update:
  "k < length xs \<Longrightarrow> xs ! k = None \<Longrightarrow> occupied (xs[k := Some fd]) = Suc (occupied xs)"
proof (induction xs arbitrary: k)
  case Nil then show ?case by simp
next
  case (Cons x xs)
  then show ?case by (cases k) (auto simp: occupied_def)
qed

lemma unat_u16_le: "unat (w :: u16) \<le> 65535"
  using unsigned_less[of w, where ?'a=nat] by simp

lemma unat_grow:
  "unat (num_allocated_fds i + min fds_per_alloc (max_fds - num_allocated_fds i))
     = unat (num_allocated_fds i) + min 8 (65535 - unat (num_allocated_fds i))"
proof -
  let ?a = "num_allocated_fds i"
  have a: "unat ?a \<le> 65535" by (rule unat_u16_le)
  have s: "unat (max_fds - ?a) = 65535 - unat ?a"
    by (simp add: max_fds_def unat_sub word_le_nat_alt a)
  have m: "unat (min fds_per_alloc (max_fds - ?a)) = min 8 (65535 - unat ?a)"
    using s by (simp add: min_def word_le_nat_alt fds_per_alloc_def)
  show ?thesis
    using a m by (simp add: unat_word_ariths)
qed

lemma unat_min_new:
  "unat (min fds_per_alloc (max_fds - num_allocated_fds i)) = min 8 (65535 - unat (num_allocated_fds i))"
proof -
  let ?a = "num_allocated_fds i"
  have a: "unat ?a \<le> 65535" by (rule unat_u16_le)
  have s: "unat (max_fds - ?a) = 65535 - unat ?a"
    by (simp add: max_fds_def unat_sub word_le_nat_alt a)
  show ?thesis
    using s by (simp add: min_def word_le_nat_alt fds_per_alloc_def)
qed

lemma grow_fds_ok:
  assumes "inode_fds_ok i" "num_opened_fds i = num_allocated_fds i" "num_allocated_fds i \<noteq> max_fds"
  shows "inode_fds_ok (grow_fds i)"
    and "occupied (fds (grow_fds i)) < length (fds (grow_fds i))"
    and "unat (num_allocated_fds (grow_fds i)) = unat (num_allocated_fds i) + min 8 (65535 - unat (num_allocated_fds i))"
    and "num_opened_fds (grow_fds i) = num_opened_fds i"
    and "occupied (fds (grow_fds i)) = occupied (fds i)"
proof -
  have ne: "unat (num_allocated_fds i) \<noteq> 65535"
    using assms(3) by (auto simp: max_fds_def word_unat_eq_iff)
  have lt: "unat (num_allocated_fds i) < 65535"
    using ne unat_u16_le[of "num_allocated_fds i"] by linarith
  show g3: "unat (num_allocated_fds (grow_fds i)) = unat (num_allocated_fds i) + min 8 (65535 - unat (num_allocated_fds i))"
    by (simp add: grow_fds_def Let_def unat_grow)
  show "inode_fds_ok (grow_fds i)"
    using assms(1) by (simp add: inode_fds_ok_def grow_fds_def Let_def unat_grow unat_min_new occupied_append_None)
  show "occupied (fds (grow_fds i)) < length (fds (grow_fds i))"
    using assms(1) lt by (simp add: inode_fds_ok_def grow_fds_def Let_def unat_min_new occupied_append_None assms(2))
  show "num_opened_fds (grow_fds i) = num_opened_fds i"
    by (simp add: grow_fds_def Let_def)
  show "occupied (fds (grow_fds i)) = occupied (fds i)"
    by (simp add: grow_fds_def Let_def occupied_append_None)
qed

lemma unat_u16_Suc: "unat (w :: u16) < 65535 \<Longrightarrow> unat (w + 1) = Suc (unat w)"
  by (simp add: unat_word_ariths)

lemma slot_taken_ok:
  assumes ok: "inode_fds_ok i1" and lt: "occupied (fds i1) < length (fds i1)"
    and k: "k < length (fds i1)" "fds i1 ! k = None"
  shows "inode_fds_ok (i1\<lparr>fds := (fds i1)[k := Some fd], num_opened_fds := num_opened_fds i1 + 1\<rparr>)"
proof -
  have "unat (num_opened_fds i1) < 65535"
    using ok lt unat_u16_le[of "num_allocated_fds i1"] by (simp add: inode_fds_ok_def)
  then show ?thesis
    using ok k by (simp add: inode_fds_ok_def occupied_update unat_u16_Suc)
qed

lemma errno_val_pos: "0 < errno_val e"
  by (cases e) simp_all

lemma inode_fds_ok_len: "inode_fds_ok i \<Longrightarrow> length (fds i) \<le> 65535"
  using unsigned_less[of "num_allocated_fds i", where ?'a=nat]
  by (simp add: inode_fds_ok_def)

lemma alloc_wimlib_fd_bounds:
  assumes i: "inodes s ip = Some i" and ok: "inode_fds_ok i"
    and lte: "lte = None \<or> readonly \<or> (\<exists>p l. lte = Some p \<and> ltes s p = Some l)"
  shows "\<exists>ret fd s' i'.
     alloc_wimlib_fd s ip stream_id lte readonly env = Some (ret, fd, s') \<and>
     inodes s' ip = Some i' \<and> inode_fds_ok i' \<and>
     occupied (fds i') \<le> 65535 \<and>
     (ret = 0 \<longrightarrow> occupied (fds i') = Suc (occupied (fds i))) \<and>
     (num_allocated_fds i' = num_allocated_fds i \<or>
        occupied (fds i) = length (fds i) \<and>
        length (fds i') = length (fds i) + min 8 (65535 - length (fds i))) \<and>
     (occupied (fds i) = 65535 \<longrightarrow> ret = - errno_val EMFILE \<and> fd = None \<and> s' = s)"
proof -
  have bound: "\<And>j. inode_fds_ok j \<Longrightarrow> occupied (fds j) \<le> 65535"
    using unat_u16_le by (simp add: inode_fds_ok_def)
  have full_iff: "num_opened_fds i = num_allocated_fds i \<longleftrightarrow> occupied (fds i) = length (fds i)"
    using ok by (simp add: inode_fds_ok_def word_unat_eq_iff)
  have max_iff: "num_allocated_fds i = max_fds \<longleftrightarrow> length (fds i) = 65535"
    using ok by (simp add: inode_fds_ok_def word_unat_eq_iff max_fds_def)
  consider (emfile) "num_opened_fds i = num_allocated_fds i" "num_allocated_fds i = max_fds"
    | (grow) "num_opened_fds i = num_allocated_fds i" "num_allocated_fds i \<noteq> max_fds"
    | (room) "num_opened_fds i \<noteq> num_allocated_fds i"
    by blast
  then show ?thesis
  proof cases
    case emfile
    then show ?thesis
      using i ok bound[OF ok] by (simp add: alloc_wimlib_fd_def)
  next
    case grow
    note g = grow_fds_ok[OF ok grow]
    have nfull: "occupied (fds i) \<noteq> 65535"
      using grow full_iff max_iff by simp
    obtain k where k: "first_empty_slot (fds (grow_fds i)) = Some k"
        "k < length (fds (grow_fds i))" "fds (grow_fds i) ! k = None"
      using first_empty_slot_ex[OF g(2)] by blast
    have len: "length (fds (grow_fds i)) = length (fds i) + min 8 (65535 - length (fds i))"
      using g(1) g(3) ok by (simp add: inode_fds_ok_def)
    show ?thesis
    proof (cases "realloc_ok env")
      case False
      then show ?thesis
        using i ok grow nfull bound[OF ok] by (simp add: alloc_wimlib_fd_def)
    next
      case True
      note ro = this
      show ?thesis
      proof (cases "calloc_ok env")
        case False
        then show ?thesis
          using i grow ro k g(1) g(5) nfull bound[OF g(1)] len full_iff
          by (simp add: alloc_wimlib_fd_def Let_def)
      next
        case True
        let ?fd = "\<lparr>f_inode = ip, f_lte = lte, staging_fd = - 1, idx = of_nat k, fd_stream_id = stream_id\<rparr>"
        let ?i2 = "(grow_fds i)\<lparr>fds := (fds (grow_fds i))[k := Some ?fd],
                     num_opened_fds := num_opened_fds (grow_fds i) + 1\<rparr>"
        have ok2: "inode_fds_ok ?i2"
          by (rule slot_taken_ok[OF g(1) g(2) k(2) k(3)])
        have occ2: "occupied (fds ?i2) = Suc (occupied (fds i))"
          using k g(5) by (simp add: occupied_update)
        have len2: "length (fds ?i2) = length (fds i) + min 8 (65535 - length (fds i))"
          using len by simp
        show ?thesis
          using i grow ro True k ok2 occ2 len2 nfull bound[OF ok2] full_iff lte
          by (cases lte) (auto simp: alloc_wimlib_fd_def Let_def lte_inc_num_opened_fds_def)
      qed
    qed
  next
    case room
    have lt: "occupied (fds i) < length (fds i)"
      using room full_iff occupied_le[of "fds i"] by linarith
    have nfull: "occupied (fds i) \<noteq> 65535"
      using lt ok unat_u16_le[of "num_allocated_fds i"] by (simp add: inode_fds_ok_def)
    obtain k where k: "first_empty_slot (fds i) = Some k" "k < length (fds i)" "fds i ! k = None"
      using first_empty_slot_ex[OF lt] by blast
    show ?thesis
    proof (cases "calloc_ok env")
      case False
      then show ?thesis
        using i room k ok nfull bound[OF ok]
        by (simp add: alloc_wimlib_fd_def Let_def)
    next
      case True
      let ?fd = "\<lparr>f_inode = ip, f_lte = lte, staging_fd = - 1, idx = of_nat k, fd_stream_id = stream_id\<rparr>"
      let ?i2 = "i\<lparr>fds := (fds i)[k := Some ?fd], num_opened_fds := num_opened_fds i + 1\<rparr>"
      have ok2: "inode_fds_ok ?i2"
        by (rule slot_taken_ok[OF ok lt k(2) k(3)])
      have occ2: "occupied (fds ?i2) = Suc (occupied (fds i))"
        using k by (simp add: occupied_update)
      show ?thesis
        using i room True k ok2 occ2 nfull bound[OF ok2] lte
        by (cases lte) (auto simp: alloc_wimlib_fd_def Let_def lte_inc_num_opened_fds_def)
    qed
  qed
qed

lemma first_empty_slot_lt:
  "first_empty_slot xs = Some k \<Longrightarrow> k < length xs \<and> xs ! k = None"
proof (induction xs arbitrary: k)
  case Nil then show ?case by simp
next
  case (Cons x xs)
  then show ?case by (cases x) auto
qed

lemma unat_idx: "k < 65535 \<Longrightarrow> unat (of_nat k :: u16) = k"
  by (simp add: unat_of_nat)

text \<open>What a successful call leaves: the array (enlarged or not) with the new handle in
  its first empty slot.\<close>

lemma alloc_result:
  assumes i: "inodes s ip = Some i" and ok: "inode_fds_ok i"
    and lte: "lte = None \<or> readonly \<or> (\<exists>p l. lte = Some p \<and> ltes s p = Some l)"
  shows "\<exists>ret fd s' i'.
     alloc_wimlib_fd s ip stream_id lte readonly env = Some (ret, fd, s') \<and>
     inodes s' ip = Some i' \<and>
     ret = (if occupied (fds i) = 65535 then - errno_val EMFILE
            else if occupied (fds i) = length (fds i) \<and> \<not> realloc_ok env
            then - errno_val ENOMEM
            else if \<not> calloc_ok env then - errno_val ENOMEM else 0) \<and>
     (ret \<noteq> 0 \<longrightarrow> fd = None \<and> occupied (fds i') = occupied (fds i)) \<and>
     (occupied (fds i) < length (fds i) \<longrightarrow> length (fds i') = length (fds i)) \<and>
     (occupied (fds i) = length (fds i) \<and> length (fds i) < 65535 \<and> realloc_ok env \<longrightarrow>
        length (fds i') = length (fds i) + min 8 (65535 - length (fds i))) \<and>
     (ret = 0 \<longrightarrow>
        (\<exists>h k. fd = Some h \<and>
           first_empty_slot (fds i @ replicate (length (fds i') - length (fds i)) None)
             = Some k \<and>
           fds i' = (fds i @ replicate (length (fds i') - length (fds i)) None)[k := Some h] \<and>
           f_inode h = ip \<and> f_lte h = lte \<and> staging_fd h = - 1 \<and>
           fd_stream_id h = stream_id \<and> unat (idx h) = k))"
proof -
  have bound: "\<And>j. inode_fds_ok j \<Longrightarrow> occupied (fds j) \<le> 65535"
    using unat_u16_le by (simp add: inode_fds_ok_def)
  have full_iff: "num_opened_fds i = num_allocated_fds i \<longleftrightarrow> occupied (fds i) = length (fds i)"
    using ok by (simp add: inode_fds_ok_def word_unat_eq_iff)
  have max_iff: "num_allocated_fds i = max_fds \<longleftrightarrow> length (fds i) = 65535"
    using ok by (simp add: inode_fds_ok_def word_unat_eq_iff max_fds_def)
  have len_le: "length (fds i) \<le> 65535" by (rule inode_fds_ok_len[OF ok])
  consider (emfile) "num_opened_fds i = num_allocated_fds i" "num_allocated_fds i = max_fds"
    | (grow) "num_opened_fds i = num_allocated_fds i" "num_allocated_fds i \<noteq> max_fds"
    | (room) "num_opened_fds i \<noteq> num_allocated_fds i"
    by blast
  then show ?thesis
  proof cases
    case emfile
    have full: "occupied (fds i) = 65535" using emfile full_iff max_iff by simp
    have "alloc_wimlib_fd s ip stream_id lte readonly env = Some (- errno_val EMFILE, None, s)"
      using i emfile by (simp add: alloc_wimlib_fd_def)
    then show ?thesis
      using i full errno_val_pos[of EMFILE] max_iff emfile by auto
  next
    case grow
    note g = grow_fds_ok[OF ok grow]
    have isfull: "occupied (fds i) = length (fds i)" using grow full_iff by simp
    have lt: "length (fds i) < 65535" using grow max_iff len_le by simp
    have nfull: "occupied (fds i) \<noteq> 65535" using isfull lt by simp
    have len: "length (fds (grow_fds i)) = length (fds i) + min 8 (65535 - length (fds i))"
      using g(1) g(3) ok by (simp add: inode_fds_ok_def)
    have gf: "fds (grow_fds i) =
        fds i @ replicate (length (fds (grow_fds i)) - length (fds i)) None"
      using len by (simp add: grow_fds_def Let_def)
    obtain k where k: "first_empty_slot (fds (grow_fds i)) = Some k"
        "k < length (fds (grow_fds i))" "fds (grow_fds i) ! k = None"
      using first_empty_slot_ex[OF g(2)] by blast
    have k65: "k < 65535" using k(2) len lt by simp
    show ?thesis
    proof (cases "realloc_ok env")
      case False
      have "alloc_wimlib_fd s ip stream_id lte readonly env = Some (- errno_val ENOMEM, None, s)"
        using i grow False by (simp add: alloc_wimlib_fd_def)
      then show ?thesis
        using i isfull nfull False errno_val_pos[of ENOMEM] by auto
    next
      case True
      note ro = this
      show ?thesis
      proof (cases "calloc_ok env")
        case False
        have "alloc_wimlib_fd s ip stream_id lte readonly env =
                Some (- errno_val ENOMEM, None, s\<lparr>inodes := (inodes s)(ip \<mapsto> grow_fds i)\<rparr>)"
          using i grow ro False k(1) by (simp add: alloc_wimlib_fd_def Let_def)
        then show ?thesis
          using isfull nfull False errno_val_pos[of ENOMEM] g(5) len by auto
      next
        case True
        let ?fd = "\<lparr>f_inode = ip, f_lte = lte, staging_fd = - 1, idx = of_nat k, fd_stream_id = stream_id\<rparr>"
        let ?i2 = "(grow_fds i)\<lparr>fds := (fds (grow_fds i))[k := Some ?fd],
                     num_opened_fds := num_opened_fds (grow_fds i) + 1\<rparr>"
        have run: "\<exists>s'. alloc_wimlib_fd s ip stream_id lte readonly env = Some (0, Some ?fd, s')
                     \<and> inodes s' ip = Some ?i2"
          using i grow ro True k(1) lte
          by (cases lte) (auto simp: alloc_wimlib_fd_def Let_def lte_inc_num_opened_fds_def)
        have len2: "length (fds ?i2) = length (fds i) + min 8 (65535 - length (fds i))"
          using len by simp
        have f2: "fds ?i2 = (fds i @ replicate (length (fds ?i2) - length (fds i)) None)[k := Some ?fd]"
          using gf by simp
        have fe: "first_empty_slot (fds i @ replicate (length (fds ?i2) - length (fds i)) None) = Some k"
          using k(1) gf by simp
        from run obtain s' where
          r: "alloc_wimlib_fd s ip stream_id lte readonly env = Some (0, Some ?fd, s')"
          and i2: "inodes s' ip = Some ?i2" by blast
        show ?thesis
          apply (rule exI[of _ 0], rule exI[of _ "Some ?fd"], rule exI[of _ s'], rule exI[of _ ?i2])
          using r i2 isfull nfull ro True len2 f2 fe unat_idx[OF k65] lt
          by simp
      qed
    qed
  next
    case room
    have lt: "occupied (fds i) < length (fds i)"
      using room full_iff occupied_le[of "fds i"] by linarith
    have nfull: "occupied (fds i) \<noteq> 65535" using lt len_le by simp
    obtain k where k: "first_empty_slot (fds i) = Some k" "k < length (fds i)" "fds i ! k = None"
      using first_empty_slot_ex[OF lt] by blast
    have k65: "k < 65535" using k(2) len_le lt by simp
    show ?thesis
    proof (cases "calloc_ok env")
      case False
      have "alloc_wimlib_fd s ip stream_id lte readonly env =
              Some (- errno_val ENOMEM, None, s\<lparr>inodes := (inodes s)(ip \<mapsto> i)\<rparr>)"
        using i room False k(1) by (simp add: alloc_wimlib_fd_def Let_def)
      then show ?thesis
        using lt nfull False errno_val_pos[of ENOMEM] by auto
    next
      case True
      let ?fd = "\<lparr>f_inode = ip, f_lte = lte, staging_fd = - 1, idx = of_nat k, fd_stream_id = stream_id\<rparr>"
      let ?i2 = "i\<lparr>fds := (fds i)[k := Some ?fd], num_opened_fds := num_opened_fds i + 1\<rparr>"
      have run: "\<exists>s'. alloc_wimlib_fd s ip stream_id lte readonly env = Some (0, Some ?fd, s')
                     \<and> inodes s' ip = Some ?i2"
        using i room True k(1) lte
        by (cases lte) (auto simp: alloc_wimlib_fd_def Let_def lte_inc_num_opened_fds_def)
      from run obtain s' where
        r: "alloc_wimlib_fd s ip stream_id lte readonly env = Some (0, Some ?fd, s')"
        and i2: "inodes s' ip = Some ?i2" by blast
      show ?thesis
        apply (rule exI[of _ 0], rule exI[of _ "Some ?fd"], rule exI[of _ s'], rule exI[of _ ?i2])
        using r i2 lt nfull True k(1) unat_idx[OF k65]
        by simp
    qed
  qed
qed

lemma replicate_8: "replicate 8 x = x # replicate 7 x"
proof -
  have "(8::nat) = Suc 7" by simp
  then show ?thesis by (simp only: replicate_Suc)
qed

lemma replicate_7: "replicate 7 x = x # replicate 6 x"
proof -
  have "(7::nat) = Suc 6" by simp
  then show ?thesis by (simp only: replicate_Suc)
qed

text \<open>
  C9. For an inode whose handle array is consistent, \<^verbatim>\<open>alloc_wimlib_fd\<close> always returns
  and leaves the array consistent with at most 65535 occupied slots.
  \<^item> With 65535 handles open it returns \<open>-EMFILE\<close> and changes nothing. With fewer it
    returns \<open>-ENOMEM\<close> when the array is full and cannot be enlarged or when the handle
    cannot be allocated, and 0 otherwise.
  \<^item> A call that returns 0 opens exactly one more handle: the handle returned is in the
    first empty slot of the array, carries the inode, the stream id and the descriptor
    given and no native descriptor, and the other slots are as before. A call that fails
    returns no handle and opens none.
  \<^item> The array is not enlarged while it has an empty slot. A full array of fewer than
    65535 slots is enlarged, if the reallocation succeeds, by \<open>min 8 (65535 - allocated)\<close>
    empty slots.
\<close>

theorem alloc_wimlib_fd_cap:
  assumes i: "inodes s ip = Some i" and ok: "inode_fds_ok i"
    and lte: "lte = None \<or> readonly \<or> (\<exists>p l. lte = Some p \<and> ltes s p = Some l)"
  shows "\<exists>ret fd s' i'.
     alloc_wimlib_fd s ip stream_id lte readonly env = Some (ret, fd, s') \<and>
     inodes s' ip = Some i' \<and> inode_fds_ok i' \<and>
     occupied (fds i') \<le> 65535 \<and>
     ret = (if occupied (fds i) = 65535 then - errno_val EMFILE
            else if occupied (fds i) = length (fds i) \<and> \<not> realloc_ok env
            then - errno_val ENOMEM
            else if \<not> calloc_ok env then - errno_val ENOMEM else 0) \<and>
     (ret = 0 \<longrightarrow> occupied (fds i') = Suc (occupied (fds i))) \<and>
     (ret \<noteq> 0 \<longrightarrow> fd = None \<and> occupied (fds i') = occupied (fds i)) \<and>
     (num_allocated_fds i' = num_allocated_fds i \<or>
        occupied (fds i) = length (fds i) \<and>
        length (fds i') = length (fds i) + min 8 (65535 - length (fds i))) \<and>
     (occupied (fds i) < length (fds i) \<longrightarrow> length (fds i') = length (fds i)) \<and>
     (occupied (fds i) = length (fds i) \<and> length (fds i) < 65535 \<and> realloc_ok env \<longrightarrow>
        length (fds i') = length (fds i) + min 8 (65535 - length (fds i))) \<and>
     (ret = 0 \<longrightarrow>
        (\<exists>h k. fd = Some h \<and>
           first_empty_slot (fds i @ replicate (length (fds i') - length (fds i)) None)
             = Some k \<and>
           fds i' = (fds i @ replicate (length (fds i') - length (fds i)) None)[k := Some h] \<and>
           f_inode h = ip \<and> f_lte h = lte \<and> staging_fd h = - 1 \<and>
           fd_stream_id h = stream_id \<and> unat (idx h) = k)) \<and>
     (occupied (fds i) = 65535 \<longrightarrow> ret = - errno_val EMFILE \<and> fd = None \<and> s' = s)"
proof -
  from alloc_wimlib_fd_bounds[OF i ok lte, of stream_id env]
  obtain ret fd s' i' where
    r: "alloc_wimlib_fd s ip stream_id lte readonly env = Some (ret, fd, s')"
    and i': "inodes s' ip = Some i'"
    and b: "inode_fds_ok i'" "occupied (fds i') \<le> 65535"
      "ret = 0 \<longrightarrow> occupied (fds i') = Suc (occupied (fds i))"
      "num_allocated_fds i' = num_allocated_fds i \<or>
        occupied (fds i) = length (fds i) \<and>
        length (fds i') = length (fds i) + min 8 (65535 - length (fds i))"
      "occupied (fds i) = 65535 \<longrightarrow> ret = - errno_val EMFILE \<and> fd = None \<and> s' = s"
    by blast
  from alloc_result[OF i ok lte, of stream_id env]
  obtain ret2 fd2 s2 i2 where
    r2: "alloc_wimlib_fd s ip stream_id lte readonly env = Some (ret2, fd2, s2)"
    and i2: "inodes s2 ip = Some i2"
    and c: "ret2 = (if occupied (fds i) = 65535 then - errno_val EMFILE
            else if occupied (fds i) = length (fds i) \<and> \<not> realloc_ok env
            then - errno_val ENOMEM
            else if \<not> calloc_ok env then - errno_val ENOMEM else 0)"
      "ret2 \<noteq> 0 \<longrightarrow> fd2 = None \<and> occupied (fds i2) = occupied (fds i)"
      "occupied (fds i) < length (fds i) \<longrightarrow> length (fds i2) = length (fds i)"
      "occupied (fds i) = length (fds i) \<and> length (fds i) < 65535 \<and> realloc_ok env \<longrightarrow>
        length (fds i2) = length (fds i) + min 8 (65535 - length (fds i))"
      "ret2 = 0 \<longrightarrow>
        (\<exists>h k. fd2 = Some h \<and>
           first_empty_slot (fds i @ replicate (length (fds i2) - length (fds i)) None)
             = Some k \<and>
           fds i2 = (fds i @ replicate (length (fds i2) - length (fds i)) None)[k := Some h] \<and>
           f_inode h = ip \<and> f_lte h = lte \<and> staging_fd h = - 1 \<and>
           fd_stream_id h = stream_id \<and> unat (idx h) = k)"
    by blast
  from r r2 have e: "ret2 = ret" "fd2 = fd" "s2 = s'" by simp_all
  with i' i2 have e2: "i2 = i'" by simp
  note c' = c[unfolded e e2]
  show ?thesis
    apply (rule exI[of _ ret], rule exI[of _ fd], rule exI[of _ s'], rule exI[of _ i'])
    using r i' b c' by blast
qed

text \<open>The cap reached: an inode with 65535 open handles refuses one more. The first open
  of \<open>/x\<close> in \<open>own_state_closed\<close>, whose inode has no slots: the array is enlarged to 8
  slots and one handle is open. A second open in \<open>own_state\<close>: the array has room and
  keeps its 8 slots, and two handles are open.\<close>

theorem alloc_wimlib_fd_cap_witness:
  "inodes full_state 0 = Some full_inode \<and> inode_fds_ok full_inode \<and>
   occupied (fds full_inode) = 65535 \<and>
   alloc_wimlib_fd full_state 0 0 None False alloc_fine
     = Some (- errno_val EMFILE, None, full_state) \<and>
   inodes own_state_closed 1 = Some closed_inode_x \<and> inode_fds_ok closed_inode_x \<and>
   ltes own_state_closed 100 \<noteq> None \<and>
   occupied (fds closed_inode_x) = length (fds closed_inode_x) \<and>
   length (fds closed_inode_x) = 0 \<and> realloc_ok alloc_fine \<and> calloc_ok alloc_fine \<and>
   (\<exists>h s' i'. alloc_wimlib_fd own_state_closed 1 0 (Some 100) False alloc_fine
                  = Some (0, Some h, s') \<and>
      inodes s' 1 = Some i' \<and> length (fds i') = 8 \<and> occupied (fds i') = 1 \<and>
      fds i' ! 0 = Some h) \<and>
   inodes own_state 1 = Some inode_x \<and> inode_fds_ok inode_x \<and>
   occupied (fds inode_x) = 1 \<and> length (fds inode_x) = 8 \<and>
   (\<exists>h s' i'. alloc_wimlib_fd own_state 1 0 (Some 100) False alloc_fine
                  = Some (0, Some h, s') \<and>
      inodes s' 1 = Some i' \<and> length (fds i') = 8 \<and> occupied (fds i') = 2 \<and>
      fds i' ! 1 = Some h)"
proof -
  have h1: "inodes full_state 0 = Some full_inode" by (simp add: full_state_def)
  have h2: "inode_fds_ok full_inode" by (simp add: inode_fds_ok_def full_inode_def occupied_def)
  have h3: "occupied (fds full_inode) = 65535" by (simp add: full_inode_def occupied_def)
  have a: "alloc_wimlib_fd full_state 0 0 None False alloc_fine
     = Some (- errno_val EMFILE, None, full_state)"
    using h3 alloc_wimlib_fd_cap[OF h1 h2, of None False 0 alloc_fine]
    by auto
  have env: "realloc_ok alloc_fine" "calloc_ok alloc_fine" by (simp_all add: alloc_fine_def)
  have c1: "inodes own_state_closed 1 = Some closed_inode_x"
    by (simp add: own_state_closed_def closed_inode_x_def)
  have c2: "inode_fds_ok closed_inode_x"
    by (simp add: inode_fds_ok_def closed_inode_x_def occupied_def)
  have c3: "ltes own_state_closed 100 \<noteq> None" by (simp add: own_state_closed_def)
  have c4: "occupied (fds closed_inode_x) = length (fds closed_inode_x)"
    "length (fds closed_inode_x) = 0"
    by (simp_all add: closed_inode_x_def occupied_def)
  have c5: "Some 100 = None \<or> False \<or>
      (\<exists>p l. Some 100 = Some p \<and> ltes own_state_closed p = Some l)"
    using c3 by auto
  have b: "\<exists>h s' i'. alloc_wimlib_fd own_state_closed 1 0 (Some 100) False alloc_fine
                  = Some (0, Some h, s') \<and>
      inodes s' 1 = Some i' \<and> length (fds i') = 8 \<and> occupied (fds i') = 1 \<and>
      fds i' ! 0 = Some h"
  proof -
    from alloc_wimlib_fd_cap[OF c1 c2 c5, of 0 alloc_fine]
    obtain ret fd s' i' where
      r: "alloc_wimlib_fd own_state_closed 1 0 (Some 100) False alloc_fine = Some (ret, fd, s')"
      and i': "inodes s' 1 = Some i'"
      and q: "ret = (if occupied (fds closed_inode_x) = 65535 then - errno_val EMFILE
            else if occupied (fds closed_inode_x) = length (fds closed_inode_x) \<and>
                    \<not> realloc_ok alloc_fine
            then - errno_val ENOMEM
            else if \<not> calloc_ok alloc_fine then - errno_val ENOMEM else 0)"
        "ret = 0 \<longrightarrow> occupied (fds i') = Suc (occupied (fds closed_inode_x))"
        "occupied (fds closed_inode_x) = length (fds closed_inode_x) \<and>
         length (fds closed_inode_x) < 65535 \<and> realloc_ok alloc_fine \<longrightarrow>
           length (fds i') = length (fds closed_inode_x)
             + min 8 (65535 - length (fds closed_inode_x))"
        "ret = 0 \<longrightarrow>
          (\<exists>h k. fd = Some h \<and>
             first_empty_slot (fds closed_inode_x @
                 replicate (length (fds i') - length (fds closed_inode_x)) None) = Some k \<and>
             fds i' = (fds closed_inode_x @
                 replicate (length (fds i') - length (fds closed_inode_x)) None)[k := Some h] \<and>
             f_inode h = 1 \<and> f_lte h = Some 100 \<and> staging_fd h = - 1 \<and>
             fd_stream_id h = 0 \<and> unat (idx h) = k)"
      by blast
    have ret: "ret = 0" using q(1) c4 env by simp
    have len: "length (fds i') = 8" using q(3) c4 env by simp
    have occ: "occupied (fds i') = 1" using q(2) ret c4 by simp
    from q(4) ret len obtain h k where
      h: "fd = Some h" "first_empty_slot (fds closed_inode_x @ replicate 8 None) = Some k"
        "fds i' = (fds closed_inode_x @ replicate 8 None)[k := Some h]"
      using c4(2) by auto
    have "k = 0" using h(2) by (simp add: closed_inode_x_def replicate_8)
    then have "fds i' ! 0 = Some h" using h(3) by (simp add: closed_inode_x_def replicate_8)
    then show ?thesis using r ret h(1) i' len occ by blast
  qed
  have d1: "inodes own_state 1 = Some inode_x" by (simp add: own_state_def)
  have d2: "inode_fds_ok inode_x" by (simp add: inode_fds_ok_def inode_x_def occupied_def)
  have d4: "occupied (fds inode_x) = 1" "length (fds inode_x) = 8"
    by (simp_all add: inode_x_def occupied_def)
  have d5: "Some 100 = None \<or> False \<or>
      (\<exists>p l. Some 100 = Some p \<and> ltes own_state p = Some l)"
    by (simp add: own_state_def)
  have c: "\<exists>h s' i'. alloc_wimlib_fd own_state 1 0 (Some 100) False alloc_fine
                  = Some (0, Some h, s') \<and>
      inodes s' 1 = Some i' \<and> length (fds i') = 8 \<and> occupied (fds i') = 2 \<and>
      fds i' ! 1 = Some h"
  proof -
    from alloc_wimlib_fd_cap[OF d1 d2 d5, of 0 alloc_fine]
    obtain ret fd s' i' where
      r: "alloc_wimlib_fd own_state 1 0 (Some 100) False alloc_fine = Some (ret, fd, s')"
      and i': "inodes s' 1 = Some i'"
      and q: "ret = (if occupied (fds inode_x) = 65535 then - errno_val EMFILE
            else if occupied (fds inode_x) = length (fds inode_x) \<and> \<not> realloc_ok alloc_fine
            then - errno_val ENOMEM
            else if \<not> calloc_ok alloc_fine then - errno_val ENOMEM else 0)"
        "ret = 0 \<longrightarrow> occupied (fds i') = Suc (occupied (fds inode_x))"
        "occupied (fds inode_x) < length (fds inode_x) \<longrightarrow>
           length (fds i') = length (fds inode_x)"
        "ret = 0 \<longrightarrow>
          (\<exists>h k. fd = Some h \<and>
             first_empty_slot (fds inode_x @
                 replicate (length (fds i') - length (fds inode_x)) None) = Some k \<and>
             fds i' = (fds inode_x @
                 replicate (length (fds i') - length (fds inode_x)) None)[k := Some h] \<and>
             f_inode h = 1 \<and> f_lte h = Some 100 \<and> staging_fd h = - 1 \<and>
             fd_stream_id h = 0 \<and> unat (idx h) = k)"
      by blast
    have ret: "ret = 0" using q(1) d4 env by simp
    have len: "length (fds i') = 8" using q(3) d4 by simp
    have occ: "occupied (fds i') = 2" using q(2) ret d4 by simp
    from q(4) ret len obtain h k where
      h: "fd = Some h" "first_empty_slot (fds inode_x) = Some k"
        "fds i' = (fds inode_x)[k := Some h]"
      using d4(2) by auto
    have "k = 1" using h(2) by (simp add: inode_x_def replicate_7)
    then have "fds i' ! 1 = Some h" using h(3) by (simp add: inode_x_def replicate_7)
    then show ?thesis using r ret h(1) i' len occ by blast
  qed
  show ?thesis using h1 h2 h3 a c1 c2 c3 c4 env b d1 d2 d4 c by blast
qed

subsection \<open>Rollback of a failed staging\<close>




























subsection \<open>The daemon's handling of an unmount request\<close>

lemma unmount_request_out_shape:
  "unmount_request_out K env ctx status calls =
     (MSG_BREAK_LOOP,
      calls @
      (if wimfs_mount_flags ctx AND WIMLIB_MOUNT_FLAG_READWRITE K \<noteq> 0
       then [Call_delete_staging_dir] else []) @
      [Call_send_unmount_finished_msg
         (if wimfs_mount_flags ctx AND WIMLIB_MOUNT_FLAG_READWRITE K \<noteq> 0 \<and> status = 0
          then delete_staging_dir_ret env else status)])"
  by (simp add: unmount_request_out_def Let_def)

lemma unmount_request_handler_full:
  "msg_unmount_request_handler K env msg ctx =
     (let wf = (sizeof_msg_unmount_request \<le> unat (msg_size (hdr msg)));
          sent = (wf \<and> send_daemon_info_msg K env = 0);
          rw = (wimfs_mount_flags ctx AND WIMLIB_MOUNT_FLAG_READWRITE K \<noteq> 0);
          commit = (cell4 msg AND WIMLIB_UNMOUNT_FLAG_COMMIT K \<noteq> 0);
          status = (if \<not> wf then WIMLIB_ERR_INVALID_UNMOUNT_MESSAGE K
                    else if \<not> sent then send_daemon_info_msg K env
                    else if rw \<and> commit then rebuild_wim_ret env else 0)
      in (MSG_BREAK_LOOP,
          (if wf then [Call_send_daemon_info_msg (getpid env) (wimfs_mount_flags ctx)]
           else []) @
          (if sent \<and> rw \<and> commit
           then [Call_rebuild_wim (commit_write_flags K (cell4 msg))] else []) @
          (if rw then [Call_delete_staging_dir] else []) @
          [Call_send_unmount_finished_msg
             (if rw \<and> status = 0 then delete_staging_dir_ret env else status)]))"
  by (simp add: msg_unmount_request_handler_def Let_def unmount_request_out_shape
      not_less[symmetric])

lemma daemon_loop_request:
  assumes "sizeof_unmount_msg_hdr \<le> n"
    and "n = unat (msg_size (hdr msg))"
    and "min_version (hdr msg) \<le> WIMLIB_VERSION_CODE K"
    and "msg_type (hdr msg) = MSG_TYPE_UNMOUNT_REQUEST"
  shows "daemon_message_loop K env (MQ_RECEIVED n msg # rest) ctx [] =
           Some (0, Call_mq_timedreceive (timeout_seconds ctx) #
                    snd (msg_unmount_request_handler K env msg ctx))"
proof -
  have brk: "fst (msg_unmount_request_handler K env msg ctx) = MSG_BREAK_LOOP"
    by (simp add: msg_unmount_request_handler_def unmount_request_out_shape Let_def)
  obtain cs where h: "msg_unmount_request_handler K env msg ctx = (MSG_BREAK_LOOP, cs)"
    using brk by (cases "msg_unmount_request_handler K env msg ctx") simp
  have rc: "daemon_receive_message K env (MQ_RECEIVED n msg) ctx = (MSG_BREAK_LOOP, cs)"
    using assms h
    by (simp add: daemon_receive_message_def
        MSG_TYPE_UNMOUNT_REQUEST_def MSG_TYPE_MAX_def not_less[symmetric])
  show ?thesis
    using rc h by (simp add: MSG_BREAK_LOOP_def MSG_VERSION_TOO_HIGH_def)
qed

lemma K0_simps [simp]:
  "WIMLIB_VERSION_CODE K0 = 0x100800"
  "WIMLIB_ERR_INVALID_UNMOUNT_MESSAGE K0 = 21"
  "WIMLIB_ERR_MQUEUE K0 = 29"
  "WIMLIB_ERR_NOMEM K0 = 30"
  "WIMLIB_ERR_TIMEOUT K0 = 43"
  "WIMLIB_ERR_FILESYSTEM_DAEMON_CRASHED K0 = 5"
  "WIMLIB_ERR_STAT K0 = 41"
  "WIMLIB_ERR_OPEN K0 = 33"
  "WIMLIB_MOUNT_FLAG_READWRITE K0 = 1"
  "WIMLIB_MOUNT_FLAG_STREAM_INTERFACE_XATTR K0 = 32"
  "WIMLIB_UNMOUNT_FLAG_COMMIT K0 = 2"
  by (simp_all add: K0_def)

lemma request_commit_simps [simp]:
  "cell4 request_commit = 2"
  "commit_write_flags K0 2 = 0"
  by (simp_all add: request_commit_def commit_write_flags_def K0_def)

lemma request_commit_hdr [simp]:
  "unat (msg_size (hdr request_commit)) = 20"
  "msg_type (hdr request_commit) = 0"
  "min_version (hdr request_commit) = 0x100800"
  by (simp_all add: request_commit_def)

lemma daemon_fine_simps [simp]:
  "getpid daemon_fine = 4242" "send_daemon_info_ok daemon_fine"
  "rebuild_wim_ret daemon_fine = 0" "delete_staging_dir_ret daemon_fine = 0"
  by (simp_all add: daemon_fine_def)

lemma daemon_handler_ctx_simps [simp]:
  "wimfs_mount_flags (daemon_handler_ctx f) = f"
  "timeout_seconds (daemon_handler_ctx f) = 5"
  by (simp_all add: daemon_handler_ctx_def)

text \<open>The claim C5 as stated fails on three paths of the handler. On a read-only mount
  \<^verbatim>\<open>delete_staging_dir\<close> is not called. On a request shorter than the request structure
  (here 16 bytes, the header alone) no daemon-info message is sent and the commit is not
  run, although the mount is read-write and the commit flag is set. When the daemon-info
  message cannot be sent the commit is not run either.\<close>

theorem unmount_request_paths_counterexample:
  "msg_unmount_request_handler K0 daemon_fine request_commit (daemon_handler_ctx 32) =
     (MSG_BREAK_LOOP,
      [Call_send_daemon_info_msg 4242 32, Call_send_unmount_finished_msg 0]) \<and>
   msg_unmount_request_handler K0 daemon_fine short_request (daemon_handler_ctx 33) =
     (MSG_BREAK_LOOP,
      [Call_delete_staging_dir, Call_send_unmount_finished_msg 21]) \<and>
   msg_unmount_request_handler K0 daemon_send_fails request_commit (daemon_handler_ctx 33) =
     (MSG_BREAK_LOOP,
      [Call_send_daemon_info_msg 4242 33, Call_delete_staging_dir,
       Call_send_unmount_finished_msg 29])"
  by (simp add: unmount_request_handler_full Let_def sizeof_msg_unmount_request_def
      send_daemon_info_msg_def short_request_def daemon_send_fails_def daemon_fine_def
      request_commit_def)

text \<open>
  C5 (as amended). On an unmount request the handler calls, in this order:
  \<^verbatim>\<open>send_daemon_info_msg\<close>, unless the request is shorter than the request structure;
  \<^verbatim>\<open>rebuild_wim\<close> exactly when the request is long enough, the daemon-info message has
  been sent, the mount is read-write and the request has the commit flag;
  \<^verbatim>\<open>delete_staging_dir\<close> exactly when the mount is read-write, on every path;
  \<^verbatim>\<open>send_unmount_finished_msg\<close>, always, with the status. The status is the first error
  met (\<^verbatim>\<open>WIMLIB_ERR_INVALID_UNMOUNT_MESSAGE\<close> for a short request, the error of the send, the
  return value of the commit); the return value of the deletion is reported only when
  the status is 0 until then. The handler returns \<^verbatim>\<open>MSG_BREAK_LOOP\<close>, on which the daemon's
  message loop returns 0 without another receive.
\<close>

theorem unmount_request_handled:
  "(let wf = (sizeof_msg_unmount_request \<le> unat (msg_size (hdr msg)));
        sent = (wf \<and> send_daemon_info_msg K env = 0);
        rw = (wimfs_mount_flags ctx AND WIMLIB_MOUNT_FLAG_READWRITE K \<noteq> 0);
        commit = (cell4 msg AND WIMLIB_UNMOUNT_FLAG_COMMIT K \<noteq> 0);
        status = (if \<not> wf then WIMLIB_ERR_INVALID_UNMOUNT_MESSAGE K
                  else if \<not> sent then send_daemon_info_msg K env
                  else if rw \<and> commit then rebuild_wim_ret env else 0)
    in msg_unmount_request_handler K env msg ctx =
         (MSG_BREAK_LOOP,
          (if wf then [Call_send_daemon_info_msg (getpid env) (wimfs_mount_flags ctx)]
           else []) @
          (if sent \<and> rw \<and> commit
           then [Call_rebuild_wim (commit_write_flags K (cell4 msg))] else []) @
          (if rw then [Call_delete_staging_dir] else []) @
          [Call_send_unmount_finished_msg
             (if rw \<and> status = 0 then delete_staging_dir_ret env else status)])) \<and>
   (send_daemon_info_msg K env = 0 \<longleftrightarrow>
      send_daemon_info_ok env \<or> WIMLIB_ERR_MQUEUE K = 0) \<and>
   (sizeof_unmount_msg_hdr \<le> n \<and> n = unat (msg_size (hdr msg)) \<and>
    min_version (hdr msg) \<le> WIMLIB_VERSION_CODE K \<and>
    msg_type (hdr msg) = MSG_TYPE_UNMOUNT_REQUEST \<longrightarrow>
      daemon_message_loop K env (MQ_RECEIVED n msg # rest) ctx [] =
        Some (0, Call_mq_timedreceive (timeout_seconds ctx) #
                 snd (msg_unmount_request_handler K env msg ctx)))"
proof -
  have a: "send_daemon_info_msg K env = 0 \<longleftrightarrow>
      send_daemon_info_ok env \<or> WIMLIB_ERR_MQUEUE K = 0"
    by (simp add: send_daemon_info_msg_def)
  have b: "sizeof_unmount_msg_hdr \<le> n \<and> n = unat (msg_size (hdr msg)) \<and>
    min_version (hdr msg) \<le> WIMLIB_VERSION_CODE K \<and>
    msg_type (hdr msg) = MSG_TYPE_UNMOUNT_REQUEST \<longrightarrow>
      daemon_message_loop K env (MQ_RECEIVED n msg # rest) ctx [] =
        Some (0, Call_mq_timedreceive (timeout_seconds ctx) #
                 snd (msg_unmount_request_handler K env msg ctx))"
    using daemon_loop_request[of n msg K env rest ctx] by blast
  show ?thesis
    using unmount_request_handler_full[of K env msg ctx] a b
    by (simp only: Let_def)
qed

text \<open>A commit on a read-write mount, and a request of 16 bytes on the same mount.\<close>

theorem unmount_request_handled_witness:
  "sizeof_unmount_msg_hdr \<le> 20 \<and> 20 = unat (msg_size (hdr request_commit)) \<and>
   min_version (hdr request_commit) \<le> WIMLIB_VERSION_CODE K0 \<and>
   msg_type (hdr request_commit) = MSG_TYPE_UNMOUNT_REQUEST \<and>
   msg_unmount_request_handler K0 daemon_fine request_commit (daemon_handler_ctx 33) =
     (MSG_BREAK_LOOP,
      [Call_send_daemon_info_msg 4242 33, Call_rebuild_wim 0, Call_delete_staging_dir,
       Call_send_unmount_finished_msg 0]) \<and>
   daemon_message_loop K0 daemon_fine [MQ_RECEIVED 20 request_commit] (daemon_handler_ctx 33) [] =
     Some (0, [Call_mq_timedreceive 5, Call_send_daemon_info_msg 4242 33, Call_rebuild_wim 0,
               Call_delete_staging_dir, Call_send_unmount_finished_msg 0]) \<and>
   sizeof_unmount_msg_hdr \<le> 16 \<and> 16 = unat (msg_size (hdr short_request)) \<and>
   min_version (hdr short_request) \<le> WIMLIB_VERSION_CODE K0 \<and>
   msg_type (hdr short_request) = MSG_TYPE_UNMOUNT_REQUEST \<and>
   daemon_message_loop K0 daemon_fine [MQ_RECEIVED 16 short_request] (daemon_handler_ctx 33) [] =
     Some (0, [Call_mq_timedreceive 5, Call_delete_staging_dir,
               Call_send_unmount_finished_msg 21])"
proof -
  have h3: "sizeof_unmount_msg_hdr \<le> 20 \<and> 20 = unat (msg_size (hdr request_commit)) \<and>
            min_version (hdr request_commit) \<le> WIMLIB_VERSION_CODE K0 \<and>
            msg_type (hdr request_commit) = MSG_TYPE_UNMOUNT_REQUEST"
    by (simp add: MSG_TYPE_UNMOUNT_REQUEST_def sizeof_unmount_msg_hdr_def)
  have h4: "sizeof_unmount_msg_hdr \<le> 16 \<and> 16 = unat (msg_size (hdr short_request)) \<and>
            min_version (hdr short_request) \<le> WIMLIB_VERSION_CODE K0 \<and>
            msg_type (hdr short_request) = MSG_TYPE_UNMOUNT_REQUEST"
    by (simp add: MSG_TYPE_UNMOUNT_REQUEST_def sizeof_unmount_msg_hdr_def short_request_def)
  note t = unmount_request_handled[of request_commit K0 daemon_fine "daemon_handler_ctx 33"
      20 "[]"]
  note u = unmount_request_handled[of short_request K0 daemon_fine "daemon_handler_ctx 33"
      16 "[]"]
  have a: "msg_unmount_request_handler K0 daemon_fine request_commit (daemon_handler_ctx 33) =
     (MSG_BREAK_LOOP,
      [Call_send_daemon_info_msg 4242 33, Call_rebuild_wim 0, Call_delete_staging_dir,
       Call_send_unmount_finished_msg 0])"
    using t[THEN conjunct1]
    by (simp add: Let_def sizeof_msg_unmount_request_def send_daemon_info_msg_def)
  have b: "daemon_message_loop K0 daemon_fine [MQ_RECEIVED 20 request_commit] (daemon_handler_ctx 33) [] =
     Some (0, [Call_mq_timedreceive 5, Call_send_daemon_info_msg 4242 33, Call_rebuild_wim 0,
               Call_delete_staging_dir, Call_send_unmount_finished_msg 0])"
    using t[THEN conjunct2, THEN conjunct2, THEN mp, OF h3] a
    by (simp del: daemon_message_loop.simps)
  have c: "msg_unmount_request_handler K0 daemon_fine short_request (daemon_handler_ctx 33) =
     (MSG_BREAK_LOOP, [Call_delete_staging_dir, Call_send_unmount_finished_msg 21])"
    using u[THEN conjunct1]
    by (simp add: Let_def sizeof_msg_unmount_request_def short_request_def request_commit_def)
  have d: "daemon_message_loop K0 daemon_fine [MQ_RECEIVED 16 short_request] (daemon_handler_ctx 33) [] =
     Some (0, [Call_mq_timedreceive 5, Call_delete_staging_dir,
               Call_send_unmount_finished_msg 21])"
    using u[THEN conjunct2, THEN conjunct2, THEN mp, OF h4] c
    by (simp del: daemon_message_loop.simps)
  show ?thesis using h3 a b h4 d by blast
qed

subsection \<open>The unmount command's message loop\<close>

lemmas proto_sizes = sizeof_unmount_msg_hdr_def sizeof_msg_unmount_request_def
  sizeof_msg_daemon_info_def sizeof_msg_unmount_finished_def
lemmas proto_types = MSG_TYPE_UNMOUNT_REQUEST_def MSG_TYPE_DAEMON_INFO_def
  MSG_TYPE_UNMOUNT_FINISHED_def MSG_TYPE_MAX_def
lemmas proto_rets = MSG_BREAK_LOOP_def MSG_VERSION_TOO_HIGH_def

lemma msg_type_max_cmp [simp]:
  "\<not> (3::u32) \<le> 0" "\<not> (3::u32) \<le> 1" "\<not> (3::u32) \<le> 2"
  by (simp_all add: word_le_nat_alt)

lemma receive_timeout_seconds:
  "timeout_seconds (snd (unmount_receive_message K r ctx)) =
     (if daemon_info_accepted K r then 1 else timeout_seconds ctx)"
  by (cases r)
     (auto simp: unmount_receive_message_def daemon_info_accepted_def accepted_def
        msg_daemon_info_handler_def msg_unmount_finished_handler_def proto_sizes proto_types
        not_less)

lemma receive_break:
  assumes "consts_ok K" "unmount_receive_message K r ctx = (MSG_BREAK_LOOP, ctx')"
  shows "unmount_finished_accepted K r \<and>
         (\<exists>n mb. r = MQ_RECEIVED n mb \<and> unmount_status ctx' = cell4 mb)"
  using assms
  by (cases r)
     (auto simp: unmount_receive_message_def unmount_finished_accepted_def accepted_def
        msg_daemon_info_handler_def msg_unmount_finished_handler_def proto_sizes proto_types
        proto_rets consts_ok_def not_less split: if_splits)

lemma receive_timeouts_append [simp]:
  "receive_timeouts (xs @ ys) = receive_timeouts xs @ receive_timeouts ys"
  by (simp add: receive_timeouts_def)

lemma receive_timeouts_recv [simp]:
  "receive_timeouts (Call_mq_timedreceive t # cs) = t # receive_timeouts cs"
  "receive_timeouts [] = []"
  by (simp_all add: receive_timeouts_def)

lemma receive_timeouts_cb [simp]:
  "receive_timeouts (snd (unmount_timed_out_cb K e ctx)) = []"
  by (auto simp: unmount_timed_out_cb_def receive_timeouts_def split: option.splits errno.splits)

lemma loop_timeouts:
  "unmount_message_loop K ts ctx calls = Some (ret, ctx', calls') \<Longrightarrow>
   \<exists>n. 0 < n \<and> n \<le> length ts \<and>
       receive_timeouts calls' =
         receive_timeouts calls @ take n (timeouts_in_force K ts (timeout_seconds ctx))"
proof (induction ts arbitrary: ctx calls)
  case Nil
  then show ?case by simp
next
  case (Cons t ts)
  obtain r ctx1 where rc: "unmount_receive_message K (received t) ctx = (r, ctx1)"
    by (cases "unmount_receive_message K (received t) ctx")
  have to1: "timeout_seconds ctx1 = (if daemon_info_accepted K (received t) then 1 else timeout_seconds ctx)"
    using receive_timeout_seconds[of K "received t" ctx] rc by simp
  obtain r2 calls2 where cb: "unmount_timed_out_cb K (kill_errno t) ctx1 = (r2, calls2)"
    by (cases "unmount_timed_out_cb K (kill_errno t) ctx1")
  have c2: "receive_timeouts calls2 = []"
    using receive_timeouts_cb[of K "kill_errno t" ctx1] cb by simp
  let ?c1 = "calls @ [Call_mq_timedreceive (timeout_seconds ctx)]"
  consider (rec1) "unmount_message_loop K ts ctx1 ?c1 = Some (ret, ctx', calls')"
    | (rec2) "unmount_message_loop K ts ctx1 (?c1 @ calls2) = Some (ret, ctx', calls')"
    | (stop1) "calls' = ?c1"
    | (stop2) "calls' = ?c1 @ calls2"
    using Cons.prems rc cb by (auto simp: Let_def split: if_splits)
  then show ?case
  proof cases
    case rec1
    from Cons.IH[OF rec1] obtain n where "0 < n" "n \<le> length ts"
      "receive_timeouts calls' = receive_timeouts ?c1 @ take n (timeouts_in_force K ts (timeout_seconds ctx1))"
      by blast
    then show ?thesis using to1 by (intro exI[of _ "Suc n"]) simp
  next
    case rec2
    from Cons.IH[OF rec2] obtain n where "0 < n" "n \<le> length ts"
      "receive_timeouts calls' = receive_timeouts (?c1 @ calls2) @ take n (timeouts_in_force K ts (timeout_seconds ctx1))"
      by blast
    then show ?thesis using to1 c2 by (intro exI[of _ "Suc n"]) simp
  next
    case stop1
    then show ?thesis by (intro exI[of _ "Suc 0"]) simp
  next
    case stop2
    then show ?thesis using c2 by (intro exI[of _ "Suc 0"]) simp
  qed
qed

lemma cb_nonzero:
  "consts_ok K \<Longrightarrow> unmount_timed_out_cb K e ctx = (r2, calls2) \<Longrightarrow> r2 = 0 \<Longrightarrow>
   unmount_daemon_pid ctx \<noteq> 0 \<and> e = None"
  by (auto simp: unmount_timed_out_cb_def consts_ok_def split: if_splits option.splits errno.splits)

lemma loop_success:
  "consts_ok K \<Longrightarrow> unmount_message_loop K ts ctx calls = Some (0, ctx', calls') \<Longrightarrow>
   \<exists>pre t post n mb. ts = pre @ t # post \<and> received t = MQ_RECEIVED n mb \<and>
      unmount_finished_accepted K (received t) \<and> unmount_status ctx' = cell4 mb"
proof (induction ts arbitrary: ctx calls)
  case Nil
  then show ?case by simp
next
  case (Cons t ts)
  obtain r ctx1 where rc: "unmount_receive_message K (received t) ctx = (r, ctx1)"
    by (cases "unmount_receive_message K (received t) ctx")
  obtain r2 calls2 where cb: "unmount_timed_out_cb K (kill_errno t) ctx1 = (r2, calls2)"
    by (cases "unmount_timed_out_cb K (kill_errno t) ctx1")
  have pos: "0 < WIMLIB_ERR_TIMEOUT K" "0 < WIMLIB_ERR_MQUEUE K"
      "0 < WIMLIB_ERR_INVALID_UNMOUNT_MESSAGE K" "0 < WIMLIB_ERR_FILESYSTEM_DAEMON_CRASHED K"
    using Cons.prems(1) by (simp_all add: consts_ok_def)
  consider (rec) c where "unmount_message_loop K ts ctx1 c = Some (0, ctx', calls')"
    | (brk) "r = MSG_BREAK_LOOP" "ctx' = ctx1"
    using Cons.prems(2) rc cb pos
    by (auto simp: Let_def proto_rets split: if_splits)
  then show ?case
  proof cases
    case rec
    from Cons.IH[OF Cons.prems(1) rec] obtain pre t' post n mb where
      "ts = pre @ t' # post" "received t' = MQ_RECEIVED n mb"
      "unmount_finished_accepted K (received t')" "unmount_status ctx' = cell4 mb"
      by blast
    then show ?thesis by (intro exI[of _ "t # pre"] exI[of _ t'] exI[of _ post] exI[of _ n] exI[of _ mb]) simp
  next
    case brk
    from receive_break[OF Cons.prems(1)] rc brk
    show ?thesis by (intro exI[of _ "[]"] exI[of _ t] exI[of _ ts]) auto
  qed
qed

lemma timeout_turn:
  assumes K: "consts_ok K" and t: "received t = MQ_FAILED ETIMEDOUT"
  shows "unmount_message_loop K (t # ts) ctx calls =
     (if unmount_daemon_pid ctx = 0
      then Some (WIMLIB_ERR_FILESYSTEM_DAEMON_CRASHED K, ctx,
                 calls @ [Call_mq_timedreceive (timeout_seconds ctx)])
      else if kill_errno t = Some ESRCH
      then Some (WIMLIB_ERR_FILESYSTEM_DAEMON_CRASHED K, ctx,
                 calls @ [Call_mq_timedreceive (timeout_seconds ctx),
                          Call_kill (unmount_daemon_pid ctx)])
      else if kill_errno t = None
      then unmount_message_loop K ts ctx
             (calls @ [Call_mq_timedreceive (timeout_seconds ctx),
                       Call_kill (unmount_daemon_pid ctx)])
      else Some (WIMLIB_ERR_MQUEUE K, ctx,
                 calls @ [Call_mq_timedreceive (timeout_seconds ctx),
                          Call_kill (unmount_daemon_pid ctx)]))"
proof -
  have pos: "0 < WIMLIB_ERR_TIMEOUT K" "0 < WIMLIB_ERR_MQUEUE K"
      "0 < WIMLIB_ERR_FILESYSTEM_DAEMON_CRASHED K"
    using K by (simp_all add: consts_ok_def)
  have rc: "unmount_receive_message K (received t) ctx = (WIMLIB_ERR_TIMEOUT K, ctx)"
    using t by (simp add: unmount_receive_message_def)
  show ?thesis
    using pos rc
    by (auto simp: Let_def proto_rets unmount_timed_out_cb_def split: option.splits errno.splits)
qed


text \<open>
  C6 (as amended). In the unmount command's message loop, with positive error codes:
  an accepted daemon-info message is handled with return value 0 and sets the receive
  timeout to 1 second, and the timeouts of the receives of a run are the timeout in force
  turn by turn (5 seconds from the start, 1 second after an accepted daemon-info message);
  when a receive times out, the loop fails with \<^verbatim>\<open>WIMLIB_ERR_FILESYSTEM_DAEMON_CRASHED\<close>
  without a probe if no daemon pid is known, and otherwise probes the pid with signal 0
  and fails with that code if the process is gone (\<open>ESRCH\<close>), goes on waiting if the
  probe succeeds, and fails with \<^verbatim>\<open>WIMLIB_ERR_MQUEUE\<close> on any other error; the loop returns
  0 only after an accepted unmount-finished message, whose status
  \<^verbatim>\<open>wimlib_unmount_image\<close> then returns.
\<close>

theorem unmount_loop_protocol:
  assumes K: "consts_ok K"
  shows
    "(daemon_info_accepted K r \<longrightarrow>
        fst (unmount_receive_message K r ctx0) = 0 \<and>
        timeout_seconds (snd (unmount_receive_message K r ctx0)) = 1) \<and>
     (unmount_message_loop K ts ctx calls = Some (ret, ctx', calls') \<longrightarrow>
        (\<exists>n. 0 < n \<and> n \<le> length ts \<and>
           receive_timeouts calls' =
             receive_timeouts calls @ take n (timeouts_in_force K ts (timeout_seconds ctx)))) \<and>
     (received t = MQ_FAILED ETIMEDOUT \<longrightarrow>
        unmount_message_loop K (t # us) ctx1 calls1 =
          (if unmount_daemon_pid ctx1 = 0
           then Some (WIMLIB_ERR_FILESYSTEM_DAEMON_CRASHED K, ctx1,
                      calls1 @ [Call_mq_timedreceive (timeout_seconds ctx1)])
           else if kill_errno t = Some ESRCH
           then Some (WIMLIB_ERR_FILESYSTEM_DAEMON_CRASHED K, ctx1,
                      calls1 @ [Call_mq_timedreceive (timeout_seconds ctx1),
                                Call_kill (unmount_daemon_pid ctx1)])
           else if kill_errno t = None
           then unmount_message_loop K us ctx1
                  (calls1 @ [Call_mq_timedreceive (timeout_seconds ctx1),
                             Call_kill (unmount_daemon_pid ctx1)])
           else Some (WIMLIB_ERR_MQUEUE K, ctx1,
                      calls1 @ [Call_mq_timedreceive (timeout_seconds ctx1),
                                Call_kill (unmount_daemon_pid ctx1)]))) \<and>
     (message_loop_unmount K mbr vs unmount_handler_ctx = Some (0, ctx2, calls2) \<longrightarrow>
        (\<exists>pre f post n mb.
           vs = pre @ f # post \<and> received f = MQ_RECEIVED n mb \<and>
           unmount_finished_accepted K (received f) \<and>
           wimlib_unmount_image_wait K mbr vs = Some (sint (cell4 mb), calls2)))"
proof -
  have a: "daemon_info_accepted K r \<longrightarrow>
        fst (unmount_receive_message K r ctx0) = 0 \<and>
        timeout_seconds (snd (unmount_receive_message K r ctx0)) = 1"
    using receive_timeout_seconds[of K r ctx0]
    by (cases r)
       (auto simp: unmount_receive_message_def daemon_info_accepted_def accepted_def
          msg_daemon_info_handler_def proto_sizes proto_types not_less)
  have b: "unmount_message_loop K ts ctx calls = Some (ret, ctx', calls') \<longrightarrow>
        (\<exists>n. 0 < n \<and> n \<le> length ts \<and>
           receive_timeouts calls' =
             receive_timeouts calls @ take n (timeouts_in_force K ts (timeout_seconds ctx)))"
    using loop_timeouts by blast
  note c = timeout_turn[OF K, of t us ctx1 calls1]
  have d: "message_loop_unmount K mbr vs unmount_handler_ctx = Some (0, ctx2, calls2) \<longrightarrow>
        (\<exists>pre f post n mb.
           vs = pre @ f # post \<and> received f = MQ_RECEIVED n mb \<and>
           unmount_finished_accepted K (received f) \<and>
           wimlib_unmount_image_wait K mbr vs = Some (sint (cell4 mb), calls2))"
  proof
    assume m: "message_loop_unmount K mbr vs unmount_handler_ctx = Some (0, ctx2, calls2)"
    have pos: "0 < WIMLIB_ERR_MQUEUE K" "0 < WIMLIB_ERR_NOMEM K"
      using K by (simp_all add: consts_ok_def)
    have gm: "get_mailbox K mbr = 0"
      using m pos by (auto simp: message_loop_unmount_def Let_def split: if_splits)
    then have l: "unmount_message_loop K vs unmount_handler_ctx [] = Some (0, ctx2, calls2)"
      using m by (simp add: message_loop_unmount_def Let_def)
    from loop_success[OF K l] obtain pre f post n mb where
      p: "vs = pre @ f # post" "received f = MQ_RECEIVED n mb"
         "unmount_finished_accepted K (received f)" "unmount_status ctx2 = cell4 mb"
      by blast
    have "wimlib_unmount_image_wait K mbr vs = Some (sint (cell4 mb), calls2)"
      using m p(4) by (simp add: wimlib_unmount_image_wait_def)
    with p show "\<exists>pre f post n mb.
           vs = pre @ f # post \<and> received f = MQ_RECEIVED n mb \<and>
           unmount_finished_accepted K (received f) \<and>
           wimlib_unmount_image_wait K mbr vs = Some (sint (cell4 mb), calls2)"
      by blast
  qed
  show ?thesis using a b c d by blast
qed

lemma consts_ok_K0: "consts_ok K0"
  by (simp add: consts_ok_def)

lemma info_accepted: "daemon_info_accepted K0 (MQ_RECEIVED 24 info_msg)"
  by (simp add: daemon_info_accepted_def accepted_def info_msg_def proto_sizes proto_types)

lemma unmount_run_loop:
  "unmount_message_loop K0 unmount_run unmount_handler_ctx [] =
     Some (0, unmount_run_ctx, unmount_run_calls)"
  by (simp add: unmount_run_def alive_timeout_def unmount_receive_message_def
      msg_daemon_info_handler_def msg_unmount_finished_handler_def unmount_timed_out_cb_def
      info_msg_def finished_msg_def unmount_handler_ctx_def unmount_run_ctx_def
      unmount_run_calls_def proto_sizes proto_types proto_rets Let_def)

text \<open>A run with daemon-info, a timeout with the daemon alive, and unmount-finished.\<close>

theorem unmount_loop_protocol_witness:
  "consts_ok K0 \<and>
   daemon_info_accepted K0 (MQ_RECEIVED 24 info_msg) \<and>
   timeout_seconds (snd (unmount_receive_message K0 (MQ_RECEIVED 24 info_msg) unmount_handler_ctx)) = 1 \<and>
   unmount_message_loop K0 unmount_run unmount_handler_ctx [] =
     Some (0, unmount_run_ctx, unmount_run_calls) \<and>
   receive_timeouts unmount_run_calls = [5, 1, 1] \<and>
   received alive_timeout = MQ_FAILED ETIMEDOUT \<and>
   unmount_message_loop K0 [alive_timeout] unmount_run_ctx [] = None \<and>
   message_loop_unmount K0 Mailbox_ok unmount_run unmount_handler_ctx =
     Some (0, unmount_run_ctx, unmount_run_calls) \<and>
   wimlib_unmount_image_wait K0 Mailbox_ok unmount_run = Some (7, unmount_run_calls)"
proof -
  note t = unmount_loop_protocol[OF consts_ok_K0,
      of "MQ_RECEIVED 24 info_msg" unmount_handler_ctx unmount_run unmount_handler_ctx "[]"
         0 unmount_run_ctx unmount_run_calls alive_timeout "[]" unmount_run_ctx "[]"
         Mailbox_ok unmount_run unmount_run_ctx unmount_run_calls]
  have m: "message_loop_unmount K0 Mailbox_ok unmount_run unmount_handler_ctx =
     Some (0, unmount_run_ctx, unmount_run_calls)"
    using unmount_run_loop by (simp add: message_loop_unmount_def get_mailbox_def)
  have at: "received alive_timeout = MQ_FAILED ETIMEDOUT" by (simp add: alive_timeout_def)
  have a: "timeout_seconds (snd (unmount_receive_message K0 (MQ_RECEIVED 24 info_msg) unmount_handler_ctx)) = 1"
    using t[THEN conjunct1] info_accepted by simp
  have b: "receive_timeouts unmount_run_calls = [5, 1, 1]"
    by (simp add: unmount_run_calls_def receive_timeouts_def)
  have c: "unmount_message_loop K0 [alive_timeout] unmount_run_ctx [] = None"
    using t[THEN conjunct2, THEN conjunct2, THEN conjunct1, THEN mp, OF at]
    by (simp add: unmount_run_ctx_def alive_timeout_def del: unmount_message_loop.simps(2))
  have d: "wimlib_unmount_image_wait K0 Mailbox_ok unmount_run = Some (7, unmount_run_calls)"
    using m by (simp add: wimlib_unmount_image_wait_def unmount_run_ctx_def)
  show ?thesis
    using consts_ok_K0 info_accepted a unmount_run_loop b at c m d by blast
qed

text \<open>A timeout before any daemon-info message, daemon alive: no probe, and the loop
  fails.\<close>

theorem unmount_timeout_before_info_counterexample:
  "wimlib_unmount_image_wait K0 Mailbox_ok [alive_timeout] =
     Some (WIMLIB_ERR_FILESYSTEM_DAEMON_CRASHED K0, [Call_mq_timedreceive 5])"
  by (simp add: wimlib_unmount_image_wait_def message_loop_unmount_def get_mailbox_def
      alive_timeout_def unmount_receive_message_def unmount_timed_out_cb_def
      unmount_handler_ctx_def proto_rets Let_def)

section \<open>Reading from a stream in the archive\<close>

subsection \<open>Signed and unsigned readings of 64-bit values\<close>

lemma sint64_unfold: "sint (w :: 64 word) = signed_take_bit (63::nat) (uint w)"
proof -
  have "LENGTH(64) - Suc 0 = 63" by simp
  with sint_uint[of w] show ?thesis by (simp only:)
qed

lemma sint64_small:
  assumes "uint (w :: 64 word) < 2 ^ 63"
  shows "sint w = uint w"
proof -
  have a: "- (2 ^ 63) \<le> uint w"
  proof -
    have "(0::int) \<le> uint w" by (rule uint_ge_0)
    moreover have "- (2 ^ 63) \<le> (0::int)" by simp
    ultimately show ?thesis by (rule order_trans[rotated])
  qed
  have "signed_take_bit (63::nat) (uint w) = uint w"
    by (rule signed_take_bit_int_eq_self[OF a assms])
  then show ?thesis by (simp only: sint64_unfold)
qed

lemma sint64_big:
  assumes "2 ^ 63 \<le> uint (w :: 64 word)"
  shows "sint w < 0"
proof -
  have a: "signed_take_bit (63::nat) (uint w) \<le> uint w - 2 ^ Suc 63"
    by (rule signed_take_bit_int_less_eq[OF assms])
  have b: "uint w < 2 ^ 64"
    using uint_range_size[of w] by (simp only: word_size) simp
  have c: "(2::int) ^ Suc 63 = 2 ^ 64" by simp
  have "signed_take_bit (63::nat) (uint w) < 0"
    using a b unfolding c by linarith
  then show ?thesis by (simp only: sint64_unfold)
qed

lemma sint64_nonneg_iff: "0 \<le> sint (w :: 64 word) \<longleftrightarrow> uint w < 2 ^ 63"
proof
  assume "0 \<le> sint w"
  show "uint w < 2 ^ 63"
  proof (rule ccontr)
    assume "\<not> uint w < 2 ^ 63"
    then have "2 ^ 63 \<le> uint w" by (simp only: not_less)
    from sint64_big[OF this] \<open>0 \<le> sint w\<close> show False by linarith
  qed
next
  assume a: "uint w < 2 ^ 63"
  have "(0::int) \<le> uint w" by (rule uint_ge_0)
  then show "0 \<le> sint w" by (simp only: sint64_small[OF a])
qed

lemma unat_uint_less_31: "unat (n :: 64 word) < 2 ^ 31 \<Longrightarrow> uint n < 2 ^ 31"
proof -
  assume a: "unat n < 2 ^ 31"
  have "int (unat n) < int (2 ^ 31)" using a by (simp only: of_nat_less_iff)
  moreover have "int (unat n) = uint n" by simp
  moreover have "int (2 ^ 31) = 2 ^ 31" by simp
  ultimately show ?thesis by (simp only:)
qed

lemma unat_uint_less_63: "unat (n :: 64 word) < 2 ^ 63 \<Longrightarrow> uint n < 2 ^ 63"
proof -
  assume a: "unat n < 2 ^ 63"
  have "int (unat n) < int (2 ^ 63)" using a by (simp only: of_nat_less_iff)
  moreover have "int (unat n) = uint n" by simp
  moreover have "int (2 ^ 63) = 2 ^ 63" by simp
  ultimately show ?thesis by (simp only:)
qed

lemma min_less_31: "(a::nat) < 2147483648 \<Longrightarrow> min a b < 2147483648"
  by (rule min.strict_coboundedI1)

subsection \<open>\<^verbatim>\<open>wimfs_read\<close> on a resource in the WIM\<close>

lemma to_int_small:
  assumes "unat n < 2 ^ 31"
  shows "to_int n = int (unat n)"
proof -
  have u: "uint n < 2 ^ 31" by (rule unat_uint_less_31[OF assms])
  have u0: "0 \<le> uint n" by (rule uint_ge_0)
  have "(2::int) ^ 31 < 2 ^ 32" by simp
  with u have "uint n < 2 ^ 32" by (rule less_trans)
  then have tb: "take_bit (32::nat) (uint n) = uint n"
    using u0 by (simp only: take_bit_int_eq_self)
  have "uint (ucast n :: 32 word) = take_bit LENGTH(32) (uint n)"
    by (rule unsigned_ucast_eq)
  then have e: "uint (ucast n :: 32 word) = uint n"
    using tb by simp
  have l: "LENGTH(32) - Suc 0 = 31" by simp
  have "sint (ucast n :: 32 word) = signed_take_bit (31::nat) (uint (ucast n :: 32 word))"
    using sint_uint[of "ucast n :: 32 word"] by (simp only: l)
  also have "\<dots> = signed_take_bit (31::nat) (uint n)" by (simp only: e)
  also have "\<dots> = uint n"
  proof (rule signed_take_bit_int_eq_self)
    have "- (2 ^ 31) \<le> (0::int)" by simp
    then show "- (2 ^ 31) \<le> uint n" using u0 by (rule order_trans)
    show "uint n < 2 ^ 31" by (rule u)
  qed
  finally have "sint (ucast n :: 32 word) = uint n" .
  then show ?thesis by (simp add: to_int_def)
qed

lemma unat_clipped:
  "offset \<le> res_sz \<Longrightarrow>
   unat (clipped_size sz res_sz offset) = min (unat sz) (unat res_sz - unat offset)"
  by (simp add: clipped_size_def min_def word_le_nat_alt unat_sub)

lemma wimfs_read_archive_unfold:
  assumes "f_lte fd = Some p" "ltes s p = Some l"
    "resource_location l \<noteq> RESOURCE_IN_STAGING_FILE"
  shows "wimfs_read s (Some fd) sz offset env =
     (if original_size l < offset then Some (- errno_val EOVERFLOW, [])
      else if read_wim_resource_ret env \<noteq> 0 then Some (- errno_val EIO, [])
      else Some (to_int (clipped_size sz (original_size l) offset),
                 take (unat (clipped_size sz (original_size l) offset))
                   (drop (unat offset) (res_data l))))"
  using assms by (simp add: wimfs_read_def Let_def)

text \<open>C7. A read through a handle whose descriptor is not in the staging directory:
  \<^item> if the offset is greater than the length of the resource (the comparison is the
    unsigned one the code makes), the call returns \<open>-EOVERFLOW\<close> and touches no byte;
  \<^item> otherwise the size is clipped to \<open>min(size, length - offset)\<close>, the call returns
    \<open>-EIO\<close> when the resource cannot be decoded and else the clipped size with the bytes
    of the resource from the offset on;
  \<^item> when the resource data has the declared length and the size fits the \<^verbatim>\<open>int\<close> the
    function returns, the value returned is the number of bytes delivered, which is exactly
    what is available from the offset: a read across the end returns the remaining bytes;
  \<^item> for an offset that is not negative the unsigned comparison is the comparison of
    the numbers, and a negative offset compares greater than any length below \<open>2^63\<close>,
    hence gives \<open>-EOVERFLOW\<close>.\<close>

theorem wimfs_read_from_archive:
  assumes fd: "f_lte fd = Some p" and l: "ltes s p = Some l"
    and loc: "resource_location l \<noteq> RESOURCE_IN_STAGING_FILE"
  shows
    "(original_size l < offset \<longrightarrow>
        wimfs_read s (Some fd) sz offset env = Some (- errno_val EOVERFLOW, [])) \<and>
     (offset \<le> original_size l \<longrightarrow>
        unat (clipped_size sz (original_size l) offset) =
          min (unat sz) (unat (original_size l) - unat offset) \<and>
        wimfs_read s (Some fd) sz offset env =
          (if read_wim_resource_ret env \<noteq> 0 then Some (- errno_val EIO, [])
           else Some (to_int (clipped_size sz (original_size l) offset),
                      take (min (unat sz) (unat (original_size l) - unat offset))
                        (drop (unat offset) (res_data l))))) \<and>
     (offset \<le> original_size l \<and> read_wim_resource_ret env = 0 \<and>
      length (res_data l) = unat (original_size l) \<and> unat sz < 2 ^ 31 \<longrightarrow>
        (let n = min (unat sz) (length (res_data l) - unat offset)
         in wimfs_read s (Some fd) sz offset env =
              Some (int n, take n (drop (unat offset) (res_data l))) \<and>
            length (take n (drop (unat offset) (res_data l))) = n)) \<and>
     (0 \<le> sint offset \<longrightarrow>
        (original_size l < offset \<longleftrightarrow> int (unat (original_size l)) < sint offset)) \<and>
     (sint offset < 0 \<and> unat (original_size l) < 2 ^ 63 \<longrightarrow> original_size l < offset)"
proof -
  note unf = wimfs_read_archive_unfold[OF fd l loc, of sz offset env]
  have a: "original_size l < offset \<longrightarrow>
        wimfs_read s (Some fd) sz offset env = Some (- errno_val EOVERFLOW, [])"
    unfolding unf by simp
  have b: "offset \<le> original_size l \<longrightarrow>
        unat (clipped_size sz (original_size l) offset) =
          min (unat sz) (unat (original_size l) - unat offset) \<and>
        wimfs_read s (Some fd) sz offset env =
          (if read_wim_resource_ret env \<noteq> 0 then Some (- errno_val EIO, [])
           else Some (to_int (clipped_size sz (original_size l) offset),
                      take (min (unat sz) (unat (original_size l) - unat offset))
                        (drop (unat offset) (res_data l))))"
    unfolding unf using unat_clipped[of offset "original_size l" sz]
    by (simp add: not_less[symmetric])
  have c: "offset \<le> original_size l \<and> read_wim_resource_ret env = 0 \<and>
      length (res_data l) = unat (original_size l) \<and> unat sz < 2 ^ 31 \<longrightarrow>
        (let n = min (unat sz) (length (res_data l) - unat offset)
         in wimfs_read s (Some fd) sz offset env =
              Some (int n, take n (drop (unat offset) (res_data l))) \<and>
            length (take n (drop (unat offset) (res_data l))) = n)"
  proof
    assume h: "offset \<le> original_size l \<and> read_wim_resource_ret env = 0 \<and>
      length (res_data l) = unat (original_size l) \<and> unat sz < 2 ^ 31"
    let ?c = "clipped_size sz (original_size l) offset"
    have uc: "unat ?c = min (unat sz) (length (res_data l) - unat offset)"
      using unat_clipped[of offset "original_size l" sz] h by simp
    have "unat sz < 2147483648" using h by simp
    then have "min (unat sz) (length (res_data l) - unat offset) < 2147483648"
      by (rule min_less_31)
    then have "unat ?c < 2 ^ 31" unfolding uc by simp
    from to_int_small[OF this] have ti: "to_int ?c = int (unat ?c)" .
    have "wimfs_read s (Some fd) sz offset env =
            Some (int (unat ?c), take (unat ?c) (drop (unat offset) (res_data l)))"
      unfolding unf using h ti by (simp add: not_less[symmetric])
    then show "let n = min (unat sz) (length (res_data l) - unat offset)
         in wimfs_read s (Some fd) sz offset env =
              Some (int n, take n (drop (unat offset) (res_data l))) \<and>
            length (take n (drop (unat offset) (res_data l))) = n"
      unfolding uc by (simp add: Let_def)
  qed
  have d: "0 \<le> sint offset \<longrightarrow>
        (original_size l < offset \<longleftrightarrow> int (unat (original_size l)) < sint offset)"
  proof
    assume "0 \<le> sint offset"
    then have "uint offset < 2 ^ 63" by (simp only: sint64_nonneg_iff)
    from sint64_small[OF this] have "sint offset = uint offset" .
    then show "original_size l < offset \<longleftrightarrow> int (unat (original_size l)) < sint offset"
      by (simp add: word_less_def)
  qed
  have e: "sint offset < 0 \<and> unat (original_size l) < 2 ^ 63 \<longrightarrow> original_size l < offset"
  proof
    assume h: "sint offset < 0 \<and> unat (original_size l) < 2 ^ 63"
    have "\<not> uint offset < 2 ^ 63"
      using h sint64_nonneg_iff[of offset] by linarith
    then have "2 ^ 63 \<le> uint offset" by (simp only: not_less)
    moreover have "uint (original_size l) < 2 ^ 63"
      using h unat_uint_less_63[of "original_size l"] by blast
    ultimately show "original_size l < offset"
      by (simp only: word_less_def)
  qed
  show ?thesis using a b c d e by blast
qed

text \<open>The file \<open>/x\<close> of five bytes: a read of 10 bytes at offset 3 returns the last two
  bytes, a read at offset 6 returns \<open>-EOVERFLOW\<close>, a read at the negative offset \<open>-1\<close>
  as well.\<close>

theorem wimfs_read_from_archive_witness:
  "f_lte handle0 = Some 100 \<and> ltes shared_state 100 = Some blob_hello \<and>
   resource_location blob_hello \<noteq> RESOURCE_IN_STAGING_FILE \<and>
   (3::u64) \<le> original_size blob_hello \<and> read_wim_resource_ret read_fine = 0 \<and>
   length (res_data blob_hello) = unat (original_size blob_hello) \<and>
   unat (10::u64) < 2 ^ 31 \<and>
   wimfs_read shared_state (Some handle0) 10 3 read_fine = Some (2, [108, 111]) \<and>
   original_size blob_hello < (6::u64) \<and>
   wimfs_read shared_state (Some handle0) 10 6 read_fine = Some (- errno_val EOVERFLOW, []) \<and>
   sint (- 1 :: off_t) < 0 \<and> unat (original_size blob_hello) < 2 ^ 63 \<and>
   wimfs_read shared_state (Some handle0) 10 (- 1) read_fine = Some (- errno_val EOVERFLOW, [])"
proof -
  have h1: "f_lte handle0 = Some 100" by (simp add: handle0_def)
  have h2: "ltes shared_state 100 = Some blob_hello" by (simp add: shared_state_def)
  have h3: "resource_location blob_hello \<noteq> RESOURCE_IN_STAGING_FILE"
    by (simp add: blob_hello_def)
  have o: "original_size blob_hello = 5" "res_data blob_hello = hello"
    by (simp_all add: blob_hello_def)
  have c3: "(3::u64) \<le> original_size blob_hello \<and> read_wim_resource_ret read_fine = 0 \<and>
      length (res_data blob_hello) = unat (original_size blob_hello) \<and>
      unat (10::u64) < 2 ^ 31"
    by (simp add: o hello_def read_fine_def word_le_nat_alt)
  have c6: "original_size blob_hello < (6::u64)"
    by (simp add: o word_less_nat_alt)
  have cm: "sint (- 1 :: off_t) < 0 \<and> unat (original_size blob_hello) < 2 ^ 63"
    by (simp add: o)
  note t3 = wimfs_read_from_archive[OF h1 h2 h3, where offset = 3 and sz = 10
      and env = read_fine]
  note t6 = wimfs_read_from_archive[OF h1 h2 h3, where offset = 6 and sz = 10
      and env = read_fine]
  note tm = wimfs_read_from_archive[OF h1 h2 h3, where offset = "- 1" and sz = 10
      and env = read_fine]
  have r3: "wimfs_read shared_state (Some handle0) 10 3 read_fine = Some (2, [108, 111])"
    using t3[THEN conjunct2, THEN conjunct2, THEN conjunct1, THEN mp, OF c3]
    by (simp add: Let_def o hello_def)
  have r6: "wimfs_read shared_state (Some handle0) 10 6 read_fine
              = Some (- errno_val EOVERFLOW, [])"
    using t6[THEN conjunct1, THEN mp, OF c6] .
  have lm: "original_size blob_hello < (- 1 :: off_t)"
    using tm[THEN conjunct2, THEN conjunct2, THEN conjunct2, THEN conjunct2, THEN mp, OF cm] .
  have rm: "wimfs_read shared_state (Some handle0) 10 (- 1) read_fine
              = Some (- errno_val EOVERFLOW, [])"
    using tm[THEN conjunct1, THEN mp, OF lm] .
  show ?thesis using h1 h2 h3 c3 r3 c6 r6 cm rm by blast
qed

section \<open>Staging evaluated on concrete mounts\<close>

text \<open>The path lookups and the runs used below: \<open>/x\<close> of \<open>shared_state\<close> truncated to its five bytes (the blob is
  shared with \<open>/y\<close>, hence split), and \<open>/x\<close> of \<open>own_state\<close> truncated to three bytes (the
  blob belongs to \<open>/x\<close> alone, hence re-used).\<close>

lemma lookup_resource_a: "lookup_resource empty_file_state ''/a'' = Some (Inr (3, None, 0))"
  by (simp add: lookup_resource_def empty_file_state_def inode_a_def
      inode_stream_lte_resolved_def stream_ltes_def)

lemma lookup_x_shared: "lookup_resource shared_state ''/x'' = Some (Inr (1, Some 100, 0))"
  by (simp add: lookup_resource_def shared_state_def inode_x_def
      inode_stream_lte_resolved_def stream_ltes_def)

lemma lookup_x_own: "lookup_resource own_state ''/x'' = Some (Inr (1, Some 100, 0))"
  by (simp add: lookup_resource_def own_state_def inode_x_def
      inode_stream_lte_resolved_def stream_ltes_def)

lemma create_shared:
  "create_staging_file shared_state staging_fine =
     Some (Inr (staging_name, 3,
       shared_state\<lparr>staging_files := [staging_name \<mapsto> []], open_fds := {#3#}\<rparr>))"
  by (simp add: create_staging_file_def staging_fine_def shared_state_def)

lemma create_own:
  "create_staging_file own_state staging_fine =
     Some (Inr (staging_name, 3,
       own_state\<lparr>staging_files := [staging_name \<mapsto> []], open_fds := {#3#}\<rparr>))"
  by (simp add: create_staging_file_def staging_fine_def own_state_def)

lemma rebind_x:
  "rebind_fds (Some handle0 # replicate 7 None) (Suc 0) 0 0 101 (\<lambda>k. Inr (4 + k)) =
   Some (Some handle0_rebound # replicate 7 None, 1, [4], None)"
  by (simp add: handle0_def handle0_rebound_def)

lemma content_hello5: "staging_file_content (Some blob_hello) 5 = hello"
  by (simp add: staging_file_content_def staging_extract_size_def blob_hello_def hello_def
      word_sless_alt)

lemma content_hello3: "staging_file_content (Some (blob_hello\<lparr>refcnt := 1\<rparr>)) 3 = [72, 101, 108]"
  by (simp add: staging_file_content_def staging_extract_size_def blob_hello_def hello_def
      word_sless_alt)

lemma extract_shared:
  "extract_resource_to_staging_dir shared_state 1 0 (Some 100) 5 staging_fine =
     Some (0, Some 101, shared_state_staged)"
  apply (simp add: extract_resource_to_staging_dir_def create_shared Let_def)
  apply (simp add: shared_state_def staging_fine_def staging_extract_size_def content_hello5 word_sless_alt)
  apply (simp add: blob_hello_def)
  apply (simp add: stage_descriptor_def inode_x_def rebind_x Let_def finish_staging_def set_stream_lte_def new_lookup_table_entry_def)
  apply (simp add: shared_state_staged_def shared_state_def inode_x_def blob_hello_def staged_blob_def handle0_def handle0_rebound_def)
  done

lemma extract_own:
  "extract_resource_to_staging_dir own_state 1 0 (Some 100) 3 staging_fine =
     Some (0, Some 100, own_state_staged)"
  apply (simp add: extract_resource_to_staging_dir_def create_own Let_def)
  apply (simp add: own_state_def staging_fine_def staging_extract_size_def content_hello3 word_sless_alt)
  apply (simp add: blob_hello_def)
  apply (simp add: stage_descriptor_def inode_x_def Let_def finish_staging_def set_stream_lte_def)
  apply (simp add: own_state_staged_def own_state_def inode_x_def blob_hello_def)
  done

lemma truncate_shared:
  "wimfs_truncate shared_state ''/x'' 5 None staging_fine = Some (0, shared_state_staged)"
proof -
  have i: "inodes shared_state 1 = Some inode_x" by (simp add: shared_state_def)
  have sid: "stream_id_of inode_x 0 = Some 0" by (simp add: stream_id_of_def)
  have l: "ltes shared_state 100 = Some blob_hello" by (simp add: shared_state_def)
  have loc: "resource_location blob_hello = RESOURCE_IN_WIM" by (simp add: blob_hello_def)
  show ?thesis
    using i sid l loc extract_shared
    by (simp add: wimfs_truncate_def lookup_x_shared)
qed

lemma lookup_x_staged:
  "lookup_resource shared_state_staged ''/x'' = Some (Inr (1, Some 101, 0))"
  by (simp add: lookup_resource_def shared_state_staged_def shared_state_def
      inode_stream_lte_resolved_def stream_ltes_def)

lemma truncate_own:
  "wimfs_truncate own_state ''/x'' 3 None staging_fine = Some (0, own_state_staged)"
proof -
  have i: "inodes own_state 1 = Some inode_x" by (simp add: own_state_def)
  have sid: "stream_id_of inode_x 0 = Some 0" by (simp add: stream_id_of_def)
  have l: "ltes own_state 100 = Some (blob_hello\<lparr>refcnt := 1\<rparr>)" by (simp add: own_state_def)
  have loc: "resource_location blob_hello = RESOURCE_IN_WIM" by (simp add: blob_hello_def)
  show ?thesis
    using i sid l loc extract_own
    by (simp add: wimfs_truncate_def lookup_x_own)
qed

lemma open_own:
  "alloc_wimlib_fd own_state_closed 1 0 (Some 100) False alloc_fine =
     Some (0, Some handle0, own_state)"
  by (simp add: alloc_wimlib_fd_def own_state_closed_def closed_inode_x_def own_state_def inode_x_def
      grow_fds_def fds_per_alloc_def max_fds_def alloc_fine_def Let_def handle0_def
      lte_inc_num_opened_fds_def blob_hello_def replicate_8)


section \<open>Truncating to the current size\<close>

lemma lookup_resource_InrD:
  assumes "lookup_resource s path = Some (Inr (ip, lte, stream_idx))"
  shows "\<exists>i sid. inodes s ip = Some i \<and> stream_id_of i stream_idx = Some sid"
proof -
  from assms obtain i where i: "inodes s ip = Some i"
    and k: "stream_idx < length (stream_ltes i)"
    by (auto simp: lookup_resource_def inode_stream_lte_resolved_def
        split: option.splits prod.splits if_splits)
  from k have "stream_id_of i stream_idx \<noteq> None"
    by (auto simp: stream_id_of_def stream_ltes_def)
  with i show ?thesis by auto
qed

lemma truncated_same: "length c = unat sz \<Longrightarrow> truncated c sz = c"
  by (simp add: truncated_def)

text \<open>The claim C8 as stated fails on a stream that resides in the archive: the file \<open>/x\<close>
  of \<open>shared_state\<close> has five bytes, and truncating it to five bytes returns 0 with a new
  staging file, a new descriptor 101 for the stream, and the reference count of the old
  descriptor lowered from 2 to 1.\<close>

theorem wimfs_truncate_same_size_counterexample:
  "lookup_resource shared_state ''/x'' = Some (Inr (1, Some 100, 0)) \<and>
   map_option original_size (ltes shared_state 100) = Some 5 \<and>
   wimfs_truncate shared_state ''/x'' 5 None staging_fine = Some (0, shared_state_staged) \<and>
   staging_files shared_state staging_name = None \<and>
   staging_files shared_state_staged staging_name = Some hello \<and>
   ltes shared_state 101 = None \<and>
   map_option resource_location (ltes shared_state_staged 101) = Some RESOURCE_IN_STAGING_FILE \<and>
   map_option i_lte (inodes shared_state 1) = Some (Some 100) \<and>
   map_option i_lte (inodes shared_state_staged 1) = Some (Some 101) \<and>
   map_option refcnt (ltes shared_state 100) = Some 2 \<and>
   map_option refcnt (ltes shared_state_staged 100) = Some 1"
proof -
  have "map_option original_size (ltes shared_state 100) = Some 5"
    "staging_files shared_state staging_name = None"
    "ltes shared_state 101 = None"
    "map_option i_lte (inodes shared_state 1) = Some (Some 100)"
    "map_option refcnt (ltes shared_state 100) = Some 2"
    by (simp_all add: shared_state_def blob_hello_def inode_x_def)
  moreover have
    "staging_files shared_state_staged staging_name = Some hello"
    "map_option resource_location (ltes shared_state_staged 101) = Some RESOURCE_IN_STAGING_FILE"
    "map_option i_lte (inodes shared_state_staged 1) = Some (Some 101)"
    "map_option refcnt (ltes shared_state_staged 100) = Some 1"
    by (simp_all add: shared_state_staged_def staged_blob_def)
  ultimately show ?thesis using lookup_x_shared truncate_shared by simp
qed

text \<open>C8, amended. Let the path resolve to a stream. If the stream has no descriptor, a
  truncate to size 0 returns 0 and leaves the mount as it is. If the descriptor of the
  stream is in the staging directory and the size is the length of its staging file,
  the truncate returns 0, or the error of the \<^verbatim>\<open>truncate\<close> call, and leaves the mount as it
  is: no staging file is created, no descriptor allocated or replaced, no reference count
  changed. If the descriptor is not in the staging directory, the result is that of
  \<^verbatim>\<open>extract_resource_to_staging_dir\<close> with the size given, whatever that size is.\<close>

theorem wimfs_truncate_noop:
  assumes lk: "lookup_resource s path = Some (Inr (ip, lte, stream_idx))"
  shows
    "(lte = None \<longrightarrow> wimfs_truncate s path 0 te env = Some (0, s)) \<and>
     (\<forall>p l name c.
        lte = Some p \<and> ltes s p = Some l \<and>
        resource_location l = RESOURCE_IN_STAGING_FILE \<and>
        staging_file_name l = Some name \<and> staging_files s name = Some c \<and>
        length c = unat sz \<longrightarrow>
        wimfs_truncate s path sz te env =
          Some (case te of None \<Rightarrow> 0 | Some e \<Rightarrow> - errno_val e, s)) \<and>
     (\<forall>p l i sid. lte = Some p \<and> ltes s p = Some l \<and>
        resource_location l \<noteq> RESOURCE_IN_STAGING_FILE \<and>
        inodes s ip = Some i \<and> stream_id_of i stream_idx = Some sid \<longrightarrow>
        wimfs_truncate s path sz te env =
          map_option (\<lambda>(ret, lte', s'). (ret, s'))
            (extract_resource_to_staging_dir s ip sid lte sz env))"
proof -
  from lookup_resource_InrD[OF lk] obtain i sid
    where i: "inodes s ip = Some i" and sid: "stream_id_of i stream_idx = Some sid"
    by blast
  have a: "lte = None \<longrightarrow> wimfs_truncate s path 0 te env = Some (0, s)"
    by (simp add: wimfs_truncate_def lk)
  have b: "\<forall>p l name c.
        lte = Some p \<and> ltes s p = Some l \<and>
        resource_location l = RESOURCE_IN_STAGING_FILE \<and>
        staging_file_name l = Some name \<and> staging_files s name = Some c \<and>
        length c = unat sz \<longrightarrow>
        wimfs_truncate s path sz te env =
          Some (case te of None \<Rightarrow> 0 | Some e \<Rightarrow> - errno_val e, s)"
  proof (intro allI impI)
    fix p l name c
    assume h: "lte = Some p \<and> ltes s p = Some l \<and>
        resource_location l = RESOURCE_IN_STAGING_FILE \<and>
        staging_file_name l = Some name \<and> staging_files s name = Some c \<and>
        length c = unat sz"
    then have "(staging_files s)(name \<mapsto> truncated c sz) = staging_files s"
      by (simp add: truncated_same fun_upd_idem)
    then show "wimfs_truncate s path sz te env =
          Some (case te of None \<Rightarrow> 0 | Some e \<Rightarrow> - errno_val e, s)"
      using h by (simp add: wimfs_truncate_def lk i sid split: option.splits)
  qed
  have c: "\<forall>p l i sid. lte = Some p \<and> ltes s p = Some l \<and>
        resource_location l \<noteq> RESOURCE_IN_STAGING_FILE \<and>
        inodes s ip = Some i \<and> stream_id_of i stream_idx = Some sid \<longrightarrow>
        wimfs_truncate s path sz te env =
          map_option (\<lambda>(ret, lte', s'). (ret, s'))
            (extract_resource_to_staging_dir s ip sid lte sz env)"
    by (auto simp: wimfs_truncate_def lk)
  show ?thesis using a b c by blast
qed

text \<open>The empty file \<open>/a\<close> truncated to 0, and the staged file \<open>/x\<close> of five bytes truncated
  to 5.\<close>

theorem wimfs_truncate_noop_witness:
  "lookup_resource empty_file_state ''/a'' = Some (Inr (3, None, 0)) \<and>
   wimfs_truncate empty_file_state ''/a'' 0 None staging_fine = Some (0, empty_file_state) \<and>
   lookup_resource shared_state_staged ''/x'' = Some (Inr (1, Some 101, 0)) \<and>
   ltes shared_state_staged 101 = Some ((staged_blob staging_name 1)\<lparr>lte_num_opened_fds := 1\<rparr>) \<and>
   staging_files shared_state_staged staging_name = Some hello \<and>
   length hello = unat (5 :: off_t) \<and>
   wimfs_truncate shared_state_staged ''/x'' 5 None staging_fine = Some (0, shared_state_staged)"
proof -
  note t1 = wimfs_truncate_noop[OF lookup_resource_a, where sz = 0 and te = None
      and env = staging_fine]
  note t2 = wimfs_truncate_noop[OF lookup_x_staged, where sz = 5 and te = None
      and env = staging_fine]
  have l: "ltes shared_state_staged 101 =
      Some ((staged_blob staging_name 1)\<lparr>lte_num_opened_fds := 1\<rparr>)"
    by (simp add: shared_state_staged_def)
  have f: "staging_files shared_state_staged staging_name = Some hello"
    by (simp add: shared_state_staged_def)
  have n: "length hello = unat (5 :: off_t)" by (simp add: hello_def)
  have r1: "wimfs_truncate empty_file_state ''/a'' 0 None staging_fine
              = Some (0, empty_file_state)"
    using t1[THEN conjunct1] by simp
  have h: "Some 101 = Some 101 \<and>
      ltes shared_state_staged 101 = Some ((staged_blob staging_name 1)\<lparr>lte_num_opened_fds := 1\<rparr>) \<and>
      resource_location ((staged_blob staging_name 1)\<lparr>lte_num_opened_fds := 1\<rparr>)
        = RESOURCE_IN_STAGING_FILE \<and>
      staging_file_name ((staged_blob staging_name 1)\<lparr>lte_num_opened_fds := 1\<rparr>)
        = Some staging_name \<and>
      staging_files shared_state_staged staging_name = Some hello \<and>
      length hello = unat (5 :: off_t)"
    using l f n by (simp add: staged_blob_def)
  have r2: "wimfs_truncate shared_state_staged ''/x'' 5 None staging_fine
              = Some (0, shared_state_staged)"
    using t2[THEN conjunct2, THEN conjunct1, THEN spec, THEN spec, THEN spec, THEN spec,
        THEN mp, OF h] by simp
  show ?thesis using lookup_resource_a r1 lookup_x_staged l f n r2 by blast
qed

section \<open>Handles open on a stream whose descriptor is re-used\<close>

text \<open>C2. The half of the claim about a shared descriptor holds on \<open>shared_state\<close>: staging
  \<open>/x\<close> splits the blob, the old descriptor keeps reference count \<open>2 - 1\<close>, the new one has
  reference count 1 and is in the staging directory, the handle open on \<open>/x\<close> is rebound
  with a native descriptor of its own, and a read through \<open>/y\<close> still returns the
  original first byte.

  The half about a descriptor that is not shared fails for handles already open. The file
  \<open>/x\<close> of \<open>own_state\<close> is open once (the handle is the one \<^verbatim>\<open>alloc_wimlib_fd\<close> returned, and a
  read through it returns the five bytes). The truncate to three bytes re-uses descriptor
  100, which is now in the staging directory, and leaves the handle array as it was: the
  handle has no native descriptor (\<^verbatim>\<open>staging_fd\<close> is \<open>-1\<close>), against the assertion in
  \<^verbatim>\<open>wimfs_read\<close>, and the next read through it returns \<open>-EBADF\<close>.\<close>

theorem staging_reuse_leaves_handle_unbound:
  "wimfs_truncate shared_state ''/x'' 5 None staging_fine = Some (0, shared_state_staged) \<and>
   map_option refcnt (ltes shared_state 100) = Some 2 \<and>
   map_option link_count (inodes shared_state 1) = Some 1 \<and>
   map_option refcnt (ltes shared_state_staged 100) = Some 1 \<and>
   map_option refcnt (ltes shared_state_staged 101) = Some 1 \<and>
   map_option resource_location (ltes shared_state_staged 101) = Some RESOURCE_IN_STAGING_FILE \<and>
   map_option i_lte (inodes shared_state_staged 2) = Some (Some 100) \<and>
   wimfs_read shared_state_staged
     (Some \<lparr>f_inode = 2, f_lte = Some 100, staging_fd = - 1, idx = 0, fd_stream_id = 0\<rparr>)
     1 0 read_fine = Some (1, [72]) \<and>
   map_option fds (inodes shared_state_staged 1) =
     Some (Some handle0_rebound # replicate 7 None) \<and>
   wimfs_read shared_state_staged (Some handle0_rebound) 5 0 read_fine = Some (5, hello) \<and>
   alloc_wimlib_fd own_state_closed 1 0 (Some 100) False alloc_fine =
     Some (0, Some handle0, own_state) \<and>
   wimfs_read own_state (Some handle0) 5 0 read_fine = Some (5, hello) \<and>
   map_option link_count (inodes own_state 1) = Some 1 \<and>
   map_option refcnt (ltes own_state 100) = Some 1 \<and>
   wimfs_truncate own_state ''/x'' 3 None staging_fine = Some (0, own_state_staged) \<and>
   map_option resource_location (ltes own_state_staged 100) = Some RESOURCE_IN_STAGING_FILE \<and>
   map_option fds (inodes own_state_staged 1) = Some (Some handle0 # replicate 7 None) \<and>
   f_lte handle0 = Some 100 \<and> staging_fd handle0 = - 1 \<and>
   open_fds own_state_staged = {#} \<and>
   wimfs_read own_state_staged (Some handle0) 5 0 read_fine = Some (- errno_val EBADF, [])"
proof -
  have s1: "map_option refcnt (ltes shared_state 100) = Some 2"
    "map_option link_count (inodes shared_state 1) = Some 1"
    by (simp_all add: shared_state_def blob_hello_def inode_x_def)
  have s2: "map_option refcnt (ltes shared_state_staged 100) = Some 1"
    "map_option refcnt (ltes shared_state_staged 101) = Some 1"
    "map_option resource_location (ltes shared_state_staged 101)
       = Some RESOURCE_IN_STAGING_FILE"
    "map_option i_lte (inodes shared_state_staged 2) = Some (Some 100)"
    "map_option fds (inodes shared_state_staged 1)
       = Some (Some handle0_rebound # replicate 7 None)"
    by (simp_all add: shared_state_staged_def shared_state_def staged_blob_def inode_y_def)
  have s3: "wimfs_read shared_state_staged
     (Some \<lparr>f_inode = 2, f_lte = Some 100, staging_fd = - 1, idx = 0, fd_stream_id = 0\<rparr>)
     1 0 read_fine = Some (1, [72])"
    by (simp add: wimfs_read_def shared_state_staged_def shared_state_def blob_hello_def
        read_fine_def clipped_size_def to_int_def hello_def Let_def)
  have s4: "wimfs_read shared_state_staged (Some handle0_rebound) 5 0 read_fine
              = Some (5, hello)"
    by (simp add: wimfs_read_def shared_state_staged_def shared_state_def staged_blob_def
        handle0_rebound_def handle0_def read_fine_def to_int_def hello_def Let_def)
  have a: "wimfs_read own_state (Some handle0) 5 0 read_fine = Some (5, hello)"
    by (simp add: wimfs_read_def handle0_def own_state_def blob_hello_def read_fine_def
        clipped_size_def to_int_def hello_def Let_def)
  have b: "map_option link_count (inodes own_state 1) = Some 1"
    "map_option refcnt (ltes own_state 100) = Some 1"
    by (simp_all add: own_state_def inode_x_def)
  have c: "map_option resource_location (ltes own_state_staged 100)
             = Some RESOURCE_IN_STAGING_FILE"
    "map_option fds (inodes own_state_staged 1) = Some (Some handle0 # replicate 7 None)"
    "open_fds own_state_staged = {#}"
    by (simp_all add: own_state_staged_def own_state_def inode_x_def)
  have d: "f_lte handle0 = Some 100" "staging_fd handle0 = - 1"
    by (simp_all add: handle0_def)
  have e: "wimfs_read own_state_staged (Some handle0) 5 0 read_fine
             = Some (- errno_val EBADF, [])"
    by (simp add: wimfs_read_def handle0_def own_state_staged_def own_state_def)
  show ?thesis
    using truncate_shared s1 s2 s3 s4 open_own a b truncate_own c d e by simp
qed

section \<open>The reference-count invariant under \<^verbatim>\<open>wimfs_setxattr\<close>\<close>

lemma sum_v: "link_count_sum xattr_state 100 = 1"
  by (simp add: link_count_sum_def xattr_state_def inode_v_def inode_xy_def stream_ltes_def)

lemma inv_before: "refcnt_invariant xattr_state"
  using sum_v by (simp add: refcnt_invariant_def xattr_state_def blob_v_def)

lemma setxattr_run:
  "wimfs_setxattr K0 xattr_state ''/x'' ''user.meta'' [118] 0 xattr_fine =
     Some (0, xattr_state_after)"
  apply (simp add: wimfs_setxattr_def Let_def)
  apply (simp add: xattr_state_def inode_xy_def xattr_fine_def XATTR_REPLACE_def)
  apply (simp add: setxattr_attach_def inode_add_ads_def lookup_resource_by_hash_def Let_def blob_v_def)
  apply (simp add: xattr_state_after_def xattr_state_def inode_xy_def blob_v_def)
  done

lemma sum_after: "link_count_sum xattr_state_after 100 = 3"
  by (simp add: link_count_sum_def xattr_state_after_def xattr_state_def inode_v_def
      inode_xy_def stream_ltes_def)

text \<open>C1. The claim is that every descriptor in the lookup table has as its reference count
  the sum of the link counts of the inodes that refer to it, and that \<^verbatim>\<open>wimfs_setxattr\<close>
  among others keeps it so. In \<open>xattr_state\<close> the invariant holds: the blob of \<open>/v\<close> has
  reference count 1 and one inode with one link refers to it. Setting the attribute
  \<open>user.meta\<close> with the value \<open>v\<close> on \<open>/x\<close>, an inode with the two links \<open>/x\<close> and \<open>/y\<close>,
  finds that blob by its hash and executes \<^verbatim>\<open>lte->refcnt++\<close>: the reference count is 2,
  the link counts of the inodes that refer to the blob sum to 3, and the invariant is
  broken.\<close>

theorem setxattr_breaks_refcnt_invariant:
  "refcnt_invariant xattr_state \<and>
   map_option link_count (inodes xattr_state 2) = Some 2 \<and>
   map_option refcnt (ltes xattr_state 100) = Some 1 \<and>
   link_count_sum xattr_state 100 = 1 \<and>
   wimfs_setxattr K0 xattr_state ''/x'' ''user.meta'' [118] 0 xattr_fine =
     Some (0, xattr_state_after) \<and>
   map_option stream_ltes (inodes xattr_state_after 2) = Some [None, Some 100] \<and>
   map_option refcnt (ltes xattr_state_after 100) = Some 2 \<and>
   link_count_sum xattr_state_after 100 = 3 \<and>
   \<not> refcnt_invariant xattr_state_after"
proof -
  have a: "map_option link_count (inodes xattr_state 2) = Some 2"
    "map_option refcnt (ltes xattr_state 100) = Some 1"
    by (simp_all add: xattr_state_def inode_xy_def blob_v_def)
  have b: "map_option stream_ltes (inodes xattr_state_after 2) = Some [None, Some 100]"
    "map_option refcnt (ltes xattr_state_after 100) = Some 2"
    by (simp_all add: xattr_state_after_def stream_ltes_def inode_xy_def)
  have c: "\<not> refcnt_invariant xattr_state_after"
    using sum_after
    by (simp add: refcnt_invariant_def xattr_state_after_def xattr_state_def)
  show ?thesis using inv_before a sum_v setxattr_run b sum_after c by simp
qed

section \<open>The rehash step of the commit\<close>

lemma ads_update_map:
  "map ads_lte (ads_update_lte_ptr as old new) = redirect_first (map ads_lte as) old new"
  by (induction as) simp_all

lemma stream_ltes_update:
  "stream_ltes (inode_update_lte_ptr i old new) = redirect_first (stream_ltes i) old new"
  by (simp add: stream_ltes_def inode_update_lte_ptr_def ads_update_map)

lemma find_SomeD: "find P xs = Some x \<Longrightarrow> x \<in> set xs \<and> P x"
  by (induction xs) (auto split: if_splits)

lemma lookup_by_hash_SomeD:
  assumes "lookup_resource_by_hash s h = Some d"
  shows "d \<in> set (lookup_table s) \<and> (\<exists>dl. ltes s d = Some dl \<and> hash dl = h)"
  using find_SomeD[OF assms[unfolded lookup_resource_by_hash_def]]
  by (auto split: option.splits)

lemma remove1_distinct_notin: "distinct xs \<Longrightarrow> d \<in> set (remove1 p xs) \<Longrightarrow> d \<noteq> p"
  by auto

text \<open>C4. One step of the rehash, on a descriptor \<open>p\<close> of the staging list whose staging
  file can be read and hashed, whose owning inode exists, in a lookup table that holds
  every descriptor at most once. The SHA-1 of the staging file is looked up in the table,
  from which \<open>p\<close> has been taken out.
  \<^item> If a descriptor \<open>d\<close> with that digest is found, the step returns 0; \<open>d\<close> is another
    descriptor, its reference count has grown by that of \<open>p\<close>, the first stream of the
    owning inode that referred to \<open>p\<close> refers to \<open>d\<close>, and \<open>p\<close> is freed and no longer in
    the table.
  \<^item> If none is found and the staging file is empty, the step returns 0; the stream
    refers to no descriptor, and \<open>p\<close> is freed and no longer in the table.
  \<^item> If none is found and the file is not empty, the step returns 0; \<open>p\<close> carries the
    digest, the location \<^verbatim>\<open>RESOURCE_IN_FILE_ON_DISK\<close> and the length of the file as its
    size, it is in the table again, where a lookup of the digest finds it, and the inodes
    are as before.
  In each case the other descriptors and the other inodes are as before.\<close>

theorem update_lte_of_staging_file_cases:
  assumes l: "ltes s p = Some l" and name: "staging_file_name l = Some name"
    and c: "staging_files s name = Some c" and sha: "sha1sum_ret env = 0"
    and own: "lte_inode l = Some ip" and i: "inodes s ip = Some i"
    and dist: "distinct (lookup_table s)"
  shows
    "(\<forall>d. lookup_resource_by_hash (s\<lparr>lookup_table := remove1 p (lookup_table s)\<rparr>)
             (sha1 env c) = Some d \<longrightarrow>
        (\<exists>dl s'. update_lte_of_staging_file K s p env = Some (0, s') \<and>
           d \<noteq> p \<and> ltes s d = Some dl \<and> hash dl = sha1 env c \<and>
           ltes s' d = Some (dl\<lparr>refcnt := refcnt dl + refcnt l\<rparr>) \<and>
           ltes s' p = None \<and>
           inodes s' ip = Some (inode_update_lte_ptr i p (Some d)) \<and>
           stream_ltes (inode_update_lte_ptr i p (Some d))
             = redirect_first (stream_ltes i) p (Some d) \<and>
           lookup_table s' = remove1 p (lookup_table s) \<and>
           (\<forall>q. q \<noteq> d \<and> q \<noteq> p \<longrightarrow> ltes s' q = ltes s q) \<and>
           (\<forall>j. j \<noteq> ip \<longrightarrow> inodes s' j = inodes s j))) \<and>
     (lookup_resource_by_hash (s\<lparr>lookup_table := remove1 p (lookup_table s)\<rparr>)
        (sha1 env c) = None \<and> stat_ok env \<and> c = [] \<longrightarrow>
        (\<exists>s'. update_lte_of_staging_file K s p env = Some (0, s') \<and>
           ltes s' p = None \<and>
           inodes s' ip = Some (inode_update_lte_ptr i p None) \<and>
           stream_ltes (inode_update_lte_ptr i p None)
             = redirect_first (stream_ltes i) p None \<and>
           lookup_table s' = remove1 p (lookup_table s) \<and>
           (\<forall>q. q \<noteq> p \<longrightarrow> ltes s' q = ltes s q) \<and>
           (\<forall>j. j \<noteq> ip \<longrightarrow> inodes s' j = inodes s j))) \<and>
     (lookup_resource_by_hash (s\<lparr>lookup_table := remove1 p (lookup_table s)\<rparr>)
        (sha1 env c) = None \<and> stat_ok env \<and> c \<noteq> [] \<longrightarrow>
        (\<exists>s'. update_lte_of_staging_file K s p env = Some (0, s') \<and>
           ltes s' p = Some (l\<lparr>original_size := of_nat (length c),
                                res_size := of_nat (length c),
                                resource_location := RESOURCE_IN_FILE_ON_DISK,
                                hash := sha1 env c\<rparr>) \<and>
           lookup_table s' = p # remove1 p (lookup_table s) \<and>
           lookup_resource_by_hash s' (sha1 env c) = Some p \<and>
           inodes s' = inodes s \<and>
           (\<forall>q. q \<noteq> p \<longrightarrow> ltes s' q = ltes s q)))"
proof -
  let ?s1 = "s\<lparr>lookup_table := remove1 p (lookup_table s)\<rparr>"
  let ?h = "sha1 env c"
  have merge: "\<forall>d. lookup_resource_by_hash ?s1 ?h = Some d \<longrightarrow>
        (\<exists>dl s'. update_lte_of_staging_file K s p env = Some (0, s') \<and>
           d \<noteq> p \<and> ltes s d = Some dl \<and> hash dl = sha1 env c \<and>
           ltes s' d = Some (dl\<lparr>refcnt := refcnt dl + refcnt l\<rparr>) \<and>
           ltes s' p = None \<and>
           inodes s' ip = Some (inode_update_lte_ptr i p (Some d)) \<and>
           stream_ltes (inode_update_lte_ptr i p (Some d))
             = redirect_first (stream_ltes i) p (Some d) \<and>
           lookup_table s' = remove1 p (lookup_table s) \<and>
           (\<forall>q. q \<noteq> d \<and> q \<noteq> p \<longrightarrow> ltes s' q = ltes s q) \<and>
           (\<forall>j. j \<noteq> ip \<longrightarrow> inodes s' j = inodes s j))"
  proof (intro allI impI)
    fix d
    assume d: "lookup_resource_by_hash ?s1 ?h = Some d"
    from lookup_by_hash_SomeD[OF d] obtain dl
      where din: "d \<in> set (remove1 p (lookup_table s))"
        and dl: "ltes s d = Some dl" and hd: "hash dl = ?h"
      by auto
    have dp: "d \<noteq> p" by (rule remove1_distinct_notin[OF dist din])
    let ?s' = "s\<lparr>lookup_table := remove1 p (lookup_table s),
                  ltes := (ltes s)(d \<mapsto> dl\<lparr>refcnt := refcnt dl + refcnt l\<rparr>, p := None),
                  inodes := (inodes s)(ip \<mapsto> inode_update_lte_ptr i p (Some d))\<rparr>"
    have run: "update_lte_of_staging_file K s p env = Some (0, ?s')"
      using l name c sha own i d dl
      by (simp add: update_lte_of_staging_file_def Let_def redirect_and_free_def)
    show "\<exists>dl s'. update_lte_of_staging_file K s p env = Some (0, s') \<and>
           d \<noteq> p \<and> ltes s d = Some dl \<and> hash dl = sha1 env c \<and>
           ltes s' d = Some (dl\<lparr>refcnt := refcnt dl + refcnt l\<rparr>) \<and>
           ltes s' p = None \<and>
           inodes s' ip = Some (inode_update_lte_ptr i p (Some d)) \<and>
           stream_ltes (inode_update_lte_ptr i p (Some d))
             = redirect_first (stream_ltes i) p (Some d) \<and>
           lookup_table s' = remove1 p (lookup_table s) \<and>
           (\<forall>q. q \<noteq> d \<and> q \<noteq> p \<longrightarrow> ltes s' q = ltes s q) \<and>
           (\<forall>j. j \<noteq> ip \<longrightarrow> inodes s' j = inodes s j)"
      apply (rule exI[of _ dl])
      apply (rule exI[of _ ?s'])
      using run dp dl hd by (simp add: stream_ltes_update)
  qed
  have empty: "lookup_resource_by_hash ?s1 ?h = None \<and> stat_ok env \<and> c = [] \<longrightarrow>
        (\<exists>s'. update_lte_of_staging_file K s p env = Some (0, s') \<and>
           ltes s' p = None \<and>
           inodes s' ip = Some (inode_update_lte_ptr i p None) \<and>
           stream_ltes (inode_update_lte_ptr i p None)
             = redirect_first (stream_ltes i) p None \<and>
           lookup_table s' = remove1 p (lookup_table s) \<and>
           (\<forall>q. q \<noteq> p \<longrightarrow> ltes s' q = ltes s q) \<and>
           (\<forall>j. j \<noteq> ip \<longrightarrow> inodes s' j = inodes s j))"
  proof
    assume h: "lookup_resource_by_hash ?s1 ?h = None \<and> stat_ok env \<and> c = []"
    let ?s' = "s\<lparr>lookup_table := remove1 p (lookup_table s),
                  inodes := (inodes s)(ip \<mapsto> inode_update_lte_ptr i p None),
                  ltes := (ltes s)(p := None)\<rparr>"
    from h have h1: "lookup_resource_by_hash ?s1 ?h = None" by (rule conjunct1)
    from h have h2: "stat_ok env" by (rule conjunct2[THEN conjunct1])
    from h have "c = []" by (rule conjunct2[THEN conjunct2])
    then have h3: "length c = 0" by simp
    have run: "update_lte_of_staging_file K s p env = Some (0, ?s')"
      using l name c sha own i h1 h2 h3
      by (simp add: update_lte_of_staging_file_def Let_def redirect_and_free_def
          del: length_0_conv)
    show "\<exists>s'. update_lte_of_staging_file K s p env = Some (0, s') \<and>
           ltes s' p = None \<and>
           inodes s' ip = Some (inode_update_lte_ptr i p None) \<and>
           stream_ltes (inode_update_lte_ptr i p None)
             = redirect_first (stream_ltes i) p None \<and>
           lookup_table s' = remove1 p (lookup_table s) \<and>
           (\<forall>q. q \<noteq> p \<longrightarrow> ltes s' q = ltes s q) \<and>
           (\<forall>j. j \<noteq> ip \<longrightarrow> inodes s' j = inodes s j)"
      apply (rule exI[of _ ?s'])
      using run by (simp add: stream_ltes_update)
  qed
  have rekey: "lookup_resource_by_hash ?s1 ?h = None \<and> stat_ok env \<and> c \<noteq> [] \<longrightarrow>
        (\<exists>s'. update_lte_of_staging_file K s p env = Some (0, s') \<and>
           ltes s' p = Some (l\<lparr>original_size := of_nat (length c),
                                res_size := of_nat (length c),
                                resource_location := RESOURCE_IN_FILE_ON_DISK,
                                hash := sha1 env c\<rparr>) \<and>
           lookup_table s' = p # remove1 p (lookup_table s) \<and>
           lookup_resource_by_hash s' (sha1 env c) = Some p \<and>
           inodes s' = inodes s \<and>
           (\<forall>q. q \<noteq> p \<longrightarrow> ltes s' q = ltes s q))"
  proof
    assume h: "lookup_resource_by_hash ?s1 ?h = None \<and> stat_ok env \<and> c \<noteq> []"
    let ?s' = "s\<lparr>lookup_table := p # remove1 p (lookup_table s),
                  ltes := (ltes s)(p \<mapsto> l\<lparr>original_size := of_nat (length c),
                                res_size := of_nat (length c),
                                resource_location := RESOURCE_IN_FILE_ON_DISK,
                                hash := sha1 env c\<rparr>)\<rparr>"
    from h have h1: "lookup_resource_by_hash ?s1 ?h = None" by (rule conjunct1)
    from h have h2: "stat_ok env" by (rule conjunct2[THEN conjunct1])
    from h have "c \<noteq> []" by (rule conjunct2[THEN conjunct2])
    then have h3: "length c \<noteq> 0" by simp
    have run: "update_lte_of_staging_file K s p env = Some (0, ?s')"
      using l name c sha own i h1 h2 h3
      by (simp add: update_lte_of_staging_file_def Let_def)
    show "\<exists>s'. update_lte_of_staging_file K s p env = Some (0, s') \<and>
           ltes s' p = Some (l\<lparr>original_size := of_nat (length c),
                                res_size := of_nat (length c),
                                resource_location := RESOURCE_IN_FILE_ON_DISK,
                                hash := sha1 env c\<rparr>) \<and>
           lookup_table s' = p # remove1 p (lookup_table s) \<and>
           lookup_resource_by_hash s' (sha1 env c) = Some p \<and>
           inodes s' = inodes s \<and>
           (\<forall>q. q \<noteq> p \<longrightarrow> ltes s' q = ltes s q)"
      apply (rule exI[of _ ?s'])
      using run by (simp add: lookup_resource_by_hash_def)
  qed
  show ?thesis using merge empty rekey by blast
qed

lemma commit_ltes:
  "ltes commit_state 100 = Some blob_v"
  "ltes commit_state 201 = Some (staged_blob ''s/x'' 2)"
  "ltes commit_state 202 = Some (staged_blob ''s/e'' 3)"
  "ltes commit_state 203 = Some (staged_blob ''s/n'' 4)"
  by (simp_all add: commit_state_def)

lemma commit_inodes:
  "inodes commit_state 2 = Some (staged_inode 2 201)"
  "inodes commit_state 3 = Some (staged_inode 3 202)"
  "inodes commit_state 4 = Some (staged_inode 4 203)"
  by (simp_all add: commit_state_def)

lemma commit_files:
  "staging_files commit_state ''s/x'' = Some [118]"
  "staging_files commit_state ''s/e'' = Some []"
  "staging_files commit_state ''s/n'' = Some [110, 101, 119]"
  by (simp_all add: commit_state_def)

lemma staged_blob_fields:
  "staging_file_name (staged_blob name ip) = Some name"
  "lte_inode (staged_blob name ip) = Some ip"
  "refcnt (staged_blob name ip) = 1"
  by (simp_all add: staged_blob_def)

lemma commit_distinct: "distinct (lookup_table commit_state)"
  by (simp add: commit_state_def)

lemma rehash_fine_ok: "sha1sum_ret rehash_fine = 0" "stat_ok rehash_fine"
  by (simp_all add: rehash_fine_def)

lemma sha1_v_not_replicate: "sha1_v \<noteq> replicate n x"
proof (cases n)
  case 0
  then show ?thesis by (simp add: sha1_v_def)
next
  case (Suc m)
  then show ?thesis by (cases m) (auto simp: sha1_v_def)
qed

lemma replicate_not_sha1_v: "replicate n x \<noteq> sha1_v"
  using sha1_v_not_replicate[of n x] by (simp only: not_sym not_False_eq_True)

lemma commit_lookup_x:
  "lookup_resource_by_hash
     (commit_state\<lparr>lookup_table := remove1 201 (lookup_table commit_state)\<rparr>)
     (sha1 rehash_fine [118]) = Some 100"
  by (simp add: lookup_resource_by_hash_def commit_state_def rehash_fine_def staged_blob_def
      blob_v_def sha1_v_not_replicate replicate_not_sha1_v)

lemma commit_lookup_e:
  "lookup_resource_by_hash
     (commit_state\<lparr>lookup_table := remove1 202 (lookup_table commit_state)\<rparr>)
     (sha1 rehash_fine []) = None"
  by (simp add: lookup_resource_by_hash_def commit_state_def rehash_fine_def staged_blob_def
      blob_v_def sha1_v_not_replicate replicate_not_sha1_v)

lemma commit_lookup_n:
  "lookup_resource_by_hash
     (commit_state\<lparr>lookup_table := remove1 203 (lookup_table commit_state)\<rparr>)
     (sha1 rehash_fine [110, 101, 119]) = None"
  by (simp add: lookup_resource_by_hash_def commit_state_def rehash_fine_def staged_blob_def
      blob_v_def sha1_v_not_replicate replicate_not_sha1_v)

text \<open>The three cases on \<open>commit_state\<close>: the staging file of \<open>/x\<close> has the content of \<open>/v\<close>
  and is merged into its blob, that of \<open>/e\<close> is empty, that of \<open>/n\<close> is new content of three
  bytes.\<close>

theorem update_lte_of_staging_file_cases_witness:
  "ltes commit_state 201 = Some (staged_blob ''s/x'' 2) \<and>
   staging_files commit_state ''s/x'' = Some [118] \<and>
   inodes commit_state 2 = Some (staged_inode 2 201) \<and>
   distinct (lookup_table commit_state) \<and> sha1sum_ret rehash_fine = 0 \<and>
   stat_ok rehash_fine \<and>
   lookup_resource_by_hash
     (commit_state\<lparr>lookup_table := remove1 201 (lookup_table commit_state)\<rparr>)
     (sha1 rehash_fine [118]) = Some 100 \<and>
   (\<exists>s'. update_lte_of_staging_file K0 commit_state 201 rehash_fine = Some (0, s') \<and>
      map_option refcnt (ltes s' 100) = Some 2 \<and> ltes s' 201 = None \<and>
      map_option stream_ltes (inodes s' 2) = Some [Some 100]) \<and>
   lookup_resource_by_hash
     (commit_state\<lparr>lookup_table := remove1 202 (lookup_table commit_state)\<rparr>)
     (sha1 rehash_fine []) = None \<and>
   (\<exists>s'. update_lte_of_staging_file K0 commit_state 202 rehash_fine = Some (0, s') \<and>
      ltes s' 202 = None \<and> map_option stream_ltes (inodes s' 3) = Some [None]) \<and>
   lookup_resource_by_hash
     (commit_state\<lparr>lookup_table := remove1 203 (lookup_table commit_state)\<rparr>)
     (sha1 rehash_fine [110, 101, 119]) = None \<and>
   (\<exists>s'. update_lte_of_staging_file K0 commit_state 203 rehash_fine = Some (0, s') \<and>
      map_option resource_location (ltes s' 203) = Some RESOURCE_IN_FILE_ON_DISK \<and>
      map_option original_size (ltes s' 203) = Some 3 \<and>
      map_option hash (ltes s' 203) = Some (replicate 20 3) \<and>
      lookup_resource_by_hash s' (replicate 20 3) = Some 203)"
proof -
  note tx = update_lte_of_staging_file_cases[OF commit_ltes(2) staged_blob_fields(1)
      commit_files(1) rehash_fine_ok(1) staged_blob_fields(2) commit_inodes(1)
      commit_distinct, where K = K0]
  note te = update_lte_of_staging_file_cases[OF commit_ltes(3) staged_blob_fields(1)
      commit_files(2) rehash_fine_ok(1) staged_blob_fields(2) commit_inodes(2)
      commit_distinct, where K = K0]
  note tn = update_lte_of_staging_file_cases[OF commit_ltes(4) staged_blob_fields(1)
      commit_files(3) rehash_fine_ok(1) staged_blob_fields(2) commit_inodes(3)
      commit_distinct, where K = K0]
  have rx: "\<exists>s'. update_lte_of_staging_file K0 commit_state 201 rehash_fine = Some (0, s') \<and>
      map_option refcnt (ltes s' 100) = Some 2 \<and> ltes s' 201 = None \<and>
      map_option stream_ltes (inodes s' 2) = Some [Some 100]"
  proof -
    from tx[THEN conjunct1, THEN spec, THEN mp, OF commit_lookup_x]
    obtain dl s' where
      r: "update_lte_of_staging_file K0 commit_state 201 rehash_fine = Some (0, s')"
      and dl: "ltes commit_state 100 = Some dl"
      and d: "ltes s' 100 = Some (dl\<lparr>refcnt := refcnt dl + refcnt (staged_blob ''s/x'' 2)\<rparr>)"
      and p: "ltes s' 201 = None"
      and i: "inodes s' 2 = Some (inode_update_lte_ptr (staged_inode 2 201) 201 (Some 100))"
      and st: "stream_ltes (inode_update_lte_ptr (staged_inode 2 201) 201 (Some 100))
                 = redirect_first (stream_ltes (staged_inode 2 201)) 201 (Some 100)"
      by blast
    from dl have "dl = blob_v" by (simp add: commit_ltes)
    then have "map_option refcnt (ltes s' 100) = Some 2"
      using d by (simp add: blob_v_def staged_blob_def)
    moreover have "map_option stream_ltes (inodes s' 2) = Some [Some 100]"
      using i st by (simp add: stream_ltes_def staged_inode_def)
    ultimately show ?thesis using r p by blast
  qed
  have re: "\<exists>s'. update_lte_of_staging_file K0 commit_state 202 rehash_fine = Some (0, s') \<and>
      ltes s' 202 = None \<and> map_option stream_ltes (inodes s' 3) = Some [None]"
  proof -
    have h: "lookup_resource_by_hash
        (commit_state\<lparr>lookup_table := remove1 202 (lookup_table commit_state)\<rparr>)
        (sha1 rehash_fine []) = None \<and> stat_ok rehash_fine \<and> ([] :: u8 list) = []"
      using commit_lookup_e rehash_fine_ok(2) by simp
    from te[THEN conjunct2, THEN conjunct1, THEN mp, OF h]
    obtain s' where
      r: "update_lte_of_staging_file K0 commit_state 202 rehash_fine = Some (0, s')"
      and p: "ltes s' 202 = None"
      and i: "inodes s' 3 = Some (inode_update_lte_ptr (staged_inode 3 202) 202 None)"
      and st: "stream_ltes (inode_update_lte_ptr (staged_inode 3 202) 202 None)
                 = redirect_first (stream_ltes (staged_inode 3 202)) 202 None"
      by blast
    have "map_option stream_ltes (inodes s' 3) = Some [None]"
      using i st by (simp add: stream_ltes_def staged_inode_def)
    then show ?thesis using r p by blast
  qed
  have rn: "\<exists>s'. update_lte_of_staging_file K0 commit_state 203 rehash_fine = Some (0, s') \<and>
      map_option resource_location (ltes s' 203) = Some RESOURCE_IN_FILE_ON_DISK \<and>
      map_option original_size (ltes s' 203) = Some 3 \<and>
      map_option hash (ltes s' 203) = Some (replicate 20 3) \<and>
      lookup_resource_by_hash s' (replicate 20 3) = Some 203"
  proof -
    have h: "lookup_resource_by_hash
        (commit_state\<lparr>lookup_table := remove1 203 (lookup_table commit_state)\<rparr>)
        (sha1 rehash_fine [110, 101, 119]) = None \<and> stat_ok rehash_fine \<and>
        [110, 101, 119 :: u8] \<noteq> []"
      using commit_lookup_n rehash_fine_ok(2) by simp
    have sh: "sha1 rehash_fine [110, 101, 119] = replicate 20 3"
      by (simp add: rehash_fine_def)
    from tn[THEN conjunct2, THEN conjunct2, THEN mp, OF h]
    obtain s' where
      r: "update_lte_of_staging_file K0 commit_state 203 rehash_fine = Some (0, s')"
      and p: "ltes s' 203 = Some ((staged_blob ''s/n'' 4)
                 \<lparr>original_size := of_nat (length [110, 101, 119 :: u8]),
                  res_size := of_nat (length [110, 101, 119 :: u8]),
                  resource_location := RESOURCE_IN_FILE_ON_DISK,
                  hash := sha1 rehash_fine [110, 101, 119]\<rparr>)"
      and lk: "lookup_resource_by_hash s' (sha1 rehash_fine [110, 101, 119]) = Some 203"
      by blast
    show ?thesis using r p lk unfolding sh by auto
  qed
  show ?thesis
    using commit_ltes(2) commit_files(1) commit_inodes(1) commit_distinct rehash_fine_ok
      commit_lookup_x rx commit_lookup_e re commit_lookup_n rn
    by blast
qed

section \<open>Truncating a stream that has no descriptor\<close>

text \<open>C10. The claim is that \<^verbatim>\<open>wimfs_truncate\<close> returns a result for every size on a stream
  without a descriptor. The code tests \<^verbatim>\<open>lte == NULL && size == 0\<close> only: for the empty file
  \<open>/a\<close>, whose stream has no descriptor, a truncate to size 0 returns 0 and leaves the
  state as it is, and a truncate to size 5 goes on to read \<^verbatim>\<open>lte->resource_location\<close>
  through the null pointer and returns nothing.\<close>

theorem wimfs_truncate_null_lte:
  "lookup_resource empty_file_state ''/a'' = Some (Inr (3, None, 0)) \<and>
   wimfs_truncate empty_file_state ''/a'' 0 None staging_fine = Some (0, empty_file_state) \<and>
   wimfs_truncate empty_file_state ''/a'' 5 None staging_fine = None"
proof -
  have i: "inodes empty_file_state 3 = Some inode_a" by (simp add: empty_file_state_def)
  have sid: "stream_id_of inode_a 0 = Some 0" by (simp add: stream_id_of_def)
  show ?thesis
    by (simp add: wimfs_truncate_def lookup_resource_a i sid)
qed

end
